theory Spec2Isabelle
  imports Complex_Main
begin

section \<open>Vectors and entities\<close>

text \<open>
  JavaScript numbers are modelled as real numbers, so rounding is not represented;
  \<open>Math.sqrt\<close>, \<open>Math.cos\<close> and \<open>Math.sin\<close> are the real functions.  Counters that only
  ever hold integers (lives, level, loop counts) are integers.  \<open>Vector2\<close>, \<open>Transform\<close>
  and \<open>Entity\<close> are the interfaces of \<open>core/types.ts\<close>; the scale of a transform is the
  field \<open>tscale\<close>.
\<close>

record Vector2 =
  vx :: real
  vy :: real

type_synonym Shape = "Vector2 list"

record Transform =
  position :: Vector2
  rotation :: real
  tscale :: real

record Entity =
  transform :: Transform
  velocity :: Vector2
  angularVelocity :: real
  shape :: Shape
  radius :: real
  isActive :: bool

text \<open>The vector helpers of \<open>physics/math.ts\<close>.\<close>

definition add :: "Vector2 \<Rightarrow> Vector2 \<Rightarrow> Vector2" where
  "add a b = \<lparr>vx = vx a + vx b, vy = vy a + vy b\<rparr>"

definition subtract :: "Vector2 \<Rightarrow> Vector2 \<Rightarrow> Vector2" where
  "subtract a b = \<lparr>vx = vx a - vx b, vy = vy a - vy b\<rparr>"

definition scale :: "Vector2 \<Rightarrow> real \<Rightarrow> Vector2" where
  "scale v scalar = \<lparr>vx = vx v * scalar, vy = vy v * scalar\<rparr>"

definition magnitude :: "Vector2 \<Rightarrow> real" where
  "magnitude v = sqrt (vx v * vx v + vy v * vy v)"

definition rotate_v :: "Vector2 \<Rightarrow> real \<Rightarrow> Vector2" where
  "rotate_v point angle =
     \<lparr>vx = vx point * cos angle - vy point * sin angle,
      vy = vx point * sin angle + vy point * cos angle\<rparr>"

definition distance :: "Vector2 \<Rightarrow> Vector2 \<Rightarrow> real" where
  "distance a b =
     (let dx = vx b - vx a; dy = vy b - vy a in sqrt (dx * dx + dy * dy))"

definition angleToVector :: "real \<Rightarrow> Vector2" where
  "angleToVector angle = \<lparr>vx = sin angle, vy = - cos angle\<rparr>"

section \<open>Collision detection (\<open>physics/collision.ts\<close>)\<close>

definition checkCollision :: "'a Entity_scheme \<Rightarrow> 'b Entity_scheme \<Rightarrow> bool" where
  "checkCollision a b =
     (if \<not> isActive a \<or> \<not> isActive b then False
      else
        (let dist = distance (position (transform a)) (position (transform b))
         in dist < radius a + radius b))"

text \<open>\<open>wrapEntity\<close> moves an entity that left the field by more than its radius to the
  opposite edge.\<close>

definition wrapEntity :: "'a Entity_scheme \<Rightarrow> real \<Rightarrow> real \<Rightarrow> 'a Entity_scheme" where
  "wrapEntity entity width height =
     (let pos = position (transform entity);
          margin = radius entity;
          x1 = (if vx pos < - margin then width + margin
                else if vx pos > width + margin then - margin else vx pos);
          y1 = (if vy pos < - margin then height + margin
                else if vy pos > height + margin then - margin else vy pos)
      in entity\<lparr>transform := (transform entity)\<lparr>position := \<lparr>vx = x1, vy = y1\<rparr>\<rparr>\<rparr>)"


text \<open>A bare entity at a given position, with a given radius and activity flag.\<close>

definition Entity_at :: "real \<Rightarrow> real \<Rightarrow> real \<Rightarrow> bool \<Rightarrow> Entity" where
  "Entity_at x y r act =
     \<lparr>transform = \<lparr>position = \<lparr>vx = x, vy = y\<rparr>, rotation = 0, tscale = 1\<rparr>,
      velocity = \<lparr>vx = 0, vy = 0\<rparr>, angularVelocity = 0, shape = [],
      radius = r, isActive = act\<rparr>"

section \<open>The ship (\<open>entities/ship.ts\<close>)\<close>

text \<open>
  The hyperspace durations are the constants of \<open>ship.ts\<close>; the revision that reads them
  from \<open>CONFIG.hyperspace\<close> has the same values and the same code.
\<close>

datatype HyperspaceState = Idle | Shrinking | Warping | Expanding

definition HYPERSPACE_SHRINK_TIME :: real where "HYPERSPACE_SHRINK_TIME = 3 / 10"
definition HYPERSPACE_WARP_TIME :: real where "HYPERSPACE_WARP_TIME = 2 / 10"
definition HYPERSPACE_EXPAND_TIME :: real where "HYPERSPACE_EXPAND_TIME = 3 / 10"
definition HYPERSPACE_COOLDOWN :: real where "HYPERSPACE_COOLDOWN = 5"
definition HYPERSPACE_INVULNERABILITY :: real where "HYPERSPACE_INVULNERABILITY = 2"

definition SHIP_SHAPE :: Shape where
  "SHIP_SHAPE = [\<lparr>vx = 0, vy = -15\<rparr>, \<lparr>vx = 10, vy = 12\<rparr>, \<lparr>vx = 0, vy = 6\<rparr>, \<lparr>vx = -10, vy = 12\<rparr>]"

record Ship = Entity +
  isThrusting :: bool
  invulnerableTime :: real
  hyperspaceState :: HyperspaceState
  hyperspaceTimer :: real
  hyperspaceCooldown :: real
  hyperspaceTargetPosition :: Vector2

text \<open>The constructor: field initialisers, then the position.\<close>

definition Ship_new :: "real \<Rightarrow> real \<Rightarrow> Ship" where
  "Ship_new x y =
     \<lparr>transform = \<lparr>position = \<lparr>vx = x, vy = y\<rparr>, rotation = 0, tscale = 1\<rparr>,
      velocity = \<lparr>vx = 0, vy = 0\<rparr>,
      angularVelocity = 0,
      shape = SHIP_SHAPE,
      radius = 12,
      isActive = True,
      isThrusting = False,
      invulnerableTime = 0,
      hyperspaceState = Idle,
      hyperspaceTimer = 0,
      hyperspaceCooldown = 0,
      hyperspaceTargetPosition = \<lparr>vx = 0, vy = 0\<rparr>\<rparr>"

definition Ship_reset :: "real \<Rightarrow> real \<Rightarrow> Ship \<Rightarrow> Ship" where
  "Ship_reset x y s =
     s\<lparr>transform := (transform s)\<lparr>position := \<lparr>vx = x, vy = y\<rparr>, rotation := 0\<rparr>,
       velocity := \<lparr>vx = 0, vy = 0\<rparr>,
       isActive := True,
       invulnerableTime := 3\<rparr>"

text \<open>
  \<open>Ship.update\<close>, statement by statement: the hyperspace phase switch, the cooldown
  countdown, the position integration (skipped while warping) and the invulnerability
  countdown.
\<close>

definition Ship_update_hyperspace :: "real \<Rightarrow> Ship \<Rightarrow> Ship" where
  "Ship_update_hyperspace dt s0 =
     (if hyperspaceState s0 \<noteq> Idle then
        (let s = s0\<lparr>hyperspaceTimer := hyperspaceTimer s0 + dt\<rparr> in
         case hyperspaceState s of
           Shrinking \<Rightarrow>
             if hyperspaceTimer s \<ge> HYPERSPACE_SHRINK_TIME
             then s\<lparr>hyperspaceState := Warping, hyperspaceTimer := 0\<rparr> else s
         | Warping \<Rightarrow>
             if hyperspaceTimer s \<ge> HYPERSPACE_WARP_TIME
             then s\<lparr>transform := (transform s)\<lparr>position := hyperspaceTargetPosition s\<rparr>,
                    velocity := \<lparr>vx = 0, vy = 0\<rparr>,
                    hyperspaceState := Expanding,
                    hyperspaceTimer := 0\<rparr>
             else s
         | Expanding \<Rightarrow>
             if hyperspaceTimer s \<ge> HYPERSPACE_EXPAND_TIME
             then s\<lparr>hyperspaceState := Idle, hyperspaceTimer := 0,
                    hyperspaceCooldown := HYPERSPACE_COOLDOWN\<rparr>
             else s
         | Idle \<Rightarrow> s)
      else s0)"

definition Ship_update :: "real \<Rightarrow> Ship \<Rightarrow> Ship" where
  "Ship_update dt s0 =
     (let s1 = Ship_update_hyperspace dt s0;
          s2 = (if hyperspaceCooldown s1 > 0
                then s1\<lparr>hyperspaceCooldown := hyperspaceCooldown s1 - dt\<rparr> else s1);
          s3 = (if hyperspaceState s2 \<noteq> Warping
                then s2\<lparr>transform := (transform s2)
                          \<lparr>position := add (position (transform s2)) (scale (velocity s2) dt)\<rparr>\<rparr>
                else s2);
          s4 = (if invulnerableTime s3 > 0
                then s3\<lparr>invulnerableTime := invulnerableTime s3 - dt\<rparr> else s3)
      in s4)"

text \<open>A sequence of frames: one \<open>update\<close> call per elapsed-time value, in order.\<close>

fun Ship_updates :: "real list \<Rightarrow> Ship \<Rightarrow> Ship" where
  "Ship_updates [] s = s"
| "Ship_updates (dt # dts) s = Ship_updates dts (Ship_update dt s)"

definition isInvulnerable :: "Ship \<Rightarrow> bool" where
  "isInvulnerable s = (invulnerableTime s > 0)"

definition canHyperspace :: "Ship \<Rightarrow> bool" where
  "canHyperspace s = (hyperspaceState s = Idle \<and> hyperspaceCooldown s \<le> 0)"

definition isInHyperspace :: "Ship \<Rightarrow> bool" where
  "isInHyperspace s = (hyperspaceState s \<noteq> Idle)"

definition activateHyperspace :: "real \<Rightarrow> real \<Rightarrow> Ship \<Rightarrow> Ship" where
  "activateHyperspace targetX targetY s =
     (if \<not> canHyperspace s then s
      else s\<lparr>hyperspaceState := Shrinking,
             hyperspaceTimer := 0,
             hyperspaceTargetPosition := \<lparr>vx = targetX, vy = targetY\<rparr>,
             invulnerableTime :=
               max (invulnerableTime s)
                 (HYPERSPACE_SHRINK_TIME + HYPERSPACE_WARP_TIME + HYPERSPACE_EXPAND_TIME
                  + HYPERSPACE_INVULNERABILITY)\<rparr>)"

section \<open>Random numbers\<close>

text \<open>
  \<open>Math.random()\<close> is modelled by an explicit supply: the sequence of the values the
  successive calls return.  Every function that draws random numbers takes the supply
  and returns what is left of it.  \<open>Math.random\<close> returns values in \<open>[0, 1)\<close>; a statement
  that depends on this says so.
\<close>

type_synonym rng = "nat \<Rightarrow> real"

definition Math_random :: "rng \<Rightarrow> real \<times> rng" where
  "Math_random g = (g 0, \<lambda>n. g (Suc n))"

definition randomRange :: "real \<Rightarrow> real \<Rightarrow> rng \<Rightarrow> real \<times> rng" where
  "randomRange mn mx g = (mn + fst (Math_random g) * (mx - mn), snd (Math_random g))"

definition randomInt :: "real \<Rightarrow> real \<Rightarrow> rng \<Rightarrow> int \<times> rng" where
  "randomInt mn mx g =
     (\<lfloor>fst (randomRange mn (mx + 1) g)\<rfloor>, snd (randomRange mn (mx + 1) g))"

section \<open>Base entities (\<open>entities/baseEntity.ts\<close>)\<close>

record TimedEntity = Entity +
  lifetime :: real

record ScoreableEntity = Entity +
  points :: real

definition updatePhysics :: "real \<Rightarrow> 'a Entity_scheme \<Rightarrow> 'a Entity_scheme" where
  "updatePhysics dt e =
     e\<lparr>transform := (transform e)
          \<lparr>position := add (position (transform e)) (scale (velocity e) dt),
           rotation := rotation (transform e) + angularVelocity e * dt\<rparr>\<rparr>"

definition TimedEntity_update :: "real \<Rightarrow> 'a TimedEntity_scheme \<Rightarrow> 'a TimedEntity_scheme" where
  "TimedEntity_update dt e0 =
     (let e1 = updatePhysics dt e0;
          e2 = e1\<lparr>lifetime := lifetime e1 - dt\<rparr>
      in if lifetime e2 \<le> 0 then e2\<lparr>isActive := False\<rparr> else e2)"

section \<open>Asteroids (\<open>entities/asteroid.ts\<close>)\<close>

text \<open>
  The size table is the one of \<open>asteroid.ts\<close>; \<open>CONFIG.asteroid\<close> holds the same values.
  A later revision of the class draws the spin from the configured range instead of
  \<open>[-2, 2]\<close>; nothing below depends on the spin.
\<close>

datatype AsteroidSize = Large | Medium | Small

record SizeConfig =
  cfg_radius :: real
  cfg_minVerts :: real
  cfg_maxVerts :: real
  cfg_speed :: real
  cfg_points :: real

fun SIZE_CONFIG :: "AsteroidSize \<Rightarrow> SizeConfig" where
  "SIZE_CONFIG Large =
     \<lparr>cfg_radius = 40, cfg_minVerts = 10, cfg_maxVerts = 14, cfg_speed = 50, cfg_points = 20\<rparr>"
| "SIZE_CONFIG Medium =
     \<lparr>cfg_radius = 20, cfg_minVerts = 8, cfg_maxVerts = 10, cfg_speed = 80, cfg_points = 50\<rparr>"
| "SIZE_CONFIG Small =
     \<lparr>cfg_radius = 10, cfg_minVerts = 6, cfg_maxVerts = 8, cfg_speed = 120, cfg_points = 100\<rparr>"

record Asteroid = ScoreableEntity +
  size_a :: AsteroidSize

text \<open>The vertex loop of \<open>generateAsteroidShape\<close>, over the indices \<open>0 .. numVerts - 1\<close>.\<close>

fun shapeVertices :: "real \<Rightarrow> int \<Rightarrow> nat list \<Rightarrow> rng \<Rightarrow> Shape \<times> rng" where
  "shapeVertices R numVerts [] g = ([], g)"
| "shapeVertices R numVerts (i # is) g =
     (let angle = (real i / real_of_int numVerts) * pi * 2;
          r = R * fst (randomRange (7 / 10) 1 g);
          rest = shapeVertices R numVerts is (snd (randomRange (7 / 10) 1 g))
      in (\<lparr>vx = cos angle * r, vy = sin angle * r\<rparr> # fst rest, snd rest))"

definition generateAsteroidShape :: "AsteroidSize \<Rightarrow> rng \<Rightarrow> Shape \<times> rng" where
  "generateAsteroidShape sz g =
     (let config = SIZE_CONFIG sz;
          nv = randomInt (cfg_minVerts config) (cfg_maxVerts config) g
      in shapeVertices (cfg_radius config) (fst nv) [0 ..< nat (fst nv)] (snd nv))"

text \<open>
  The constructor.  The optional \<open>direction\<close> argument is an option; the random draws
  happen in the order of the source: shape, spin, and the direction angle when no
  direction is given.
\<close>

definition Asteroid_new ::
  "real \<Rightarrow> real \<Rightarrow> AsteroidSize \<Rightarrow> Vector2 option \<Rightarrow> rng \<Rightarrow> Asteroid \<times> rng" where
  "Asteroid_new x y sz direction g =
     (let config = SIZE_CONFIG sz;
          sh = generateAsteroidShape sz g;
          spin = randomRange (-2) 2 (snd sh);
          vel = (case direction of
                   Some d \<Rightarrow> (scale d (cfg_speed config), snd spin)
                 | None \<Rightarrow>
                     (let angle = randomRange 0 (pi * 2) (snd spin)
                      in (\<lparr>vx = cos (fst angle) * cfg_speed config,
                           vy = sin (fst angle) * cfg_speed config\<rparr>, snd angle)))
      in (\<lparr>transform = \<lparr>position = \<lparr>vx = x, vy = y\<rparr>, rotation = 0, tscale = 1\<rparr>,
           velocity = fst vel,
           angularVelocity = fst spin,
           shape = fst sh,
           radius = cfg_radius config,
           isActive = True,
           points = cfg_points config,
           size_a = sz\<rparr>, snd vel))"

definition Asteroid_update :: "real \<Rightarrow> Asteroid \<Rightarrow> Asteroid" where
  "Asteroid_update dt a = updatePhysics dt a"

definition split :: "Asteroid \<Rightarrow> rng \<Rightarrow> Asteroid list \<times> rng" where
  "split a g =
     (if size_a a = Small then ([], g)
      else
        (let nextSize = (if size_a a = Large then Medium else Small);
             x = vx (position (transform a));
             y = vy (position (transform a));
             r1 = randomRange 0 (pi * 2) g;
             angle1 = fst r1;
             r2 = randomRange (- (1 / 2)) (1 / 2) (snd r1);
             angle2 = angle1 + pi / 2 + fst r2;
             c1 = Asteroid_new x y nextSize (Some \<lparr>vx = cos angle1, vy = sin angle1\<rparr>) (snd r2);
             c2 = Asteroid_new x y nextSize (Some \<lparr>vx = cos angle2, vy = sin angle2\<rparr>) (snd c1)
         in ([fst c1, fst c2], snd c2)))"

section \<open>The gravity well (\<open>entities/gravityWell.ts\<close>, constant-pull revision)\<close>

text \<open>
  The source tree holds two revisions of the class.  The one modelled here takes the
  pull strength as its fourth constructor argument, as \<open>createGravityWell\<close> passes it,
  and pulls with constant magnitude.  The other one is older: it reads a single
  \<open>pullStrength\<close> number and a \<open>trapRadius\<close> from a configuration that no longer has them,
  and scales the pull by \<open>1 - distance / pullRadius\<close>.
\<close>

record GravityWell = TimedEntity +
  pullRadius :: real
  visualRadius :: real
  pullStrength :: real
  rotationAngle :: real
  pulsePhase :: real
  age :: real

definition CONFIG_gravityWell_pullRadius :: real where "CONFIG_gravityWell_pullRadius = 300"
definition CONFIG_gravityWell_visualRadius :: real where "CONFIG_gravityWell_visualRadius = 30"
definition CONFIG_gravityWell_pullStrength_min :: real where
  "CONFIG_gravityWell_pullStrength_min = 150"
definition CONFIG_gravityWell_pullStrength_max :: real where
  "CONFIG_gravityWell_pullStrength_max = 500"
definition CONFIG_gravityWell_spawnMargin :: real where "CONFIG_gravityWell_spawnMargin = 100"
definition CONFIG_gravityWell_spawnMinDistanceFromShip :: real where
  "CONFIG_gravityWell_spawnMinDistanceFromShip = 150"
definition CONFIG_gravityWell_duration_min :: real where "CONFIG_gravityWell_duration_min = 6"
definition CONFIG_gravityWell_duration_max :: real where "CONFIG_gravityWell_duration_max = 10"

text \<open>
  The constructor.  The pre-allocated arrays of the class only cache what the getters
  return and are left out; \<open>getPullForce\<close> below returns the value the cached force
  object holds when the call returns.
\<close>

definition GravityWell_new :: "real \<Rightarrow> real \<Rightarrow> real \<Rightarrow> real \<Rightarrow> GravityWell" where
  "GravityWell_new x y duration strength =
     \<lparr>transform = \<lparr>position = \<lparr>vx = x, vy = y\<rparr>, rotation = 0, tscale = 1\<rparr>,
      velocity = \<lparr>vx = 0, vy = 0\<rparr>,
      angularVelocity = 0,
      shape = [],
      radius = 0,
      isActive = True,
      lifetime = duration,
      pullRadius = CONFIG_gravityWell_pullRadius,
      visualRadius = CONFIG_gravityWell_visualRadius,
      pullStrength = strength,
      rotationAngle = 0,
      pulsePhase = 0,
      age = 0\<rparr>"

definition GravityWell_update :: "real \<Rightarrow> GravityWell \<Rightarrow> GravityWell" where
  "GravityWell_update dt w =
     TimedEntity_update dt
       (w\<lparr>age := age w + dt,
          rotationAngle := rotationAngle w + dt * 2,
          pulsePhase := pulsePhase w + dt * 4\<rparr>)"

definition getPullForce :: "GravityWell \<Rightarrow> Vector2 \<Rightarrow> Vector2" where
  "getPullForce w targetPos =
     (let dx = vx (position (transform w)) - vx targetPos;
          dy = vy (position (transform w)) - vy targetPos;
          dist = sqrt (dx * dx + dy * dy)
      in if dist > pullRadius w \<or> dist < 1 then \<lparr>vx = 0, vy = 0\<rparr>
         else \<lparr>vx = (dx / dist) * pullStrength w, vy = (dy / dist) * pullStrength w\<rparr>)"

text \<open>\<open>getPullForce\<close> as the older revision has it, on the same record.\<close>

definition getPullForce_older :: "GravityWell \<Rightarrow> Vector2 \<Rightarrow> Vector2" where
  "getPullForce_older w targetPos =
     (let dx = vx (position (transform w)) - vx targetPos;
          dy = vy (position (transform w)) - vy targetPos;
          dist = sqrt (dx * dx + dy * dy)
      in if dist > pullRadius w \<or> dist < 1 then \<lparr>vx = 0, vy = 0\<rparr>
         else
           (let strength = (1 - dist / pullRadius w) * pullStrength w
            in \<lparr>vx = (dx / dist) * strength, vy = (dy / dist) * strength\<rparr>))"

definition getDistance :: "GravityWell \<Rightarrow> Vector2 \<Rightarrow> real" where
  "getDistance w targetPos =
     (let dx = vx (position (transform w)) - vx targetPos;
          dy = vy (position (transform w)) - vy targetPos
      in sqrt (dx * dx + dy * dy))"

section \<open>Bullets\<close>

definition CONFIG_bullet_speed :: real where "CONFIG_bullet_speed = 500"
definition CONFIG_bullet_lifetime :: real where "CONFIG_bullet_lifetime = 3 / 2"
definition CONFIG_bullet_radius :: real where "CONFIG_bullet_radius = 2"
definition CONFIG_bullet_fireCooldown :: real where "CONFIG_bullet_fireCooldown = 1 / 4"

type_synonym Bullet = TimedEntity

definition Bullet_new :: "real \<Rightarrow> real \<Rightarrow> Vector2 \<Rightarrow> Bullet" where
  "Bullet_new x y direction =
     \<lparr>transform = \<lparr>position = \<lparr>vx = x, vy = y\<rparr>, rotation = 0, tscale = 1\<rparr>,
      velocity = scale direction CONFIG_bullet_speed,
      angularVelocity = 0,
      shape = [],
      radius = CONFIG_bullet_radius,
      isActive = True,
      lifetime = CONFIG_bullet_lifetime\<rparr>"

section \<open>The UFO (\<open>entities/ufo.ts\<close>)\<close>

datatype UFOSize = LargeUFO | SmallUFO

record UFOConfig =
  ucfg_radius :: real
  ucfg_speed :: real
  ucfg_points :: real
  ucfg_shootCooldown :: real

fun CONFIG_ufo :: "UFOSize \<Rightarrow> UFOConfig" where
  "CONFIG_ufo LargeUFO =
     \<lparr>ucfg_radius = 20, ucfg_speed = 100, ucfg_points = 200, ucfg_shootCooldown = 2\<rparr>"
| "CONFIG_ufo SmallUFO =
     \<lparr>ucfg_radius = 12, ucfg_speed = 150, ucfg_points = 1000, ucfg_shootCooldown = 1\<rparr>"

definition CONFIG_ufo_smallChanceBase :: real where "CONFIG_ufo_smallChanceBase = 3 / 10"
definition CONFIG_ufo_smallChancePerLevel :: real where "CONFIG_ufo_smallChancePerLevel = 5 / 100"
definition CONFIG_ufo_smallChanceMax :: real where "CONFIG_ufo_smallChanceMax = 7 / 10"
definition CONFIG_ufo_verticalSpeedFactor :: real where "CONFIG_ufo_verticalSpeedFactor = 3 / 10"
definition CONFIG_ufo_directionChangeInterval_min :: real where
  "CONFIG_ufo_directionChangeInterval_min = 1 / 2"
definition CONFIG_ufo_directionChangeInterval_max :: real where
  "CONFIG_ufo_directionChangeInterval_max = 3 / 2"
definition CONFIG_ufo_spawnDelay_min :: real where "CONFIG_ufo_spawnDelay_min = 15"
definition CONFIG_ufo_spawnDelay_max :: real where "CONFIG_ufo_spawnDelay_max = 30"

record UFO = ScoreableEntity +
  size_u :: UFOSize
  directionChangeTimer :: real
  verticalDirection :: real
  baseSpeed :: real
  horizontalDirection :: real
  shootTimer :: real
  shootCooldown :: real

definition generateUFOShape :: "UFOSize \<Rightarrow> Shape" where
  "generateUFOShape sz =
     (let r = ucfg_radius (CONFIG_ufo sz); h = r * (4 / 10)
      in [\<lparr>vx = - r * (3 / 10), vy = - h\<rparr>,
          \<lparr>vx = r * (3 / 10), vy = - h\<rparr>,
          \<lparr>vx = r * (1 / 2), vy = - h * (3 / 10)\<rparr>,
          \<lparr>vx = r, vy = 0\<rparr>,
          \<lparr>vx = r * (6 / 10), vy = h * (1 / 2)\<rparr>,
          \<lparr>vx = - r * (6 / 10), vy = h * (1 / 2)\<rparr>,
          \<lparr>vx = - r, vy = 0\<rparr>,
          \<lparr>vx = - r * (1 / 2), vy = - h * (3 / 10)\<rparr>])"

text \<open>
  The constructor \<open>UFO(screenWidth, screenHeight, size = 'large', level = 1)\<close>.  The
  shoot cooldown is the size's base cooldown times \<open>max(0.3, 1 - (level - 1) * 0.1)\<close>.
  A caller that leaves \<open>level\<close> out gets the default, \<open>UFO_default_level\<close>.
\<close>

definition UFO_default_level :: int where "UFO_default_level = 1"

definition UFO_new :: "real \<Rightarrow> real \<Rightarrow> UFOSize \<Rightarrow> int \<Rightarrow> rng \<Rightarrow> UFO \<times> rng" where
  "UFO_new screenWidth screenHeight sz level g =
     (let config = CONFIG_ufo sz;
          cooldownMultiplier = max (3 / 10) (1 - (of_int level - 1) * (1 / 10));
          cooldown = ucfg_shootCooldown config * cooldownMultiplier;
          timer = randomRange (1 / 2) cooldown g;
          side = Math_random (snd timer);
          spawnOnLeft = (fst side < 1 / 2);
          hdir = (if spawnOnLeft then 1 else - 1);
          x = (if spawnOnLeft then - ucfg_radius config else screenWidth + ucfg_radius config);
          y = randomRange (screenHeight * (2 / 10)) (screenHeight * (8 / 10)) (snd side);
          vdir = randomRange (- 1) 1 (snd y);
          dct = randomRange CONFIG_ufo_directionChangeInterval_min
                  CONFIG_ufo_directionChangeInterval_max (snd vdir)
      in (\<lparr>transform = \<lparr>position = \<lparr>vx = x, vy = fst y\<rparr>, rotation = 0, tscale = 1\<rparr>,
           velocity = \<lparr>vx = ucfg_speed config * hdir, vy = 0\<rparr>,
           angularVelocity = 0,
           shape = generateUFOShape sz,
           radius = ucfg_radius config,
           isActive = True,
           points = ucfg_points config,
           size_u = sz,
           directionChangeTimer = fst dct,
           verticalDirection = fst vdir,
           baseSpeed = ucfg_speed config,
           horizontalDirection = hdir,
           shootTimer = fst timer,
           shootCooldown = cooldown\<rparr>, snd dct))"

definition UFO_update :: "real \<Rightarrow> UFO \<Rightarrow> rng \<Rightarrow> UFO \<times> rng" where
  "UFO_update dt u0 g =
     (let u1 = u0\<lparr>directionChangeTimer := directionChangeTimer u0 - dt\<rparr>;
          vdir = randomRange (- 1) 1 g;
          dct = randomRange CONFIG_ufo_directionChangeInterval_min
                  CONFIG_ufo_directionChangeInterval_max (snd vdir);
          u2 = (if directionChangeTimer u1 \<le> 0
                then u1\<lparr>verticalDirection := fst vdir, directionChangeTimer := fst dct\<rparr>
                else u1);
          g2 = (if directionChangeTimer u1 \<le> 0 then snd dct else g);
          u3 = (if shootTimer u2 > 0 then u2\<lparr>shootTimer := shootTimer u2 - dt\<rparr> else u2);
          u4 = u3\<lparr>velocity :=
                    \<lparr>vx = baseSpeed u3 * horizontalDirection u3,
                     vy = baseSpeed u3 * CONFIG_ufo_verticalSpeedFactor * verticalDirection u3\<rparr>\<rparr>
      in (updatePhysics dt u4, g2))"

text \<open>
  \<open>Math.atan2\<close> on real arguments (the sign of a zero is not represented: \<open>atan2(0, x)\<close>
  for negative \<open>x\<close> is \<open>\<pi>\<close>).
\<close>

definition atan2 :: "real \<Rightarrow> real \<Rightarrow> real" where
  "atan2 y x =
     (if x > 0 then arctan (y / x)
      else if x < 0 \<and> y \<ge> 0 then arctan (y / x) + pi
      else if x < 0 then arctan (y / x) - pi
      else if y > 0 then pi / 2
      else if y < 0 then - pi / 2
      else 0)"

text \<open>\<open>tryShoot\<close> returns the firing angle, or \<open>None\<close> for \<open>null\<close>, with the updated UFO.\<close>

definition tryShoot :: "real \<Rightarrow> real \<Rightarrow> UFO \<Rightarrow> rng \<Rightarrow> real option \<times> UFO \<times> rng" where
  "tryShoot playerX playerY u g =
     (if shootTimer u > 0 then (None, u, g)
      else
        (let u1 = u\<lparr>shootTimer := shootCooldown u\<rparr>;
             dx = playerX - vx (position (transform u1));
             dy = playerY - vy (position (transform u1));
             angleToPlayer = atan2 dy dx;
             inaccuracy = (if size_u u1 = LargeUFO then 4 / 10 else 15 / 100);
             randomSpread = randomRange (- inaccuracy) inaccuracy g
         in (Some (angleToPlayer + fst randomSpread), u1, snd randomSpread)))"

definition isOffScreen :: "UFO \<Rightarrow> real \<Rightarrow> bool" where
  "isOffScreen u screenWidth =
     (let x = vx (position (transform u)); margin = radius u * 2
      in if horizontalDirection u > 0 then x > screenWidth + margin else x < - margin)"

section \<open>The spawner (\<open>systems/spawner.ts\<close>)\<close>

text \<open>
  The \<open>do ... while\<close> loop of \<open>createAsteroids\<close>: sample a position, and sample again
  while it lies in the square around the avoided position.  The source puts no bound
  on the number of rounds, so the loop is a partial function; \<open>None\<close> stands for a
  call that never returns.
\<close>

partial_function (option) sampleAsteroidPosition ::
  "real \<Rightarrow> real \<Rightarrow> Vector2 \<Rightarrow> real \<Rightarrow> rng \<Rightarrow> ((real \<times> real) \<times> rng) option" where
  "sampleAsteroidPosition screenWidth screenHeight avoidPosition avoidRadius g =
     (let rx = randomRange 0 screenWidth g;
          ry = randomRange 0 screenHeight (snd rx)
      in if \<bar>fst rx - vx avoidPosition\<bar> < avoidRadius
            \<and> \<bar>fst ry - vy avoidPosition\<bar> < avoidRadius
         then sampleAsteroidPosition screenWidth screenHeight avoidPosition avoidRadius (snd ry)
         else Some ((fst rx, fst ry), snd ry))"

text \<open>The \<open>for\<close> loop of \<open>createAsteroids\<close>, with the number of rounds still to run.\<close>

fun createAsteroids_loop ::
  "nat \<Rightarrow> real \<Rightarrow> real \<Rightarrow> Vector2 \<Rightarrow> real \<Rightarrow> Asteroid list \<Rightarrow> rng
     \<Rightarrow> (Asteroid list \<times> rng) option" where
  "createAsteroids_loop 0 screenWidth screenHeight avoidPosition avoidRadius asteroids g =
     Some (asteroids, g)"
| "createAsteroids_loop (Suc n) screenWidth screenHeight avoidPosition avoidRadius asteroids g =
     (case sampleAsteroidPosition screenWidth screenHeight avoidPosition avoidRadius g of
        None \<Rightarrow> None
      | Some (xy, g1) \<Rightarrow>
          (let a = Asteroid_new (fst xy) (snd xy) Large None g1
           in createAsteroids_loop n screenWidth screenHeight avoidPosition avoidRadius
                (asteroids @ [fst a]) (snd a)))"

definition createAsteroids ::
  "int \<Rightarrow> real \<Rightarrow> real \<Rightarrow> Vector2 \<Rightarrow> real \<Rightarrow> rng \<Rightarrow> (Asteroid list \<times> rng) option" where
  "createAsteroids count screenWidth screenHeight avoidPosition avoidRadius g =
     createAsteroids_loop (nat count) screenWidth screenHeight avoidPosition avoidRadius [] g"

definition createAsteroids_default_avoidRadius :: real where
  "createAsteroids_default_avoidRadius = 100"

definition createUFO :: "real \<Rightarrow> real \<Rightarrow> int \<Rightarrow> rng \<Rightarrow> UFO \<times> rng" where
  "createUFO screenWidth screenHeight level g =
     (let smallChance =
            min (CONFIG_ufo_smallChanceBase + of_int level * CONFIG_ufo_smallChancePerLevel)
                CONFIG_ufo_smallChanceMax;
          r = Math_random g;
          sz = (if fst r < smallChance then SmallUFO else LargeUFO)
      in UFO_new screenWidth screenHeight sz UFO_default_level (snd r))"

definition getGravityWellPullStrength :: "int \<Rightarrow> real" where
  "getGravityWellPullStrength level =
     (let strengthPerLevel = 40
      in min CONFIG_gravityWell_pullStrength_max
           (CONFIG_gravityWell_pullStrength_min + (of_int level - 1) * strengthPerLevel))"

definition createGravityWell_maxAttempts :: nat where "createGravityWell_maxAttempts = 20"

definition hypot :: "real \<Rightarrow> real \<Rightarrow> real" where
  "hypot a b = sqrt (a * a + b * b)"

text \<open>
  The \<open>do ... while\<close> loop of \<open>createGravityWell\<close>; it also returns the number of
  attempts made.
\<close>

function gravityWellPosition ::
  "real \<Rightarrow> real \<Rightarrow> Vector2 \<Rightarrow> nat \<Rightarrow> rng \<Rightarrow> (real \<times> real \<times> nat) \<times> rng" where
  "gravityWellPosition screenWidth screenHeight avoidPosition attempts g =
     (let rx = randomRange CONFIG_gravityWell_spawnMargin
                 (screenWidth - CONFIG_gravityWell_spawnMargin) g;
          ry = randomRange CONFIG_gravityWell_spawnMargin
                 (screenHeight - CONFIG_gravityWell_spawnMargin) (snd rx)
      in if Suc attempts < createGravityWell_maxAttempts
            \<and> hypot (fst rx - vx avoidPosition) (fst ry - vy avoidPosition)
                < CONFIG_gravityWell_spawnMinDistanceFromShip
         then gravityWellPosition screenWidth screenHeight avoidPosition (Suc attempts) (snd ry)
         else ((fst rx, fst ry, Suc attempts), snd ry))"
  by pat_completeness auto
termination
  by (relation "measure (\<lambda>(w, h, a, n, g). createGravityWell_maxAttempts - n)") auto

declare gravityWellPosition.simps [simp del]

definition createGravityWell ::
  "real \<Rightarrow> real \<Rightarrow> Vector2 \<Rightarrow> int \<Rightarrow> rng \<Rightarrow> GravityWell \<times> rng" where
  "createGravityWell screenWidth screenHeight avoidPosition level g =
     (let pos = gravityWellPosition screenWidth screenHeight avoidPosition 0 g;
          duration = randomRange CONFIG_gravityWell_duration_min
                       CONFIG_gravityWell_duration_max (snd pos);
          strength = getGravityWellPullStrength level
      in (GravityWell_new (fst (fst pos)) (fst (snd (fst pos))) (fst duration) strength,
          snd duration))"

section \<open>Debris (\<open>entities/debris.ts\<close>)\<close>

definition CONFIG_visual_debrisLifetime :: real where "CONFIG_visual_debrisLifetime = 3 / 2"
definition CONFIG_visual_debrisSpeed :: real where "CONFIG_visual_debrisSpeed = 100"

record DebrisLine =
  line_start :: Vector2
  line_end :: Vector2
  line_velocity :: Vector2
  line_angularVelocity :: real
  line_rotation :: real
  line_lifetime :: real
  line_maxLifetime :: real

record Debris =
  lines :: "DebrisLine list"
  debris_isActive :: bool
  color :: string

text \<open>The constructor's loop over the edges of the outline, by edge index.\<close>

fun debrisLines :: "Vector2 \<Rightarrow> real \<Rightarrow> Shape \<Rightarrow> nat list \<Rightarrow> rng \<Rightarrow> DebrisLine list \<times> rng" where
  "debrisLines pos shipRotation shipShape [] g = ([], g)"
| "debrisLines pos shipRotation shipShape (i # is) g =
     (let nextIndex = (i + 1) mod length shipShape;
          st = rotate_v (shipShape ! i) shipRotation;
          en = rotate_v (shipShape ! nextIndex) shipRotation;
          angle = randomRange 0 (pi * 2) g;
          speed = randomRange (CONFIG_visual_debrisSpeed * (1 / 2)) CONFIG_visual_debrisSpeed
                    (snd angle);
          av = randomRange (- 3) 3 (snd speed);
          rest = debrisLines pos shipRotation shipShape is (snd av)
      in (\<lparr>line_start = add pos st,
           line_end = add pos en,
           line_velocity = \<lparr>vx = cos (fst angle) * fst speed, vy = sin (fst angle) * fst speed\<rparr>,
           line_angularVelocity = fst av,
           line_rotation = 0,
           line_lifetime = CONFIG_visual_debrisLifetime,
           line_maxLifetime = CONFIG_visual_debrisLifetime\<rparr> # fst rest, snd rest))"

definition Debris_new :: "Vector2 \<Rightarrow> real \<Rightarrow> Shape \<Rightarrow> string \<Rightarrow> rng \<Rightarrow> Debris \<times> rng" where
  "Debris_new pos shipRotation shipShape col g =
     (let ls = debrisLines pos shipRotation shipShape [0 ..< length shipShape] g
      in (\<lparr>lines = fst ls, debris_isActive = True, color = col\<rparr>, snd ls))"

definition createDebris :: "Vector2 \<Rightarrow> real \<Rightarrow> Shape \<Rightarrow> string \<Rightarrow> rng \<Rightarrow> Debris \<times> rng" where
  "createDebris pos rot shp col g = Debris_new pos rot shp col g"

section \<open>Collaborators of the game: input, text input, high scores, audio\<close>

record KeyState =
  key_left :: bool
  key_right :: bool
  key_thrust :: bool
  key_fire :: bool
  key_hyperspace :: bool

record InputHandler =
  keys :: KeyState
  firePressed :: bool
  startPressed :: bool
  spaceWasReleased :: bool
  glowTogglePressed :: bool
  hyperspacePressed :: bool
  menuPressed :: bool

definition clearAll :: "InputHandler \<Rightarrow> InputHandler" where
  "clearAll i =
     i\<lparr>keys := \<lparr>key_left = False, key_right = False, key_thrust = False, key_fire = False,
                 key_hyperspace = False\<rparr>,
       firePressed := False,
       startPressed := False,
       spaceWasReleased := True,
       glowTogglePressed := False,
       hyperspacePressed := False,
       menuPressed := False\<rparr>"

record TextInputHandler =
  text_value :: string
  active :: bool
  cursorVisible :: bool
  cursorTimer :: real
  submitPressed :: bool
  cancelPressed :: bool

definition activate :: "TextInputHandler \<Rightarrow> TextInputHandler" where
  "activate t =
     (if active t then t
      else t\<lparr>active := True, text_value := [], cursorVisible := True, cursorTimer := 0,
             submitPressed := False, cancelPressed := False\<rparr>)"

record HighScore =
  hs_id :: string
  hs_playerName :: string
  hs_score :: real
  hs_level :: int
  hs_timestamp :: string
  hs_rank :: int

record HighScoreManager =
  scores :: "HighScore list"
  submittedScoreId :: "string option"

text \<open>
  The calls to the audio manager are recorded as a log of cues, in call order.
\<close>

datatype AudioCue =
    PlayShoot | PlayThrust | PlayDeath | PlayLevelUp | PlayHyperspace
  | PlayExplosion AsteroidSize | PlayUFOExplosion
  | StartUFOSound bool | StopUFOSound
  | PlayGravityWellSpawn | StartGravityWellSound | StopGravityWellSound
  | PlayGravityWellDespawn

text \<open>
  How a call can fail to return a value: a \<open>TypeError\<close> thrown by a property read on
  \<open>undefined\<close>, or a loop that never ends.
\<close>

datatype failure = TypeError | NeverReturns

section \<open>Configuration read by the game (\<open>core/config.ts\<close>)\<close>

text \<open>
  The constants the orchestrator reads are collected in a record, so that a statement
  can range over configurations.  \<open>CONFIG\<close> holds the shipped values.  The shipped
  \<open>config.ts\<close> has no \<open>highScores\<close> section; \<open>highScores_displayCount\<close> is the value
  the high-score plan of the repository gives for it (10).
\<close>

record Config =
  asteroid_startingCount :: int
  timing_respawnDelay :: real
  timing_gameOverReturnDelay :: real
  highScores_displayCount :: int
  debug_disablePlayerCollision :: bool
  debug_alwaysShowGravityWell :: bool

definition CONFIG :: Config where
  "CONFIG =
     \<lparr>asteroid_startingCount = 4,
      timing_respawnDelay = 2,
      timing_gameOverReturnDelay = 10,
      highScores_displayCount = 10,
      debug_disablePlayerCollision = True,
      debug_alwaysShowGravityWell = False\<rparr>"

text \<open>
  \<open>HighScoreManager.isHighScore\<close>.  With a full leaderboard it reads the last entry;
  on an empty list that read is \<open>undefined.score\<close>, a \<open>TypeError\<close>.
\<close>

definition isHighScore :: "Config \<Rightarrow> HighScoreManager \<Rightarrow> real \<Rightarrow> failure + bool" where
  "isHighScore cfg m sc =
     (if int (length (scores m)) < highScores_displayCount cfg then Inr True
      else if scores m = [] then Inl TypeError
      else Inr (sc > hs_score (last (scores m))))"

section \<open>The game (\<open>core/game.ts\<close>)\<close>

datatype GameState = Start | Playing | GameOver | SubmitScore | ViewingScores

record GameData =
  score :: real
  lives :: int
  level :: int
  state :: GameState
  finalScore :: "real option"
  finalLevel :: "int option"

text \<open>
  The fields of \<open>Game\<close> that the modelled methods touch.  \<open>width\<close> and \<open>height\<close> are
  those of the renderer; \<open>mathRandom\<close> is the supply \<open>Math.random\<close> draws from.
\<close>

record Game =
  width :: real
  height :: real
  input :: InputHandler
  audio :: "AudioCue list"
  textInput :: TextInputHandler
  highScoreManager :: HighScoreManager
  ship :: Ship
  asteroids :: "Asteroid list"
  bullets :: "Bullet list"
  ufoBullets :: "Bullet list"
  debris :: "Debris list"
  ufo :: "UFO option"
  ufoSpawnTimer :: real
  gravityWell :: "GravityWell option"
  gravityWellSpawnTimer :: real
  wasGravityWellActive :: bool
  data :: GameData
  fireCooldown :: real
  respawnTimer :: real
  gameOverTimer :: real
  mathRandom :: rng

definition shipDestroyed :: "Config \<Rightarrow> Game \<Rightarrow> failure + Game" where
  "shipDestroyed cfg g0 =
     (let d = createDebris (position (transform (ship g0))) (rotation (transform (ship g0)))
                (shape (ship g0)) ''#0ff'' (mathRandom g0);
          g1 = g0\<lparr>debris := debris g0 @ [fst d], mathRandom := snd d\<rparr>;
          g2 = g1\<lparr>ship := (ship g1)\<lparr>isActive := False\<rparr>,
                  data := (data g1)\<lparr>lives := lives (data g1) - 1\<rparr>\<rparr>;
          g3 = g2\<lparr>input := clearAll (input g2), audio := audio g2 @ [PlayDeath]\<rparr>
      in if lives (data g3) \<le> 0 then
           (let g4 = g3\<lparr>data := (data g3)\<lparr>finalScore := Some (score (data g3)),
                                          finalLevel := Some (level (data g3))\<rparr>\<rparr>
            in case isHighScore cfg (highScoreManager g4) (score (data g4)) of
                 Inl e \<Rightarrow> Inl e
               | Inr high \<Rightarrow>
                   (let g5 = (if high
                              then g4\<lparr>data := (data g4)\<lparr>state := SubmitScore\<rparr>,
                                      textInput := activate (textInput g4)\<rparr>
                              else g4\<lparr>data := (data g4)\<lparr>state := GameOver\<rparr>,
                                      gameOverTimer := timing_gameOverReturnDelay cfg\<rparr>);
                        g6 = (case ufo g5 of
                                Some u \<Rightarrow> g5\<lparr>audio := audio g5 @ [StopUFOSound], ufo := None\<rparr>
                              | None \<Rightarrow> g5);
                        g7 = (case gravityWell g6 of
                                Some w \<Rightarrow> g6\<lparr>audio := audio g6 @ [StopGravityWellSound],
                                             gravityWell := None\<rparr>
                              | None \<Rightarrow> g6)
                    in Inr g7))
         else Inr (g3\<lparr>respawnTimer := timing_respawnDelay cfg\<rparr>))"

text \<open>
  \<open>checkBulletCollisions\<close>.  The inner loop looks for the first asteroid the bullet
  collides with and deactivates it; the outer loop runs over the player's bullets.
\<close>

fun hitAsteroid :: "Bullet \<Rightarrow> Asteroid list \<Rightarrow> (Asteroid list \<times> Asteroid) option" where
  "hitAsteroid b [] = None"
| "hitAsteroid b (a # as) =
     (if checkCollision b a then Some (a\<lparr>isActive := False\<rparr> # as, a)
      else (case hitAsteroid b as of
              None \<Rightarrow> None
            | Some r \<Rightarrow> Some (a # fst r, snd r)))"

fun bulletLoop :: "Bullet list \<Rightarrow> Game \<Rightarrow> Asteroid list \<Rightarrow> Bullet list \<times> Game \<times> Asteroid list" where
  "bulletLoop [] g newAsteroids = ([], g, newAsteroids)"
| "bulletLoop (b # bs) g newAsteroids =
     (case hitAsteroid b (asteroids g) of
        None \<Rightarrow>
          (let r = bulletLoop bs g newAsteroids in (b # fst r, snd r))
      | Some h \<Rightarrow>
          (let sp = split (snd h) (mathRandom g);
               g1 = g\<lparr>asteroids := fst h,
                       data := (data g)\<lparr>score := score (data g) + points (snd h)\<rparr>,
                       audio := audio g @ [PlayExplosion (size_a (snd h))],
                       mathRandom := snd sp\<rparr>;
               r = bulletLoop bs g1 (newAsteroids @ fst sp)
           in (b\<lparr>isActive := False\<rparr> # fst r, snd r)))"

definition checkBulletCollisions :: "Game \<Rightarrow> Game" where
  "checkBulletCollisions g =
     (let r = bulletLoop (bullets g) g [];
          g1 = fst (snd r)
      in g1\<lparr>bullets := fst r,
             asteroids := filter isActive (asteroids g1) @ snd (snd r)\<rparr>)"

text \<open>
  The asteroids that the outer loop of \<open>checkBulletCollisions\<close> hits, in the order of
  the hits: the same walk over the bullets, keeping only which asteroid each hit took.
\<close>

fun destroyedInPass :: "Bullet list \<Rightarrow> Asteroid list \<Rightarrow> Asteroid list" where
  "destroyedInPass [] as = []"
| "destroyedInPass (b # bs) as =
     (case hitAsteroid b as of
        None \<Rightarrow> destroyedInPass bs as
      | Some h \<Rightarrow> snd h # destroyedInPass bs (fst h))"

definition getNextUFOSpawnTime :: "rng \<Rightarrow> real \<times> rng" where
  "getNextUFOSpawnTime g = randomRange CONFIG_ufo_spawnDelay_min CONFIG_ufo_spawnDelay_max g"

text \<open>\<open>checkUFOCollisions\<close>: the first player bullet that touches the UFO destroys it.\<close>

fun ufoHitLoop :: "Bullet list \<Rightarrow> UFO \<Rightarrow> Bullet list option" where
  "ufoHitLoop [] u = None"
| "ufoHitLoop (b # bs) u =
     (if checkCollision b u then Some (b\<lparr>isActive := False\<rparr> # bs)
      else (case ufoHitLoop bs u of None \<Rightarrow> None | Some r \<Rightarrow> Some (b # r)))"

definition checkUFOCollisions :: "Game \<Rightarrow> Game" where
  "checkUFOCollisions g =
     (case ufo g of
        None \<Rightarrow> g
      | Some u \<Rightarrow>
          (case ufoHitLoop (bullets g) u of
             None \<Rightarrow> g
           | Some bs \<Rightarrow>
               (let d = createDebris (position (transform u)) (rotation (transform u)) (shape u)
                          ''#0f0'' (mathRandom g);
                    t = getNextUFOSpawnTime (snd d)
                in g\<lparr>bullets := bs,
                     data := (data g)\<lparr>score := score (data g) + points u\<rparr>,
                     debris := debris g @ [fst d],
                     audio := audio g @ [PlayUFOExplosion],
                     ufo := None,
                     ufoSpawnTimer := fst t,
                     mathRandom := snd t\<rparr>)))"

text \<open>
  \<open>checkUFOBulletCollisions\<close>: the first hostile bullet that touches a vulnerable ship
  is deactivated and destroys the ship.
\<close>

fun ufoBulletLoop :: "Bullet list \<Rightarrow> Ship \<Rightarrow> Bullet list option" where
  "ufoBulletLoop [] s = None"
| "ufoBulletLoop (b # bs) s =
     (if checkCollision b s then Some (b\<lparr>isActive := False\<rparr> # bs)
      else (case ufoBulletLoop bs s of None \<Rightarrow> None | Some r \<Rightarrow> Some (b # r)))"

definition checkUFOBulletCollisions :: "Config \<Rightarrow> Game \<Rightarrow> failure + Game" where
  "checkUFOBulletCollisions cfg g =
     (if \<not> isActive (ship g) \<or> isInvulnerable (ship g) \<or> isInHyperspace (ship g) then Inr g
      else
        (case ufoBulletLoop (ufoBullets g) (ship g) of
           None \<Rightarrow> Inr g
         | Some bs \<Rightarrow> shipDestroyed cfg (g\<lparr>ufoBullets := bs\<rparr>)))"

text \<open>
  \<open>checkShipCollision\<close>: gated by the debug flag; otherwise contact of a vulnerable ship
  with an asteroid (\<open>shipAsteroidLoop\<close> is the loop that looks for one) or with the UFO
  destroys the ship.
\<close>

fun shipAsteroidLoop :: "Ship \<Rightarrow> Asteroid list \<Rightarrow> bool" where
  "shipAsteroidLoop s [] = False"
| "shipAsteroidLoop s (a # as) = (if checkCollision s a then True else shipAsteroidLoop s as)"

definition checkShipCollision :: "Config \<Rightarrow> Game \<Rightarrow> failure + Game" where
  "checkShipCollision cfg g =
     (if debug_disablePlayerCollision cfg then Inr g
      else if \<not> isActive (ship g) \<or> isInvulnerable (ship g) \<or> isInHyperspace (ship g)
      then Inr g
      else if shipAsteroidLoop (ship g) (asteroids g) then shipDestroyed cfg g
      else
        (case ufo g of
           None \<Rightarrow> Inr g
         | Some u \<Rightarrow> if checkCollision (ship g) u then shipDestroyed cfg g else Inr g))"

text \<open>\<open>spawnAsteroids\<close> and \<open>nextLevel\<close>.\<close>

definition spawnAsteroids :: "int \<Rightarrow> Game \<Rightarrow> failure + Game" where
  "spawnAsteroids count g =
     (case createAsteroids count (width g) (height g) (position (transform (ship g)))
             createAsteroids_default_avoidRadius (mathRandom g) of
        None \<Rightarrow> Inl NeverReturns
      | Some r \<Rightarrow> Inr (g\<lparr>asteroids := asteroids g @ fst r, mathRandom := snd r\<rparr>))"

definition nextLevel :: "Config \<Rightarrow> Game \<Rightarrow> failure + Game" where
  "nextLevel cfg g =
     (let g1 = g\<lparr>data := (data g)\<lparr>level := level (data g) + 1\<rparr>\<rparr>;
          g2 = g1\<lparr>audio := audio g1 @ [PlayLevelUp]\<rparr>;
          numAsteroids = asteroid_startingCount cfg + level (data g2) - 1
      in spawnAsteroids numAsteroids g2)"

text \<open>
  The end of \<open>Game.update\<close> in the playing state: the four collision checks, then the
  level-complete check.
\<close>

definition levelCompleteCheck :: "Config \<Rightarrow> Game \<Rightarrow> failure + Game" where
  "levelCompleteCheck cfg g = (if length (asteroids g) = 0 then nextLevel cfg g else Inr g)"

definition updateCollisions :: "Config \<Rightarrow> Game \<Rightarrow> failure + Game" where
  "updateCollisions cfg g =
     (case checkUFOBulletCollisions cfg (checkUFOCollisions (checkBulletCollisions g)) of
        Inl e \<Rightarrow> Inl e
      | Inr g1 \<Rightarrow>
          (case checkShipCollision cfg g1 of
             Inl e \<Rightarrow> Inl e
           | Inr g2 \<Rightarrow> levelCompleteCheck cfg g2))"

text \<open>
  The state after the constructor and the field initialisers, for a canvas of the given
  size, and \<open>startGame\<close>.
\<close>

definition getNextGravityWellSpawnTime :: "rng \<Rightarrow> real \<times> rng" where
  "getNextGravityWellSpawnTime g = randomRange 20 40 g"

definition Game_new :: "real \<Rightarrow> real \<Rightarrow> rng \<Rightarrow> Game" where
  "Game_new canvasWidth canvasHeight g =
     \<lparr>width = canvasWidth,
      height = canvasHeight,
      input = \<lparr>keys = \<lparr>key_left = False, key_right = False, key_thrust = False,
                       key_fire = False, key_hyperspace = False\<rparr>,
               firePressed = False, startPressed = False, spaceWasReleased = True,
               glowTogglePressed = False, hyperspacePressed = False, menuPressed = False\<rparr>,
      audio = [],
      textInput = \<lparr>text_value = [], active = False, cursorVisible = True, cursorTimer = 0,
                   submitPressed = False, cancelPressed = False\<rparr>,
      highScoreManager = \<lparr>scores = [], submittedScoreId = None\<rparr>,
      ship = Ship_new (canvasWidth / 2) (canvasHeight / 2),
      asteroids = [],
      bullets = [],
      ufoBullets = [],
      debris = [],
      ufo = None,
      ufoSpawnTimer = 0,
      gravityWell = None,
      gravityWellSpawnTimer = 0,
      wasGravityWellActive = False,
      data = \<lparr>score = 0, lives = 3, level = 1, state = Start,
               finalScore = None, finalLevel = None\<rparr>,
      fireCooldown = 0,
      respawnTimer = 0,
      gameOverTimer = 0,
      mathRandom = g\<rparr>"

definition startGame :: "Config \<Rightarrow> Game \<Rightarrow> failure + Game" where
  "startGame cfg g =
     (case spawnAsteroids (asteroid_startingCount cfg)
             (g\<lparr>input := clearAll (input g), data := (data g)\<lparr>state := Playing\<rparr>\<rparr>) of
        Inl e \<Rightarrow> Inl e
      | Inr g1 \<Rightarrow>
          (let t1 = getNextUFOSpawnTime (mathRandom g1);
               t2 = getNextGravityWellSpawnTime (snd t1)
           in Inr (g1\<lparr>ufoSpawnTimer := fst t1, gravityWellSpawnTimer := fst t2,
                       mathRandom := snd t2\<rparr>)))"

text \<open>
  A game in the playing state with the given number of lives, a UFO and a gravity well
  on the field.
\<close>

definition Playing_game :: "int \<Rightarrow> Game" where
  "Playing_game n =
     (Game_new 800 600 (\<lambda>k. 0))
       \<lparr>ufo := Some (fst (createUFO 800 600 1 (\<lambda>k. 0))),
        gravityWell := Some (GravityWell_new 200 200 8 150),
        data := \<lparr>score = 0, lives = n, level = 1, state = Playing,
                 finalScore = None, finalLevel = None\<rparr>\<rparr>"

text \<open>
  A stretch of play in which the player's bullets destroy large asteroids only.  It is
  made of bullet passes (\<open>checkBulletCollisions\<close>) all of whose hits are on large
  asteroids, and of whatever happens between two passes, which leaves the score and the
  size, point value and activity of every asteroid in the list as they are (asteroids
  and bullets move, bullets are fired and expire).
\<close>

inductive directHitsRun :: "Game \<Rightarrow> Game \<Rightarrow> bool" where
  start: "directHitsRun g g"
| between:
    "directHitsRun g h \<Longrightarrow>
     map size_a (asteroids h') = map size_a (asteroids h) \<Longrightarrow>
     map points (asteroids h') = map points (asteroids h) \<Longrightarrow>
     map isActive (asteroids h') = map isActive (asteroids h) \<Longrightarrow>
     score (data h') = score (data h) \<Longrightarrow>
     directHitsRun g h'"
| pass:
    "directHitsRun g h \<Longrightarrow>
     list_all (\<lambda>a. size_a a = Large) (destroyedInPass (bullets h) (asteroids h)) \<Longrightarrow>
     directHitsRun g (checkBulletCollisions h)"

text \<open>
  Games to try the statements on: four large asteroids at the centre with two player
  bullets on them, the same field after two more bullets were fired, and a game whose
  random supply first offers a candidate inside the exclusion square.
\<close>

definition Wave_game :: Game where
  "Wave_game =
     (Playing_game 3)
       \<lparr>asteroids := [fst (Asteroid_new 400 300 Large None (\<lambda>k. 0)),
                      fst (Asteroid_new 400 300 Large None (\<lambda>k. 0)),
                      fst (Asteroid_new 400 300 Large None (\<lambda>k. 0)),
                      fst (Asteroid_new 400 300 Large None (\<lambda>k. 0))],
        bullets := [Bullet_new 400 300 \<lparr>vx = 1, vy = 0\<rparr>, Bullet_new 400 300 \<lparr>vx = 1, vy = 0\<rparr>]\<rparr>"

definition two_more_bullets :: "Game \<Rightarrow> Game" where
  "two_more_bullets g =
     g\<lparr>bullets := [Bullet_new 400 300 \<lparr>vx = 1, vy = 0\<rparr>, Bullet_new 400 300 \<lparr>vx = 1, vy = 0\<rparr>]\<rparr>"

definition Retry_game :: Game where
  "Retry_game = (Playing_game 3)\<lparr>mathRandom := (\<lambda>n. if n < 2 then 1 / 2 else 0)\<rparr>"


section \<open>Collision properties\<close>

text \<open>
  Claim C6.  \<open>checkCollision\<close> is symmetric; for two active entities it is true exactly
  when the Euclidean distance of their positions is strictly below the sum of the radii;
  and it is false as soon as one of the two is inactive.
\<close>

theorem checkCollision_symmetric_iff_overlap:
  fixes a :: "'a Entity_scheme" and b :: "'b Entity_scheme"
  shows "checkCollision a b = checkCollision b a
       \<and> (isActive a \<and> isActive b \<longrightarrow>
            checkCollision a b =
              (sqrt ((vx (position (transform a)) - vx (position (transform b)))\<^sup>2
                   + (vy (position (transform a)) - vy (position (transform b)))\<^sup>2)
               < radius a + radius b))
       \<and> (\<not> isActive a \<or> \<not> isActive b \<longrightarrow> \<not> checkCollision a b)"
proof -
  have sym: "distance p q = distance q p" for p q
    by (simp add: distance_def Let_def power2_eq_square[symmetric] power2_commute)
  have d: "distance p q = sqrt ((vx p - vx q)\<^sup>2 + (vy p - vy q)\<^sup>2)" for p q
    by (simp add: distance_def Let_def power2_eq_square[symmetric] power2_commute)
  show ?thesis
    using sym[of "position (transform a)" "position (transform b)"]
    by (auto simp: checkCollision_def Let_def d add.commute)
qed

theorem checkCollision_symmetric_iff_overlap_witness:
  "isActive (Entity_at 0 0 3 True) \<and> isActive (Entity_at 3 4 3 True)
   \<and> checkCollision (Entity_at 0 0 3 True) (Entity_at 3 4 3 True)
   \<and> \<not> isActive (Entity_at 0 0 3 False)
   \<and> \<not> checkCollision (Entity_at 0 0 3 False) (Entity_at 3 4 3 True)"
proof -
  have s: "sqrt 25 = 5"
    using real_sqrt_abs[of 5] by simp
  note t1 = checkCollision_symmetric_iff_overlap
              [of "Entity_at 0 0 3 True" "Entity_at 3 4 3 True"]
  note t2 = checkCollision_symmetric_iff_overlap
              [of "Entity_at 0 0 3 False" "Entity_at 3 4 3 True"]
  have a: "checkCollision (Entity_at 0 0 3 True) (Entity_at 3 4 3 True)"
    using t1[THEN conjunct2, THEN conjunct1] by (simp add: Entity_at_def s)
  have b: "\<not> checkCollision (Entity_at 0 0 3 False) (Entity_at 3 4 3 True)"
    using t2[THEN conjunct2, THEN conjunct2] by (simp add: Entity_at_def)
  show ?thesis using a b by (simp add: Entity_at_def)
qed

section \<open>Hyperspace\<close>

text \<open>
  Claim C4.  When the ship is not idle, or its hyperspace cooldown is still positive,
  \<open>activateHyperspace\<close> with any target leaves the ship exactly as it was: state, timer,
  target position and invulnerability time (and every other field) are unchanged, and the
  call returns normally.
\<close>

theorem activateHyperspace_noop:
  assumes "hyperspaceState s \<noteq> Idle \<or> hyperspaceCooldown s > 0"
  shows "activateHyperspace targetX targetY s = s"
  using assms by (auto simp: activateHyperspace_def canHyperspace_def)

theorem activateHyperspace_noop_witness:
  "hyperspaceCooldown ((Ship_new 400 300)\<lparr>hyperspaceCooldown := 2\<rparr>) > 0
   \<and> activateHyperspace 10 20 ((Ship_new 400 300)\<lparr>hyperspaceCooldown := 2\<rparr>)
       = (Ship_new 400 300)\<lparr>hyperspaceCooldown := 2\<rparr>"
proof -
  have h: "hyperspaceCooldown ((Ship_new 400 300)\<lparr>hyperspaceCooldown := 2\<rparr>) > 0"
    by simp
  then show ?thesis
    using activateHyperspace_noop[of "(Ship_new 400 300)\<lparr>hyperspaceCooldown := 2\<rparr>" 10 20]
    by simp
qed

text \<open>One frame inside a phase that does not end in this frame.\<close>

lemma Ship_update_shrinking_stay:
  assumes "hyperspaceState s = Shrinking" "hyperspaceTimer s + dt < HYPERSPACE_SHRINK_TIME"
    and "hyperspaceCooldown s \<le> 0"
  shows "hyperspaceState (Ship_update dt s) = Shrinking"
    and "hyperspaceTimer (Ship_update dt s) = hyperspaceTimer s + dt"
    and "hyperspaceCooldown (Ship_update dt s) = hyperspaceCooldown s"
    and "hyperspaceTargetPosition (Ship_update dt s) = hyperspaceTargetPosition s"
  using assms by (simp_all add: Ship_update_def Ship_update_hyperspace_def Let_def)

lemma Ship_update_warping_stay:
  assumes "hyperspaceState s = Warping" "hyperspaceTimer s + dt < HYPERSPACE_WARP_TIME"
    and "hyperspaceCooldown s \<le> 0"
  shows "hyperspaceState (Ship_update dt s) = Warping"
    and "hyperspaceTimer (Ship_update dt s) = hyperspaceTimer s + dt"
    and "hyperspaceCooldown (Ship_update dt s) = hyperspaceCooldown s"
    and "hyperspaceTargetPosition (Ship_update dt s) = hyperspaceTargetPosition s"
    and "position (transform (Ship_update dt s)) = position (transform s)"
  using assms by (simp_all add: Ship_update_def Ship_update_hyperspace_def Let_def)

lemma Ship_update_expanding_stay:
  assumes "hyperspaceState s = Expanding" "hyperspaceTimer s + dt < HYPERSPACE_EXPAND_TIME"
    and "hyperspaceCooldown s \<le> 0" "velocity s = \<lparr>vx = 0, vy = 0\<rparr>"
  shows "hyperspaceState (Ship_update dt s) = Expanding"
    and "hyperspaceTimer (Ship_update dt s) = hyperspaceTimer s + dt"
    and "hyperspaceCooldown (Ship_update dt s) = hyperspaceCooldown s"
    and "velocity (Ship_update dt s) = \<lparr>vx = 0, vy = 0\<rparr>"
    and "position (transform (Ship_update dt s)) = position (transform s)"
  using assms
  by (simp_all add: Ship_update_def Ship_update_hyperspace_def Let_def add_def scale_def)

text \<open>The frame in which a phase ends.\<close>

lemma Ship_update_shrinking_done:
  assumes "hyperspaceState s = Shrinking" "hyperspaceTimer s + dt \<ge> HYPERSPACE_SHRINK_TIME"
    and "hyperspaceCooldown s \<le> 0"
  shows "hyperspaceState (Ship_update dt s) = Warping"
    and "hyperspaceTimer (Ship_update dt s) = 0"
    and "hyperspaceCooldown (Ship_update dt s) = hyperspaceCooldown s"
    and "hyperspaceTargetPosition (Ship_update dt s) = hyperspaceTargetPosition s"
  using assms by (simp_all add: Ship_update_def Ship_update_hyperspace_def Let_def)

lemma Ship_update_warping_done:
  assumes "hyperspaceState s = Warping" "hyperspaceTimer s + dt \<ge> HYPERSPACE_WARP_TIME"
    and "hyperspaceCooldown s \<le> 0"
  shows "hyperspaceState (Ship_update dt s) = Expanding"
    and "hyperspaceTimer (Ship_update dt s) = 0"
    and "hyperspaceCooldown (Ship_update dt s) = hyperspaceCooldown s"
    and "velocity (Ship_update dt s) = \<lparr>vx = 0, vy = 0\<rparr>"
    and "position (transform (Ship_update dt s)) = hyperspaceTargetPosition s"
  using assms
  by (simp_all add: Ship_update_def Ship_update_hyperspace_def Let_def add_def scale_def)

lemma Ship_update_expanding_done:
  assumes "hyperspaceState s = Expanding" "hyperspaceTimer s + dt \<ge> HYPERSPACE_EXPAND_TIME"
    and "velocity s = \<lparr>vx = 0, vy = 0\<rparr>"
  shows "hyperspaceState (Ship_update dt s) = Idle"
    and "hyperspaceTimer (Ship_update dt s) = 0"
    and "hyperspaceCooldown (Ship_update dt s) = HYPERSPACE_COOLDOWN - dt"
    and "velocity (Ship_update dt s) = \<lparr>vx = 0, vy = 0\<rparr>"
    and "position (transform (Ship_update dt s)) = position (transform s)"
  using assms
  by (simp_all add: Ship_update_def Ship_update_hyperspace_def Let_def add_def scale_def
        HYPERSPACE_COOLDOWN_def)

lemma Ship_updates_snoc: "Ship_updates (ds @ [d]) s = Ship_update d (Ship_updates ds s)"
  by (induction ds arbitrary: s) simp_all

lemma Ship_updates_append: "Ship_updates (ds @ es) s = Ship_updates es (Ship_updates ds s)"
  by (induction ds arbitrary: s) simp_all

lemma sum_list_nonneg_real: "\<forall>d\<in>set ds. (0::real) \<le> d \<Longrightarrow> 0 \<le> sum_list ds"
  by (induction ds) auto

text \<open>Several frames inside one phase.\<close>

lemma Ship_updates_shrinking_stay:
  assumes "hyperspaceState s = Shrinking" "\<forall>d\<in>set ds. 0 \<le> d"
    and "hyperspaceTimer s + sum_list ds < HYPERSPACE_SHRINK_TIME"
    and "hyperspaceCooldown s \<le> 0"
  shows "hyperspaceState (Ship_updates ds s) = Shrinking
       \<and> hyperspaceTimer (Ship_updates ds s) = hyperspaceTimer s + sum_list ds
       \<and> hyperspaceCooldown (Ship_updates ds s) = hyperspaceCooldown s
       \<and> hyperspaceTargetPosition (Ship_updates ds s) = hyperspaceTargetPosition s"
  using assms
proof (induction ds arbitrary: s)
  case Nil
  then show ?case by simp
next
  case (Cons d ds)
  have nn: "0 \<le> sum_list ds" using Cons.prems(2) by (simp add: sum_list_nonneg_real)
  have lt: "hyperspaceTimer s + d < HYPERSPACE_SHRINK_TIME"
    using Cons.prems(3) nn by simp
  note st = Ship_update_shrinking_stay[OF Cons.prems(1) lt Cons.prems(4)]
  have "hyperspaceTimer (Ship_update d s) + sum_list ds < HYPERSPACE_SHRINK_TIME"
    using Cons.prems(3) st(2) by simp
  from Cons.IH[OF st(1) _ this] Cons.prems(2,4) st show ?case by simp
qed

lemma Ship_updates_warping_stay:
  assumes "hyperspaceState s = Warping" "\<forall>d\<in>set ds. 0 \<le> d"
    and "hyperspaceTimer s + sum_list ds < HYPERSPACE_WARP_TIME"
    and "hyperspaceCooldown s \<le> 0"
  shows "hyperspaceState (Ship_updates ds s) = Warping
       \<and> hyperspaceTimer (Ship_updates ds s) = hyperspaceTimer s + sum_list ds
       \<and> hyperspaceCooldown (Ship_updates ds s) = hyperspaceCooldown s
       \<and> hyperspaceTargetPosition (Ship_updates ds s) = hyperspaceTargetPosition s"
  using assms
proof (induction ds arbitrary: s)
  case Nil
  then show ?case by simp
next
  case (Cons d ds)
  have nn: "0 \<le> sum_list ds" using Cons.prems(2) by (simp add: sum_list_nonneg_real)
  have lt: "hyperspaceTimer s + d < HYPERSPACE_WARP_TIME"
    using Cons.prems(3) nn by simp
  note st = Ship_update_warping_stay[OF Cons.prems(1) lt Cons.prems(4)]
  have "hyperspaceTimer (Ship_update d s) + sum_list ds < HYPERSPACE_WARP_TIME"
    using Cons.prems(3) st(2) by simp
  from Cons.IH[OF st(1) _ this] Cons.prems(2,4) st show ?case by simp
qed

lemma Ship_updates_expanding_stay:
  assumes "hyperspaceState s = Expanding" "\<forall>d\<in>set ds. 0 \<le> d"
    and "hyperspaceTimer s + sum_list ds < HYPERSPACE_EXPAND_TIME"
    and "hyperspaceCooldown s \<le> 0" "velocity s = \<lparr>vx = 0, vy = 0\<rparr>"
  shows "hyperspaceState (Ship_updates ds s) = Expanding
       \<and> hyperspaceTimer (Ship_updates ds s) = hyperspaceTimer s + sum_list ds
       \<and> hyperspaceCooldown (Ship_updates ds s) = hyperspaceCooldown s
       \<and> velocity (Ship_updates ds s) = \<lparr>vx = 0, vy = 0\<rparr>
       \<and> position (transform (Ship_updates ds s)) = position (transform s)"
  using assms
proof (induction ds arbitrary: s)
  case Nil
  then show ?case by simp
next
  case (Cons d ds)
  have nn: "0 \<le> sum_list ds" using Cons.prems(2) by (simp add: sum_list_nonneg_real)
  have lt: "hyperspaceTimer s + d < HYPERSPACE_EXPAND_TIME"
    using Cons.prems(3) nn by simp
  note st = Ship_update_expanding_stay[OF Cons.prems(1) lt Cons.prems(4,5)]
  have "hyperspaceTimer (Ship_update d s) + sum_list ds < HYPERSPACE_EXPAND_TIME"
    using Cons.prems(3) st(2) by simp
  from Cons.IH[OF st(1) _ this] Cons.prems(2,4) st show ?case by simp
qed

lemma phase_split:
  fixes ds :: "real list"
  assumes "ds \<noteq> []" "\<forall>d\<in>set ds. 0 < d" "sum_list ds = T"
  shows "ds = butlast ds @ [last ds]" "\<forall>d\<in>set (butlast ds). 0 \<le> d"
    "sum_list (butlast ds) < T" "sum_list (butlast ds) + last ds = T"
proof -
  show a: "ds = butlast ds @ [last ds]" using assms(1) by simp
  show "\<forall>d\<in>set (butlast ds). 0 \<le> d"
    using assms(2) by (auto dest: in_set_butlastD intro: less_imp_le)
  have "sum_list ds = sum_list (butlast ds) + last ds"
    by (subst a) simp
  then show b: "sum_list (butlast ds) + last ds = T" using assms(3) by simp
  have "0 < last ds" using assms(1,2) by simp
  then show "sum_list (butlast ds) < T" using b by simp
qed

text \<open>A whole phase: positive frame times that add up to exactly the phase duration.\<close>

lemma shrinking_phase:
  assumes "hyperspaceState s = Shrinking" "hyperspaceTimer s = 0" "hyperspaceCooldown s \<le> 0"
    and "ds \<noteq> []" "\<forall>d\<in>set ds. 0 < d" "sum_list ds = HYPERSPACE_SHRINK_TIME"
  shows "hyperspaceState (Ship_updates ds s) = Warping"
    and "hyperspaceTimer (Ship_updates ds s) = 0"
    and "hyperspaceCooldown (Ship_updates ds s) \<le> 0"
    and "hyperspaceTargetPosition (Ship_updates ds s) = hyperspaceTargetPosition s"
proof -
  note sp = phase_split[OF assms(4,5,6)]
  let ?m = "Ship_updates (butlast ds) s"
  have st: "hyperspaceState ?m = Shrinking
       \<and> hyperspaceTimer ?m = hyperspaceTimer s + sum_list (butlast ds)
       \<and> hyperspaceCooldown ?m = hyperspaceCooldown s
       \<and> hyperspaceTargetPosition ?m = hyperspaceTargetPosition s"
    using Ship_updates_shrinking_stay[OF assms(1) sp(2)] sp(3) assms(2,3) by simp
  have e: "Ship_updates ds s = Ship_update (last ds) ?m"
    by (subst sp(1)) (simp only: Ship_updates_snoc)
  have ge: "hyperspaceTimer ?m + last ds \<ge> HYPERSPACE_SHRINK_TIME"
    using st sp(4) assms(2) by simp
  have c: "hyperspaceCooldown ?m \<le> 0" using st assms(3) by simp
  note dn = Ship_update_shrinking_done[OF _ ge c]
  show "hyperspaceState (Ship_updates ds s) = Warping" using dn(1) st e by simp
  show "hyperspaceTimer (Ship_updates ds s) = 0" using dn(2) st e by simp
  show "hyperspaceCooldown (Ship_updates ds s) \<le> 0" using dn(3) st e c by simp
  show "hyperspaceTargetPosition (Ship_updates ds s) = hyperspaceTargetPosition s"
    using dn(4) st e by simp
qed

lemma warping_phase:
  assumes "hyperspaceState s = Warping" "hyperspaceTimer s = 0" "hyperspaceCooldown s \<le> 0"
    and "ds \<noteq> []" "\<forall>d\<in>set ds. 0 < d" "sum_list ds = HYPERSPACE_WARP_TIME"
  shows "hyperspaceState (Ship_updates ds s) = Expanding"
    and "hyperspaceTimer (Ship_updates ds s) = 0"
    and "hyperspaceCooldown (Ship_updates ds s) \<le> 0"
    and "velocity (Ship_updates ds s) = \<lparr>vx = 0, vy = 0\<rparr>"
    and "position (transform (Ship_updates ds s)) = hyperspaceTargetPosition s"
proof -
  note sp = phase_split[OF assms(4,5,6)]
  let ?m = "Ship_updates (butlast ds) s"
  have st: "hyperspaceState ?m = Warping
       \<and> hyperspaceTimer ?m = hyperspaceTimer s + sum_list (butlast ds)
       \<and> hyperspaceCooldown ?m = hyperspaceCooldown s
       \<and> hyperspaceTargetPosition ?m = hyperspaceTargetPosition s"
    using Ship_updates_warping_stay[OF assms(1) sp(2)] sp(3) assms(2,3) by simp
  have e: "Ship_updates ds s = Ship_update (last ds) ?m"
    by (subst sp(1)) (simp only: Ship_updates_snoc)
  have ge: "hyperspaceTimer ?m + last ds \<ge> HYPERSPACE_WARP_TIME"
    using st sp(4) assms(2) by simp
  have c: "hyperspaceCooldown ?m \<le> 0" using st assms(3) by simp
  note dn = Ship_update_warping_done[OF _ ge c]
  show "hyperspaceState (Ship_updates ds s) = Expanding" using dn(1) st e by simp
  show "hyperspaceTimer (Ship_updates ds s) = 0" using dn(2) st e by simp
  show "hyperspaceCooldown (Ship_updates ds s) \<le> 0" using dn(3) st e c by simp
  show "velocity (Ship_updates ds s) = \<lparr>vx = 0, vy = 0\<rparr>" using dn(4) st e by simp
  show "position (transform (Ship_updates ds s)) = hyperspaceTargetPosition s"
    using dn(5) st e by simp
qed

lemma expanding_phase:
  assumes "hyperspaceState s = Expanding" "hyperspaceTimer s = 0" "hyperspaceCooldown s \<le> 0"
    and "velocity s = \<lparr>vx = 0, vy = 0\<rparr>"
    and "ds \<noteq> []" "\<forall>d\<in>set ds. 0 < d" "sum_list ds = HYPERSPACE_EXPAND_TIME"
  shows "hyperspaceState (Ship_updates ds s) = Idle"
    and "hyperspaceTimer (Ship_updates ds s) = 0"
    and "hyperspaceCooldown (Ship_updates ds s) = HYPERSPACE_COOLDOWN - last ds"
    and "velocity (Ship_updates ds s) = \<lparr>vx = 0, vy = 0\<rparr>"
    and "position (transform (Ship_updates ds s)) = position (transform s)"
proof -
  note sp = phase_split[OF assms(5,6,7)]
  let ?m = "Ship_updates (butlast ds) s"
  have st: "hyperspaceState ?m = Expanding
       \<and> hyperspaceTimer ?m = hyperspaceTimer s + sum_list (butlast ds)
       \<and> hyperspaceCooldown ?m = hyperspaceCooldown s
       \<and> velocity ?m = \<lparr>vx = 0, vy = 0\<rparr>
       \<and> position (transform ?m) = position (transform s)"
    using Ship_updates_expanding_stay[OF assms(1) sp(2) _ assms(3,4)] sp(3) assms(2) by simp
  have e: "Ship_updates ds s = Ship_update (last ds) ?m"
    by (subst sp(1)) (simp only: Ship_updates_snoc)
  have ge: "hyperspaceTimer ?m + last ds \<ge> HYPERSPACE_EXPAND_TIME"
    using st sp(4) assms(2) by simp
  note dn = Ship_update_expanding_done[OF _ ge]
  show "hyperspaceState (Ship_updates ds s) = Idle" using dn(1) st e by simp
  show "hyperspaceTimer (Ship_updates ds s) = 0" using dn(2) st e by simp
  show "hyperspaceCooldown (Ship_updates ds s) = HYPERSPACE_COOLDOWN - last ds"
    using dn(3) st e by simp
  show "velocity (Ship_updates ds s) = \<lparr>vx = 0, vy = 0\<rparr>" using dn(4) st e by simp
  show "position (transform (Ship_updates ds s)) = position (transform s)"
    using dn(5) st e by simp
qed

text \<open>
  Claim C3, as stated, fails: in the frame that ends the expanding phase \<open>update\<close> sets
  the cooldown to the configured constant and then, in the same call, counts it down by
  that frame's \<open>dt\<close>.  Three frames of 0.3, 0.2 and 0.3 seconds complete the cycle (the
  ship is idle again at the target) and leave a cooldown of 4.7, not 5.
\<close>

theorem hyperspace_cycle_cooldown_counterexample:
  "sum_list [3 / 10, 2 / 10, 3 / 10]
     = HYPERSPACE_SHRINK_TIME + HYPERSPACE_WARP_TIME + HYPERSPACE_EXPAND_TIME
   \<and> hyperspaceState (activateHyperspace 100 200 (Ship_new 400 300)) = Shrinking
   \<and> hyperspaceState (Ship_updates [3 / 10] (activateHyperspace 100 200 (Ship_new 400 300)))
       = Warping
   \<and> hyperspaceState
       (Ship_updates [3 / 10, 2 / 10] (activateHyperspace 100 200 (Ship_new 400 300)))
       = Expanding
   \<and> hyperspaceState
       (Ship_updates [3 / 10, 2 / 10, 3 / 10] (activateHyperspace 100 200 (Ship_new 400 300)))
       = Idle
   \<and> position (transform
       (Ship_updates [3 / 10, 2 / 10, 3 / 10] (activateHyperspace 100 200 (Ship_new 400 300))))
       = \<lparr>vx = 100, vy = 200\<rparr>
   \<and> hyperspaceCooldown
       (Ship_updates [3 / 10, 2 / 10, 3 / 10] (activateHyperspace 100 200 (Ship_new 400 300)))
       = 47 / 10
   \<and> hyperspaceCooldown
       (Ship_updates [3 / 10, 2 / 10, 3 / 10] (activateHyperspace 100 200 (Ship_new 400 300)))
       \<noteq> HYPERSPACE_COOLDOWN"
  by (simp add: Ship_update_def Ship_update_hyperspace_def activateHyperspace_def
        canHyperspace_def Ship_new_def Let_def add_def scale_def
        HYPERSPACE_SHRINK_TIME_def HYPERSPACE_WARP_TIME_def HYPERSPACE_EXPAND_TIME_def
        HYPERSPACE_COOLDOWN_def HYPERSPACE_INVULNERABILITY_def)

text \<open>
  A cycle whose frame times add up to exactly the phase duration in each of the three
  phases runs to completion.
\<close>

lemma hyperspace_cycle_by_phases:
  assumes can: "canHyperspace s0"
    and p1: "ds1 \<noteq> []" "\<forall>d\<in>set ds1. 0 < d" "sum_list ds1 = HYPERSPACE_SHRINK_TIME"
    and p2: "ds2 \<noteq> []" "\<forall>d\<in>set ds2. 0 < d" "sum_list ds2 = HYPERSPACE_WARP_TIME"
    and p3: "ds3 \<noteq> []" "\<forall>d\<in>set ds3. 0 < d" "sum_list ds3 = HYPERSPACE_EXPAND_TIME"
  shows "sum_list (ds1 @ ds2 @ ds3)
           = HYPERSPACE_SHRINK_TIME + HYPERSPACE_WARP_TIME + HYPERSPACE_EXPAND_TIME
       \<and> hyperspaceState (activateHyperspace tx ty s0) = Shrinking
       \<and> hyperspaceState (Ship_updates ds1 (activateHyperspace tx ty s0)) = Warping
       \<and> hyperspaceState (Ship_updates (ds1 @ ds2) (activateHyperspace tx ty s0)) = Expanding
       \<and> hyperspaceState (Ship_updates (ds1 @ ds2 @ ds3) (activateHyperspace tx ty s0)) = Idle
       \<and> hyperspaceCooldown (Ship_updates (ds1 @ ds2 @ ds3) (activateHyperspace tx ty s0))
           = HYPERSPACE_COOLDOWN - last ds3
       \<and> position (transform (Ship_updates (ds1 @ ds2 @ ds3) (activateHyperspace tx ty s0)))
           = \<lparr>vx = tx, vy = ty\<rparr>
       \<and> velocity (Ship_updates (ds1 @ ds2 @ ds3) (activateHyperspace tx ty s0))
           = \<lparr>vx = 0, vy = 0\<rparr>"
proof -
  let ?a = "activateHyperspace tx ty s0"
  have a: "hyperspaceState ?a = Shrinking" "hyperspaceTimer ?a = 0"
    "hyperspaceCooldown ?a \<le> 0" "hyperspaceTargetPosition ?a = \<lparr>vx = tx, vy = ty\<rparr>"
    using can by (simp_all add: activateHyperspace_def canHyperspace_def)
  note w = shrinking_phase[OF a(1,2,3) p1]
  note e = warping_phase[OF w(1,2,3) p2]
  note i = expanding_phase[OF e(1,2,3,4) p3]
  have s: "sum_list (ds1 @ ds2 @ ds3)
           = HYPERSPACE_SHRINK_TIME + HYPERSPACE_WARP_TIME + HYPERSPACE_EXPAND_TIME"
    using p1(3) p2(3) p3(3) by simp
  show ?thesis
    using s a(1,4) w(1,4) e(1,5) i(1,3,4,5)
    by (simp add: Ship_updates_append)
qed

lemma shrinking_exit:
  assumes "hyperspaceState s = Shrinking" "hyperspaceCooldown s \<le> 0" "\<forall>d\<in>set ds. 0 \<le> d"
  shows "hyperspaceState (Ship_updates ds s) = Shrinking
       \<or> (\<exists>xs d ys. ds = xs @ d # ys
            \<and> HYPERSPACE_SHRINK_TIME \<le> hyperspaceTimer s + sum_list xs + d
            \<and> hyperspaceState (Ship_updates (xs @ [d]) s) = Warping
            \<and> hyperspaceTimer (Ship_updates (xs @ [d]) s) = 0
            \<and> hyperspaceCooldown (Ship_updates (xs @ [d]) s) \<le> 0
            \<and> hyperspaceTargetPosition (Ship_updates (xs @ [d]) s) = hyperspaceTargetPosition s)"
  using assms
proof (induction ds arbitrary: s)
  case Nil
  then show ?case by simp
next
  case (Cons d ds)
  show ?case
  proof (cases "HYPERSPACE_SHRINK_TIME \<le> hyperspaceTimer s + d")
    case True
    note dn = Ship_update_shrinking_done[OF Cons.prems(1) True Cons.prems(2)]
    have "d # ds = [] @ d # ds
        \<and> HYPERSPACE_SHRINK_TIME \<le> hyperspaceTimer s + sum_list [] + d
        \<and> hyperspaceState (Ship_updates ([] @ [d]) s) = Warping
        \<and> hyperspaceTimer (Ship_updates ([] @ [d]) s) = 0
        \<and> hyperspaceCooldown (Ship_updates ([] @ [d]) s) \<le> 0
        \<and> hyperspaceTargetPosition (Ship_updates ([] @ [d]) s) = hyperspaceTargetPosition s"
      using True dn Cons.prems(2) by simp
    then show ?thesis by blast
  next
    case False
    then have lt: "hyperspaceTimer s + d < HYPERSPACE_SHRINK_TIME" by simp
    note st = Ship_update_shrinking_stay[OF Cons.prems(1) lt Cons.prems(2)]
    have c: "hyperspaceCooldown (Ship_update d s) \<le> 0" using st(3) Cons.prems(2) by simp
    have nn: "\<forall>d\<in>set ds. 0 \<le> d" using Cons.prems(3) by simp
    from Cons.IH[OF st(1) c nn]
    show ?thesis
    proof
      assume "hyperspaceState (Ship_updates ds (Ship_update d s)) = Shrinking"
      then show ?thesis by simp
    next
      assume "\<exists>xs d' ys. ds = xs @ d' # ys
            \<and> HYPERSPACE_SHRINK_TIME \<le> hyperspaceTimer (Ship_update d s) + sum_list xs + d'
            \<and> hyperspaceState (Ship_updates (xs @ [d']) (Ship_update d s)) = Warping
            \<and> hyperspaceTimer (Ship_updates (xs @ [d']) (Ship_update d s)) = 0
            \<and> hyperspaceCooldown (Ship_updates (xs @ [d']) (Ship_update d s)) \<le> 0
            \<and> hyperspaceTargetPosition (Ship_updates (xs @ [d']) (Ship_update d s))
                = hyperspaceTargetPosition (Ship_update d s)"
      then obtain xs d' ys where x: "ds = xs @ d' # ys"
          "HYPERSPACE_SHRINK_TIME \<le> hyperspaceTimer (Ship_update d s) + sum_list xs + d'"
          "hyperspaceState (Ship_updates (xs @ [d']) (Ship_update d s)) = Warping"
          "hyperspaceTimer (Ship_updates (xs @ [d']) (Ship_update d s)) = 0"
          "hyperspaceCooldown (Ship_updates (xs @ [d']) (Ship_update d s)) \<le> 0"
          "hyperspaceTargetPosition (Ship_updates (xs @ [d']) (Ship_update d s))
                = hyperspaceTargetPosition (Ship_update d s)"
        by blast
      have "d # ds = (d # xs) @ d' # ys
        \<and> HYPERSPACE_SHRINK_TIME \<le> hyperspaceTimer s + sum_list (d # xs) + d'
        \<and> hyperspaceState (Ship_updates ((d # xs) @ [d']) s) = Warping
        \<and> hyperspaceTimer (Ship_updates ((d # xs) @ [d']) s) = 0
        \<and> hyperspaceCooldown (Ship_updates ((d # xs) @ [d']) s) \<le> 0
        \<and> hyperspaceTargetPosition (Ship_updates ((d # xs) @ [d']) s) = hyperspaceTargetPosition s"
        using x st(2,4) by (simp add: add.assoc)
      then show ?thesis by blast
    qed
  qed
qed


lemma warping_exit:
  assumes "hyperspaceState s = Warping" "hyperspaceCooldown s \<le> 0" "\<forall>d\<in>set ds. 0 \<le> d"
  shows "hyperspaceState (Ship_updates ds s) = Warping
       \<or> (\<exists>xs d ys. ds = xs @ d # ys
            \<and> HYPERSPACE_WARP_TIME \<le> hyperspaceTimer s + sum_list xs + d
            \<and> hyperspaceState (Ship_updates (xs @ [d]) s) = Expanding
            \<and> hyperspaceTimer (Ship_updates (xs @ [d]) s) = 0
            \<and> hyperspaceCooldown (Ship_updates (xs @ [d]) s) \<le> 0
            \<and> velocity (Ship_updates (xs @ [d]) s) = \<lparr>vx = 0, vy = 0\<rparr>
            \<and> position (transform (Ship_updates (xs @ [d]) s)) = hyperspaceTargetPosition s)"
  using assms
proof (induction ds arbitrary: s)
  case Nil
  then show ?case by simp
next
  case (Cons d ds)
  show ?case
  proof (cases "HYPERSPACE_WARP_TIME \<le> hyperspaceTimer s + d")
    case True
    note dn = Ship_update_warping_done[OF Cons.prems(1) True Cons.prems(2)]
    have "d # ds = [] @ d # ds
        \<and> HYPERSPACE_WARP_TIME \<le> hyperspaceTimer s + sum_list [] + d
        \<and> hyperspaceState (Ship_updates ([] @ [d]) s) = Expanding
        \<and> hyperspaceTimer (Ship_updates ([] @ [d]) s) = 0
        \<and> hyperspaceCooldown (Ship_updates ([] @ [d]) s) \<le> 0
        \<and> velocity (Ship_updates ([] @ [d]) s) = \<lparr>vx = 0, vy = 0\<rparr>
        \<and> position (transform (Ship_updates ([] @ [d]) s)) = hyperspaceTargetPosition s"
      using True dn Cons.prems(2) by simp
    then show ?thesis by blast
  next
    case False
    then have lt: "hyperspaceTimer s + d < HYPERSPACE_WARP_TIME" by simp
    note st = Ship_update_warping_stay[OF Cons.prems(1) lt Cons.prems(2)]
    have c: "hyperspaceCooldown (Ship_update d s) \<le> 0" using st(3) Cons.prems(2) by simp
    have nn: "\<forall>d\<in>set ds. 0 \<le> d" using Cons.prems(3) by simp
    from Cons.IH[OF st(1) c nn]
    show ?thesis
    proof
      assume "hyperspaceState (Ship_updates ds (Ship_update d s)) = Warping"
      then show ?thesis by simp
    next
      assume "\<exists>xs d' ys. ds = xs @ d' # ys
            \<and> HYPERSPACE_WARP_TIME \<le> hyperspaceTimer (Ship_update d s) + sum_list xs + d'
            \<and> hyperspaceState (Ship_updates (xs @ [d']) (Ship_update d s)) = Expanding
            \<and> hyperspaceTimer (Ship_updates (xs @ [d']) (Ship_update d s)) = 0
            \<and> hyperspaceCooldown (Ship_updates (xs @ [d']) (Ship_update d s)) \<le> 0
            \<and> velocity (Ship_updates (xs @ [d']) (Ship_update d s)) = \<lparr>vx = 0, vy = 0\<rparr>
            \<and> position (transform (Ship_updates (xs @ [d']) (Ship_update d s)))
                = hyperspaceTargetPosition (Ship_update d s)"
      then obtain xs d' ys where x: "ds = xs @ d' # ys"
          "HYPERSPACE_WARP_TIME \<le> hyperspaceTimer (Ship_update d s) + sum_list xs + d'"
          "hyperspaceState (Ship_updates (xs @ [d']) (Ship_update d s)) = Expanding"
          "hyperspaceTimer (Ship_updates (xs @ [d']) (Ship_update d s)) = 0"
          "hyperspaceCooldown (Ship_updates (xs @ [d']) (Ship_update d s)) \<le> 0"
          "velocity (Ship_updates (xs @ [d']) (Ship_update d s)) = \<lparr>vx = 0, vy = 0\<rparr>"
          "position (transform (Ship_updates (xs @ [d']) (Ship_update d s)))
                = hyperspaceTargetPosition (Ship_update d s)"
        by blast
      have "d # ds = (d # xs) @ d' # ys
        \<and> HYPERSPACE_WARP_TIME \<le> hyperspaceTimer s + sum_list (d # xs) + d'
        \<and> hyperspaceState (Ship_updates ((d # xs) @ [d']) s) = Expanding
        \<and> hyperspaceTimer (Ship_updates ((d # xs) @ [d']) s) = 0
        \<and> hyperspaceCooldown (Ship_updates ((d # xs) @ [d']) s) \<le> 0
        \<and> velocity (Ship_updates ((d # xs) @ [d']) s) = \<lparr>vx = 0, vy = 0\<rparr>
        \<and> position (transform (Ship_updates ((d # xs) @ [d']) s)) = hyperspaceTargetPosition s"
        using x st(2,4) by (simp add: add.assoc)
      then show ?thesis by blast
    qed
  qed
qed

lemma expanding_exit:
  assumes "hyperspaceState s = Expanding" "hyperspaceCooldown s \<le> 0"
    and "velocity s = \<lparr>vx = 0, vy = 0\<rparr>" "\<forall>d\<in>set ds. 0 \<le> d"
  shows "hyperspaceState (Ship_updates ds s) = Expanding
       \<or> (\<exists>xs d ys. ds = xs @ d # ys
            \<and> HYPERSPACE_EXPAND_TIME \<le> hyperspaceTimer s + sum_list xs + d
            \<and> hyperspaceState (Ship_updates (xs @ [d]) s) = Idle
            \<and> hyperspaceCooldown (Ship_updates (xs @ [d]) s) = HYPERSPACE_COOLDOWN - d
            \<and> velocity (Ship_updates (xs @ [d]) s) = \<lparr>vx = 0, vy = 0\<rparr>
            \<and> position (transform (Ship_updates (xs @ [d]) s)) = position (transform s))"
  using assms
proof (induction ds arbitrary: s)
  case Nil
  then show ?case by simp
next
  case (Cons d ds)
  show ?case
  proof (cases "HYPERSPACE_EXPAND_TIME \<le> hyperspaceTimer s + d")
    case True
    note dn = Ship_update_expanding_done[OF Cons.prems(1) True Cons.prems(3)]
    have "d # ds = [] @ d # ds
        \<and> HYPERSPACE_EXPAND_TIME \<le> hyperspaceTimer s + sum_list [] + d
        \<and> hyperspaceState (Ship_updates ([] @ [d]) s) = Idle
        \<and> hyperspaceCooldown (Ship_updates ([] @ [d]) s) = HYPERSPACE_COOLDOWN - d
        \<and> velocity (Ship_updates ([] @ [d]) s) = \<lparr>vx = 0, vy = 0\<rparr>
        \<and> position (transform (Ship_updates ([] @ [d]) s)) = position (transform s)"
      using True dn by simp
    then show ?thesis by blast
  next
    case False
    then have lt: "hyperspaceTimer s + d < HYPERSPACE_EXPAND_TIME" by simp
    note st = Ship_update_expanding_stay[OF Cons.prems(1) lt Cons.prems(2,3)]
    have c: "hyperspaceCooldown (Ship_update d s) \<le> 0" using st(3) Cons.prems(2) by simp
    have nn: "\<forall>d\<in>set ds. 0 \<le> d" using Cons.prems(4) by simp
    from Cons.IH[OF st(1) c st(4) nn]
    show ?thesis
    proof
      assume "hyperspaceState (Ship_updates ds (Ship_update d s)) = Expanding"
      then show ?thesis by simp
    next
      assume "\<exists>xs d' ys. ds = xs @ d' # ys
            \<and> HYPERSPACE_EXPAND_TIME \<le> hyperspaceTimer (Ship_update d s) + sum_list xs + d'
            \<and> hyperspaceState (Ship_updates (xs @ [d']) (Ship_update d s)) = Idle
            \<and> hyperspaceCooldown (Ship_updates (xs @ [d']) (Ship_update d s))
                = HYPERSPACE_COOLDOWN - d'
            \<and> velocity (Ship_updates (xs @ [d']) (Ship_update d s)) = \<lparr>vx = 0, vy = 0\<rparr>
            \<and> position (transform (Ship_updates (xs @ [d']) (Ship_update d s)))
                = position (transform (Ship_update d s))"
      then obtain xs d' ys where x: "ds = xs @ d' # ys"
          "HYPERSPACE_EXPAND_TIME \<le> hyperspaceTimer (Ship_update d s) + sum_list xs + d'"
          "hyperspaceState (Ship_updates (xs @ [d']) (Ship_update d s)) = Idle"
          "hyperspaceCooldown (Ship_updates (xs @ [d']) (Ship_update d s))
                = HYPERSPACE_COOLDOWN - d'"
          "velocity (Ship_updates (xs @ [d']) (Ship_update d s)) = \<lparr>vx = 0, vy = 0\<rparr>"
          "position (transform (Ship_updates (xs @ [d']) (Ship_update d s)))
                = position (transform (Ship_update d s))"
        by blast
      have "d # ds = (d # xs) @ d' # ys
        \<and> HYPERSPACE_EXPAND_TIME \<le> hyperspaceTimer s + sum_list (d # xs) + d'
        \<and> hyperspaceState (Ship_updates ((d # xs) @ [d']) s) = Idle
        \<and> hyperspaceCooldown (Ship_updates ((d # xs) @ [d']) s) = HYPERSPACE_COOLDOWN - d'
        \<and> velocity (Ship_updates ((d # xs) @ [d']) s) = \<lparr>vx = 0, vy = 0\<rparr>
        \<and> position (transform (Ship_updates ((d # xs) @ [d']) s)) = position (transform s)"
        using x st(2,5) by (simp add: add.assoc)
      then show ?thesis by blast
    qed
  qed
qed

lemma positive_list_sum_zero:
  fixes ds :: "real list"
  assumes "\<forall>d\<in>set ds. 0 < d" "sum_list ds \<le> 0"
  shows "ds = []"
proof (cases ds)
  case Nil
  then show ?thesis .
next
  case (Cons d rest)
  have "0 \<le> sum_list rest"
    using assms(1) Cons by (intro sum_list_nonneg_real) (auto intro: less_imp_le)
  moreover have "0 < d" using assms(1) Cons by simp
  ultimately show ?thesis using assms(2) Cons by simp
qed

text \<open>
  Claim C3, amended.  Start from a ship that may enter hyperspace and trigger it with a
  target.  When \<open>update\<close> calls with positive \<open>dt\<close> values that add up to exactly
  shrink time + warp time + expand time bring the ship back to the idle state, the
  ship is at the chosen target with zero velocity, and its cooldown equals the
  configured cooldown minus the \<open>dt\<close> of the last call: the call that ends the expanding
  phase sets the cooldown and counts it down at once.
\<close>

theorem hyperspace_cycle_exact_time:
  assumes can: "canHyperspace s0"
    and pos: "\<forall>d\<in>set ds. 0 < d"
    and total: "sum_list ds
                  = HYPERSPACE_SHRINK_TIME + HYPERSPACE_WARP_TIME + HYPERSPACE_EXPAND_TIME"
    and idle: "hyperspaceState (Ship_updates ds (activateHyperspace tx ty s0)) = Idle"
  shows "hyperspaceCooldown (Ship_updates ds (activateHyperspace tx ty s0))
           = HYPERSPACE_COOLDOWN - last ds
       \<and> position (transform (Ship_updates ds (activateHyperspace tx ty s0)))
           = \<lparr>vx = tx, vy = ty\<rparr>
       \<and> velocity (Ship_updates ds (activateHyperspace tx ty s0)) = \<lparr>vx = 0, vy = 0\<rparr>"
proof -
  let ?a = "activateHyperspace tx ty s0"
  have a: "hyperspaceState ?a = Shrinking" "hyperspaceTimer ?a = 0"
    "hyperspaceCooldown ?a \<le> 0" "hyperspaceTargetPosition ?a = \<lparr>vx = tx, vy = ty\<rparr>"
    using can by (simp_all add: activateHyperspace_def canHyperspace_def)
  have nn: "\<forall>d\<in>set ds. 0 \<le> d" using pos by (auto intro: less_imp_le)
  from shrinking_exit[OF a(1,3) nn] idle
  obtain xs1 d1 r1 where p1: "ds = xs1 @ d1 # r1"
      "HYPERSPACE_SHRINK_TIME \<le> hyperspaceTimer ?a + sum_list xs1 + d1"
      "hyperspaceState (Ship_updates (xs1 @ [d1]) ?a) = Warping"
      "hyperspaceTimer (Ship_updates (xs1 @ [d1]) ?a) = 0"
      "hyperspaceCooldown (Ship_updates (xs1 @ [d1]) ?a) \<le> 0"
      "hyperspaceTargetPosition (Ship_updates (xs1 @ [d1]) ?a) = hyperspaceTargetPosition ?a"
    by auto
  let ?w = "Ship_updates (xs1 @ [d1]) ?a"
  have e1: "Ship_updates ds ?a = Ship_updates r1 ?w"
    by (simp add: p1(1) Ship_updates_append)
  have nn1: "\<forall>d\<in>set r1. 0 \<le> d" using nn p1(1) by simp
  from warping_exit[OF p1(3,5) nn1] idle e1
  obtain xs2 d2 r2 where p2: "r1 = xs2 @ d2 # r2"
      "HYPERSPACE_WARP_TIME \<le> hyperspaceTimer ?w + sum_list xs2 + d2"
      "hyperspaceState (Ship_updates (xs2 @ [d2]) ?w) = Expanding"
      "hyperspaceTimer (Ship_updates (xs2 @ [d2]) ?w) = 0"
      "hyperspaceCooldown (Ship_updates (xs2 @ [d2]) ?w) \<le> 0"
      "velocity (Ship_updates (xs2 @ [d2]) ?w) = \<lparr>vx = 0, vy = 0\<rparr>"
      "position (transform (Ship_updates (xs2 @ [d2]) ?w)) = hyperspaceTargetPosition ?w"
    by auto
  let ?e = "Ship_updates (xs2 @ [d2]) ?w"
  have e2: "Ship_updates r1 ?w = Ship_updates r2 ?e"
    by (simp add: p2(1) Ship_updates_append)
  have nn2: "\<forall>d\<in>set r2. 0 \<le> d" using nn1 p2(1) by simp
  from expanding_exit[OF p2(3,5,6) nn2] idle e1 e2
  obtain xs3 d3 r3 where p3: "r2 = xs3 @ d3 # r3"
      "HYPERSPACE_EXPAND_TIME \<le> hyperspaceTimer ?e + sum_list xs3 + d3"
      "hyperspaceState (Ship_updates (xs3 @ [d3]) ?e) = Idle"
      "hyperspaceCooldown (Ship_updates (xs3 @ [d3]) ?e) = HYPERSPACE_COOLDOWN - d3"
      "velocity (Ship_updates (xs3 @ [d3]) ?e) = \<lparr>vx = 0, vy = 0\<rparr>"
      "position (transform (Ship_updates (xs3 @ [d3]) ?e)) = position (transform ?e)"
    by auto
  have "sum_list ds = (sum_list xs1 + d1) + (sum_list xs2 + d2) + (sum_list xs3 + d3)
                        + sum_list r3"
    by (simp add: p1(1) p2(1) p3(1))
  then have "sum_list r3 \<le> 0"
    using total p1(2) p2(2) p3(2) a(2) p1(4) p2(4) by simp
  moreover have "\<forall>d\<in>set r3. 0 < d" using pos p1(1) p2(1) p3(1) by simp
  ultimately have r3: "r3 = []" by (rule positive_list_sum_zero[rotated])
  have fin: "Ship_updates ds ?a = Ship_updates (xs3 @ [d3]) ?e"
    by (simp add: e1 e2 p3(1) r3)
  have l: "last ds = d3" by (simp add: p1(1) p2(1) p3(1) r3)
  show ?thesis
    unfolding fin l using p3(4,5,6) p2(7) p1(6) a(4) by simp
qed

theorem hyperspace_cycle_exact_time_witness:
  "canHyperspace (Ship_new 400 300)
 \<and> sum_list [1 / 10, 2 / 10, 2 / 10, 2 / 10, 1 / 10]
      = HYPERSPACE_SHRINK_TIME + HYPERSPACE_WARP_TIME + HYPERSPACE_EXPAND_TIME
 \<and> hyperspaceState
      (Ship_updates [1 / 10, 2 / 10, 2 / 10, 2 / 10, 1 / 10]
         (activateHyperspace 100 200 (Ship_new 400 300))) = Idle
 \<and> hyperspaceCooldown
      (Ship_updates [1 / 10, 2 / 10, 2 / 10, 2 / 10, 1 / 10]
         (activateHyperspace 100 200 (Ship_new 400 300))) = 49 / 10
 \<and> position (transform
      (Ship_updates [1 / 10, 2 / 10, 2 / 10, 2 / 10, 1 / 10]
         (activateHyperspace 100 200 (Ship_new 400 300)))) = \<lparr>vx = 100, vy = 200\<rparr>
 \<and> velocity
      (Ship_updates [1 / 10, 2 / 10, 2 / 10, 2 / 10, 1 / 10]
         (activateHyperspace 100 200 (Ship_new 400 300))) = \<lparr>vx = 0, vy = 0\<rparr>"
proof -
  let ?ds = "[1 / 10, 2 / 10, 2 / 10, 2 / 10, 1 / 10] :: real list"
  have c: "canHyperspace (Ship_new 400 300)"
    by (simp add: canHyperspace_def Ship_new_def)
  have p: "\<forall>d\<in>set ?ds. 0 < d" by simp
  have s: "sum_list ?ds
             = HYPERSPACE_SHRINK_TIME + HYPERSPACE_WARP_TIME + HYPERSPACE_EXPAND_TIME"
    by (simp add: HYPERSPACE_SHRINK_TIME_def HYPERSPACE_WARP_TIME_def
          HYPERSPACE_EXPAND_TIME_def)
  have s1: "sum_list [1 / 10, 2 / 10] = HYPERSPACE_SHRINK_TIME"
    by (simp add: HYPERSPACE_SHRINK_TIME_def)
  have s2: "sum_list [2 / 10] = HYPERSPACE_WARP_TIME"
    by (simp add: HYPERSPACE_WARP_TIME_def)
  have s3: "sum_list [2 / 10, 1 / 10] = HYPERSPACE_EXPAND_TIME"
    by (simp add: HYPERSPACE_EXPAND_TIME_def)
  have n1: "[1 / 10, 2 / 10] \<noteq> ([]::real list)" "\<forall>d\<in>set [1 / 10, 2 / 10 :: real]. 0 < d"
    by simp_all
  have n2: "[2 / 10] \<noteq> ([]::real list)" "\<forall>d\<in>set [2 / 10 :: real]. 0 < d"
    by simp_all
  have n3: "[2 / 10, 1 / 10] \<noteq> ([]::real list)" "\<forall>d\<in>set [2 / 10, 1 / 10 :: real]. 0 < d"
    by simp_all
  have i: "hyperspaceState (Ship_updates ?ds (activateHyperspace 100 200 (Ship_new 400 300)))
             = Idle"
    using hyperspace_cycle_by_phases[OF c n1 s1 n2 s2 n3 s3, of 100 200] by simp
  show ?thesis
    using hyperspace_cycle_exact_time[OF c p s i] c s i
    by (simp add: HYPERSPACE_COOLDOWN_def)
qed


section \<open>Asteroid splitting\<close>

lemma magnitude_unit_direction_scaled:
  "magnitude (scale \<lparr>vx = cos t, vy = sin t\<rparr> s) = \<bar>s\<bar>"
proof -
  have "cos t * s * (cos t * s) + sin t * s * (sin t * s) = s\<^sup>2 * ((cos t)\<^sup>2 + (sin t)\<^sup>2)"
    unfolding power2_eq_square by (simp only: algebra_simps)
  also have "\<dots> = s\<^sup>2" by simp
  finally show ?thesis by (simp add: magnitude_def scale_def)
qed

lemma Asteroid_new_fields:
  "size_a (fst (Asteroid_new x y sz d g)) = sz"
  "position (transform (fst (Asteroid_new x y sz d g))) = \<lparr>vx = x, vy = y\<rparr>"
  "radius (fst (Asteroid_new x y sz d g)) = cfg_radius (SIZE_CONFIG sz)"
  "points (fst (Asteroid_new x y sz d g)) = cfg_points (SIZE_CONFIG sz)"
  "isActive (fst (Asteroid_new x y sz d g))"
  by (simp_all add: Asteroid_new_def Let_def)

lemma Asteroid_new_directed_velocity:
  "velocity (fst (Asteroid_new x y sz (Some d) g)) = scale d (cfg_speed (SIZE_CONFIG sz))"
  by (simp add: Asteroid_new_def Let_def)

lemma cfg_speed_nonneg: "0 \<le> cfg_speed (SIZE_CONFIG sz)"
  by (cases sz) simp_all

lemma split_not_small:
  assumes "size_a a \<noteq> Small"
  shows "length (fst (split a g)) = 2
       \<and> (\<forall>c\<in>set (fst (split a g)).
            size_a c = (if size_a a = Large then Medium else Small)
          \<and> position (transform c) = position (transform a)
          \<and> magnitude (velocity c)
              = cfg_speed (SIZE_CONFIG (if size_a a = Large then Medium else Small)))"
  using assms cfg_speed_nonneg[of Medium] cfg_speed_nonneg[of Small]
  by (simp add: split_def Let_def Asteroid_new_fields Asteroid_new_directed_velocity
        magnitude_unit_direction_scaled del: SIZE_CONFIG.simps)

text \<open>
  Claim C5.  Splitting a small asteroid gives the empty list.  Splitting a large
  asteroid gives exactly two medium ones, splitting a medium one exactly two small ones;
  every child sits at the parent's position and the magnitude of its velocity is the
  speed configured for the child's size (80 for medium, 120 for small).
\<close>

theorem split_sizes_positions_speeds:
  "(size_a a = Small \<longrightarrow> fst (split a g) = [])
 \<and> (size_a a = Large \<longrightarrow>
      length (fst (split a g)) = 2
    \<and> (\<forall>c\<in>set (fst (split a g)).
         size_a c = Medium
       \<and> position (transform c) = position (transform a)
       \<and> magnitude (velocity c) = cfg_speed (SIZE_CONFIG Medium)
       \<and> magnitude (velocity c) = 80))
 \<and> (size_a a = Medium \<longrightarrow>
      length (fst (split a g)) = 2
    \<and> (\<forall>c\<in>set (fst (split a g)).
         size_a c = Small
       \<and> position (transform c) = position (transform a)
       \<and> magnitude (velocity c) = cfg_speed (SIZE_CONFIG Small)
       \<and> magnitude (velocity c) = 120))"
proof (cases "size_a a")
  case Large
  then show ?thesis using split_not_small[of a g] by simp
next
  case Medium
  then show ?thesis using split_not_small[of a g] by simp
next
  case Small
  then show ?thesis by (simp add: split_def)
qed

lemma map_of_two:
  assumes "length xs = 2" "\<forall>c\<in>set xs. f c = v"
  shows "map f xs = [v, v]"
proof -
  obtain p q where "xs = [p, q]"
    using assms(1) by (cases xs; cases "tl xs") auto
  then show ?thesis using assms(2) by simp
qed

theorem split_sizes_positions_speeds_witness:
  "size_a (fst (Asteroid_new 100 200 Small None (\<lambda>n. 0))) = Small
 \<and> fst (split (fst (Asteroid_new 100 200 Small None (\<lambda>n. 0))) (\<lambda>n. 0)) = []
 \<and> size_a (fst (Asteroid_new 100 200 Large None (\<lambda>n. 0))) = Large
 \<and> map size_a (fst (split (fst (Asteroid_new 100 200 Large None (\<lambda>n. 0))) (\<lambda>n. 0)))
     = [Medium, Medium]
 \<and> map (magnitude \<circ> velocity)
       (fst (split (fst (Asteroid_new 100 200 Large None (\<lambda>n. 0))) (\<lambda>n. 0))) = [80, 80]
 \<and> map (position \<circ> transform)
       (fst (split (fst (Asteroid_new 100 200 Large None (\<lambda>n. 0))) (\<lambda>n. 0)))
     = [\<lparr>vx = 100, vy = 200\<rparr>, \<lparr>vx = 100, vy = 200\<rparr>]
 \<and> size_a (fst (Asteroid_new 100 200 Medium None (\<lambda>n. 0))) = Medium
 \<and> map size_a (fst (split (fst (Asteroid_new 100 200 Medium None (\<lambda>n. 0))) (\<lambda>n. 0)))
     = [Small, Small]
 \<and> map (magnitude \<circ> velocity)
       (fst (split (fst (Asteroid_new 100 200 Medium None (\<lambda>n. 0))) (\<lambda>n. 0))) = [120, 120]"
proof -
  let ?g = "\<lambda>n::nat. 0::real"
  let ?S = "fst (Asteroid_new 100 200 Small None ?g)"
  let ?L = "fst (Asteroid_new 100 200 Large None ?g)"
  let ?M = "fst (Asteroid_new 100 200 Medium None ?g)"
  have sz: "size_a ?S = Small" "size_a ?L = Large" "size_a ?M = Medium"
    by (simp_all add: Asteroid_new_fields)
  have pl: "position (transform ?L) = \<lparr>vx = 100, vy = 200\<rparr>"
    by (simp add: Asteroid_new_fields)
  note tS = split_sizes_positions_speeds[of ?S ?g]
  note tL = split_sizes_positions_speeds[of ?L ?g]
  note tM = split_sizes_positions_speeds[of ?M ?g]
  have s: "fst (split ?S ?g) = []" using tS sz(1) by blast
  have l: "length (fst (split ?L ?g)) = 2
    \<and> (\<forall>c\<in>set (fst (split ?L ?g)). size_a c = Medium
          \<and> position (transform c) = position (transform ?L)
          \<and> magnitude (velocity c) = cfg_speed (SIZE_CONFIG Medium)
          \<and> magnitude (velocity c) = 80)"
    using tL sz(2) by blast
  have m: "length (fst (split ?M ?g)) = 2
    \<and> (\<forall>c\<in>set (fst (split ?M ?g)). size_a c = Small
          \<and> position (transform c) = position (transform ?M)
          \<and> magnitude (velocity c) = cfg_speed (SIZE_CONFIG Small)
          \<and> magnitude (velocity c) = 120)"
    using tM sz(3) by blast
  have l1: "map size_a (fst (split ?L ?g)) = [Medium, Medium]"
    using l by (intro map_of_two) auto
  have l2: "map (magnitude \<circ> velocity) (fst (split ?L ?g)) = [80, 80]"
    using l by (intro map_of_two) auto
  have l3: "map (position \<circ> transform) (fst (split ?L ?g))
              = [\<lparr>vx = 100, vy = 200\<rparr>, \<lparr>vx = 100, vy = 200\<rparr>]"
    using l pl by (intro map_of_two) auto
  have m1: "map size_a (fst (split ?M ?g)) = [Small, Small]"
    using m by (intro map_of_two) auto
  have m2: "map (magnitude \<circ> velocity) (fst (split ?M ?g)) = [120, 120]"
    using m by (intro map_of_two) auto
  show ?thesis using sz s l1 l2 l3 m1 m2 by blast
qed

section \<open>The gravity well's pull\<close>

lemma normalised_scaled_square:
  fixes a b d s :: real
  assumes "0 < d" "d * d = a * a + b * b"
  shows "(a / d * s) * (a / d * s) + (b / d * s) * (b / d * s) = s\<^sup>2"
proof -
  have "(a / d * s) * (a / d * s) + (b / d * s) * (b / d * s)
          = s\<^sup>2 * ((a * a + b * b) / (d * d))"
    by (simp add: power2_eq_square add_divide_distrib algebra_simps)
  also have "\<dots> = s\<^sup>2 * ((d * d) / (d * d))" by (simp only: assms(2))
  also have "\<dots> = s\<^sup>2" using assms(1) by simp
  finally show ?thesis .
qed

text \<open>
  Claim C1.  For a gravity well with a non-negative pull strength (every strength the
  spawner computes lies between 150 and 500) and any query point: the pull is the zero
  vector when the point's distance from the centre is above the pull radius or below 1.
  In between, the pull has magnitude exactly \<open>pullStrength\<close>, whatever the distance, and
  is a non-negative multiple of the vector from the query point to the centre.
\<close>

theorem getPullForce_constant_toward_center:
  assumes "0 \<le> pullStrength w"
  shows "(getDistance w p > pullRadius w \<or> getDistance w p < 1 \<longrightarrow>
            getPullForce w p = \<lparr>vx = 0, vy = 0\<rparr>)
       \<and> (1 \<le> getDistance w p \<and> getDistance w p \<le> pullRadius w \<longrightarrow>
            magnitude (getPullForce w p) = pullStrength w
          \<and> getPullForce w p
              = scale (subtract (position (transform w)) p) (pullStrength w / getDistance w p)
          \<and> 0 \<le> pullStrength w / getDistance w p)"
proof -
  let ?dx = "vx (position (transform w)) - vx p"
  let ?dy = "vy (position (transform w)) - vy p"
  let ?d = "sqrt (?dx * ?dx + ?dy * ?dy)"
  have d: "getDistance w p = ?d" by (simp add: getDistance_def Let_def)
  have out: "getPullForce w p = \<lparr>vx = 0, vy = 0\<rparr>" if "?d > pullRadius w \<or> ?d < 1"
    using that by (auto simp: getPullForce_def Let_def)
  have inside: "magnitude (getPullForce w p) = pullStrength w
          \<and> getPullForce w p = scale (subtract (position (transform w)) p) (pullStrength w / ?d)
          \<and> 0 \<le> pullStrength w / ?d" if h: "1 \<le> ?d" "?d \<le> pullRadius w"
  proof -
    have pos: "0 < ?d" using h(1) by linarith
    have f: "getPullForce w p = \<lparr>vx = (?dx / ?d) * pullStrength w, vy = (?dy / ?d) * pullStrength w\<rparr>"
      using h by (simp add: getPullForce_def Let_def not_less)
    have sq: "?d * ?d = ?dx * ?dx + ?dy * ?dy"
      by (metis real_sqrt_mult_self abs_of_nonneg add_nonneg_nonneg zero_le_square)
    have "(?dx / ?d * pullStrength w) * (?dx / ?d * pullStrength w)
            + (?dy / ?d * pullStrength w) * (?dy / ?d * pullStrength w)
          = (pullStrength w)\<^sup>2"
      by (rule normalised_scaled_square[OF pos sq])
    then have m: "magnitude (getPullForce w p) = pullStrength w"
      using assms by (simp add: f magnitude_def)
    have s: "getPullForce w p = scale (subtract (position (transform w)) p) (pullStrength w / ?d)"
      by (simp add: f scale_def subtract_def)
    have "0 \<le> pullStrength w / ?d" using assms pos by simp
    with m s show ?thesis by blast
  qed
  show ?thesis using out inside unfolding d by blast
qed

theorem getPullForce_constant_toward_center_witness:
  "0 \<le> pullStrength (GravityWell_new 0 0 8 150)
 \<and> 1 \<le> getDistance (GravityWell_new 0 0 8 150) \<lparr>vx = 3, vy = 4\<rparr>
 \<and> getDistance (GravityWell_new 0 0 8 150) \<lparr>vx = 3, vy = 4\<rparr>
      \<le> pullRadius (GravityWell_new 0 0 8 150)
 \<and> magnitude (getPullForce (GravityWell_new 0 0 8 150) \<lparr>vx = 3, vy = 4\<rparr>) = 150
 \<and> getPullForce (GravityWell_new 0 0 8 150) \<lparr>vx = 3, vy = 4\<rparr> = \<lparr>vx = - 90, vy = - 120\<rparr>
 \<and> getDistance (GravityWell_new 0 0 8 150) \<lparr>vx = 400, vy = 0\<rparr>
      > pullRadius (GravityWell_new 0 0 8 150)
 \<and> getPullForce (GravityWell_new 0 0 8 150) \<lparr>vx = 400, vy = 0\<rparr> = \<lparr>vx = 0, vy = 0\<rparr>"
proof -
  let ?w = "GravityWell_new 0 0 8 150"
  have s: "0 \<le> pullStrength ?w" by (simp add: GravityWell_new_def)
  have r: "pullRadius ?w = 300"
    by (simp add: GravityWell_new_def CONFIG_gravityWell_pullRadius_def)
  have ps: "pullStrength ?w = 150" by (simp add: GravityWell_new_def)
  have c: "position (transform ?w) = \<lparr>vx = 0, vy = 0\<rparr>" by (simp add: GravityWell_new_def)
  have d1: "getDistance ?w \<lparr>vx = 3, vy = 4\<rparr> = 5"
    using real_sqrt_abs[of 5] by (simp add: getDistance_def GravityWell_new_def)
  have d2: "getDistance ?w \<lparr>vx = 400, vy = 0\<rparr> = 400"
    by (simp add: getDistance_def GravityWell_new_def)
  note t1 = getPullForce_constant_toward_center[OF s, of "\<lparr>vx = 3, vy = 4\<rparr>"]
  note t2 = getPullForce_constant_toward_center[OF s, of "\<lparr>vx = 400, vy = 0\<rparr>"]
  have in1: "1 \<le> getDistance ?w \<lparr>vx = 3, vy = 4\<rparr>
      \<and> getDistance ?w \<lparr>vx = 3, vy = 4\<rparr> \<le> pullRadius ?w"
    by (simp only: d1 r) simp
  note i1 = t1[THEN conjunct2, rule_format, OF in1]
  have a: "magnitude (getPullForce ?w \<lparr>vx = 3, vy = 4\<rparr>) = 150"
    using i1[THEN conjunct1] ps by (simp only:)
  have b: "getPullForce ?w \<lparr>vx = 3, vy = 4\<rparr> = \<lparr>vx = - 90, vy = - 120\<rparr>"
    using i1[THEN conjunct2, THEN conjunct1]
    by (simp only: d1 ps c) (simp add: scale_def subtract_def)
  have out2: "getDistance ?w \<lparr>vx = 400, vy = 0\<rparr> > pullRadius ?w
      \<or> getDistance ?w \<lparr>vx = 400, vy = 0\<rparr> < 1"
    by (simp only: d2 r) simp
  have e: "getPullForce ?w \<lparr>vx = 400, vy = 0\<rparr> = \<lparr>vx = 0, vy = 0\<rparr>"
    using t2[THEN conjunct1, rule_format, OF out2] .
  show ?thesis
    using s a b e by (simp only: d1 d2 r) simp
qed

text \<open>
  The older revision of \<open>getPullForce\<close> scales the pull with the distance: 150 units
  from the centre of a well of radius 300 it pulls with half the strength.
\<close>

lemma getPullForce_older_scaled:
  "getPullForce_older (GravityWell_new 0 0 8 150) \<lparr>vx = 150, vy = 0\<rparr> = \<lparr>vx = - 75, vy = 0\<rparr>"
  "getPullForce (GravityWell_new 0 0 8 150) \<lparr>vx = 150, vy = 0\<rparr> = \<lparr>vx = - 150, vy = 0\<rparr>"
  by (simp_all add: getPullForce_older_def getPullForce_def GravityWell_new_def Let_def
        CONFIG_gravityWell_pullRadius_def)

text \<open>Every strength the spawner computes for a level from 1 on is between 150 and 500.\<close>

lemma createGravityWell_pullStrength_range:
  assumes "1 \<le> lvl"
  shows "150 \<le> pullStrength (fst (createGravityWell W H a lvl g))"
    and "pullStrength (fst (createGravityWell W H a lvl g)) \<le> 500"
  using assms
  by (simp_all add: createGravityWell_def Let_def GravityWell_new_def
        getGravityWellPullStrength_def CONFIG_gravityWell_pullStrength_min_def
        CONFIG_gravityWell_pullStrength_max_def)

section \<open>Placement by rejection sampling\<close>

text \<open>
  The gravity well's loop makes at most 20 attempts, and the 20th candidate is taken
  whatever its distance from the avoided position.
\<close>

lemma gravityWellPosition_attempts:
  "snd (snd (fst (gravityWellPosition W H a n g))) \<le> max (Suc n) createGravityWell_maxAttempts"
proof (induction W H a n g rule: gravityWellPosition.induct)
  case (1 W H a n g)
  show ?case
    by (subst gravityWellPosition.simps) (use 1 in \<open>simp add: Let_def split: if_splits\<close>)
qed

lemma createGravityWell_at_most_20_attempts:
  "snd (snd (fst (gravityWellPosition W H a 0 g))) \<le> 20"
  using gravityWellPosition_attempts[of W H a 0 g]
  by (simp add: createGravityWell_maxAttempts_def)

lemma gravityWellPosition_last_attempt_taken:
  "fst (gravityWellPosition W H a 19 g)
     = (fst (randomRange CONFIG_gravityWell_spawnMargin (W - CONFIG_gravityWell_spawnMargin) g),
        fst (randomRange CONFIG_gravityWell_spawnMargin (H - CONFIG_gravityWell_spawnMargin)
               (snd (randomRange CONFIG_gravityWell_spawnMargin
                       (W - CONFIG_gravityWell_spawnMargin) g))),
        20)"
  by (subst gravityWellPosition.simps) (simp add: createGravityWell_maxAttempts_def Let_def)

text \<open>
  The asteroid loop has no bound.  When every candidate the random supply yields lies
  in the square around the avoided position, the loop never ends: so on the standard
  field with the ship at its centre when \<open>Math.random\<close> keeps returning 0.5, and for
  every supply when the square covers the whole field.
\<close>

lemma sampleAsteroidPosition_all_rejected:
  assumes zx: "\<forall>i. \<bar>g i * W - vx a\<bar> < r"
    and zy: "\<forall>j. \<bar>g j * H - vy a\<bar> < r"
  shows "sampleAsteroidPosition W H a r g = None"
proof (rule ccontr)
  assume "sampleAsteroidPosition W H a r g \<noteq> None"
  then obtain y where y: "sampleAsteroidPosition W H a r g = Some y" by auto
  let ?inv = "\<lambda>W H a r (g::rng).
                (\<forall>i. \<bar>g i * W - vx a\<bar> < r) \<and> (\<forall>j. \<bar>g j * H - vy a\<bar> < r)"
  have "\<not> ?inv W H a r g"
  proof (rule sampleAsteroidPosition.raw_induct
           [where P = "\<lambda>W H a r g y. \<not> ?inv W H a r g", OF _ y])
    fix f W' H' a' r' and g' :: rng and y'
    assume ih: "\<And>W H a r g y. f W H a r g = Some y \<Longrightarrow> \<not> ?inv W H a r g"
      and body: "(let rx = randomRange 0 W' g'; ry = randomRange 0 H' (snd rx)
                  in if \<bar>fst rx - vx a'\<bar> < r' \<and> \<bar>fst ry - vy a'\<bar> < r'
                     then f W' H' a' r' (snd ry)
                     else Some ((fst rx, fst ry), snd ry)) = Some y'"
    show "\<not> ?inv W' H' a' r' g'"
    proof
      assume inv: "?inv W' H' a' r' g'"
      let ?g2 = "\<lambda>n. g' (Suc (Suc n))"
      have x: "\<bar>g' 0 * W' - vx a'\<bar> < r'" using inv by blast
      have yy: "\<bar>g' (Suc 0) * H' - vy a'\<bar> < r'" using inv by blast
      have "f W' H' a' r' ?g2 = Some y'"
        using body x yy by (simp add: Let_def randomRange_def Math_random_def)
      from ih[OF this] inv show False by blast
    qed
  qed
  then show False using zx zy by blast
qed

lemma createAsteroids_all_rejected:
  assumes "0 < count" "\<forall>i. \<bar>g i * W - vx a\<bar> < r" "\<forall>j. \<bar>g j * H - vy a\<bar> < r"
  shows "createAsteroids count W H a r g = None"
proof -
  obtain n where n: "nat count = Suc n"
    using assms(1) by (cases "nat count") auto
  show ?thesis
    by (simp add: createAsteroids_def n sampleAsteroidPosition_all_rejected[OF assms(2,3)])
qed

lemma createAsteroids_standard_field_constant_random:
  "createAsteroids 5 800 600 \<lparr>vx = 400, vy = 300\<rparr> createAsteroids_default_avoidRadius
     (\<lambda>n. 1 / 2) = None"
  by (rule createAsteroids_all_rejected)
     (simp_all add: createAsteroids_default_avoidRadius_def)

text \<open>
  Claim C9, at an input on which the code does not do what the claim says.  On a
  100 by 100 field with the avoided position at its centre and the default avoid radius
  of 100, \<open>createAsteroids\<close> asked for one asteroid never returns, whatever values in
  \<open>[0, 1)\<close> \<open>Math.random\<close> delivers.
\<close>

theorem createAsteroids_small_field_never_returns:
  assumes "\<forall>n. 0 \<le> g n \<and> g n < 1"
  shows "createAsteroids 1 100 100 \<lparr>vx = 50, vy = 50\<rparr> createAsteroids_default_avoidRadius g
           = None"
proof (rule createAsteroids_all_rejected)
  show "(0::int) < 1" by simp
  have z: "\<bar>t * 100 - 50\<bar> < 100" if "0 \<le> t" "t < 1" for t :: real
    using that by (simp add: abs_less_iff)
  show "\<forall>i. \<bar>g i * 100 - vx \<lparr>vx = 50, vy = 50\<rparr>\<bar> < createAsteroids_default_avoidRadius"
    using assms z by (simp add: createAsteroids_default_avoidRadius_def)
  show "\<forall>j. \<bar>g j * 100 - vy \<lparr>vx = 50, vy = 50\<rparr>\<bar> < createAsteroids_default_avoidRadius"
    using assms z by (simp add: createAsteroids_default_avoidRadius_def)
qed

theorem createAsteroids_small_field_never_returns_witness:
  "createAsteroids 1 100 100 \<lparr>vx = 50, vy = 50\<rparr> createAsteroids_default_avoidRadius
     (\<lambda>n. 1 / 2) = None"
  using createAsteroids_small_field_never_returns[of "\<lambda>n. 1 / 2"] by simp

section \<open>UFO fire\<close>

text \<open>
  Whatever the level, the shoot cooldown of a UFO built by the spawner is the base
  cooldown of its size.
\<close>

lemma createUFO_shootCooldown_is_base:
  "shootCooldown (fst (createUFO W H lvl g))
     = ucfg_shootCooldown (CONFIG_ufo (size_u (fst (createUFO W H lvl g))))"
  by (simp add: createUFO_def UFO_new_def Let_def UFO_default_level_def)

lemma tryShoot_ready:
  assumes "shootTimer u \<le> 0"
  shows "fst (tryShoot px py u g) \<noteq> None"
    and "shootTimer (fst (snd (tryShoot px py u g))) = shootCooldown u"
    and "shootCooldown (fst (snd (tryShoot px py u g))) = shootCooldown u"
  using assms by (simp_all add: tryShoot_def Let_def not_less[symmetric])

lemma tryShoot_not_ready:
  assumes "shootTimer u > 0"
  shows "fst (tryShoot px py u g) = None"
  using assms by (simp add: tryShoot_def)

lemma tryShoot_again_null:
  assumes "shootTimer u \<le> 0" "0 < shootCooldown u"
  shows "fst (tryShoot px py (fst (snd (tryShoot px py u g))) g') = None"
  using tryShoot_ready(2)[OF assms(1), of px py g] assms(2)
  by (intro tryShoot_not_ready) simp

text \<open>
  Claim C7, at an input on which the code does not do what the claim says.  The spawner's
  \<open>createUFO\<close> does not hand its \<open>level\<close> to the UFO constructor, so the constructor's
  level scaling always runs with the default level 1.  At level 5, with \<open>Math.random\<close>
  returning 0.5 throughout, the spawner builds a small UFO; one second later its shoot
  timer has run out, \<open>tryShoot\<close> returns an angle and resets the timer to the base
  cooldown 1, not to the level-scaled cooldown \<open>1 * max(0.3, 1 - 4 * 0.1) = 0.6\<close>.
\<close>

theorem createUFO_level5_cooldown_not_scaled:
  "size_u (fst (createUFO 800 600 5 (\<lambda>n. 1 / 2))) = SmallUFO
 \<and> shootTimer (fst (UFO_update 1 (fst (createUFO 800 600 5 (\<lambda>n. 1 / 2))) (\<lambda>n. 1 / 2))) \<le> 0
 \<and> fst (tryShoot 400 300
           (fst (UFO_update 1 (fst (createUFO 800 600 5 (\<lambda>n. 1 / 2))) (\<lambda>n. 1 / 2)))
           (\<lambda>n. 1 / 2)) \<noteq> None
 \<and> shootTimer (fst (snd (tryShoot 400 300
           (fst (UFO_update 1 (fst (createUFO 800 600 5 (\<lambda>n. 1 / 2))) (\<lambda>n. 1 / 2)))
           (\<lambda>n. 1 / 2)))) = 1
 \<and> ucfg_shootCooldown (CONFIG_ufo SmallUFO) * max (3 / 10) (1 - (of_int 5 - 1) * (1 / 10))
      = 6 / 10
 \<and> shootTimer (fst (snd (tryShoot 400 300
           (fst (UFO_update 1 (fst (createUFO 800 600 5 (\<lambda>n. 1 / 2))) (\<lambda>n. 1 / 2)))
           (\<lambda>n. 1 / 2))))
      \<noteq> ucfg_shootCooldown (CONFIG_ufo SmallUFO)
          * max (3 / 10) (1 - (of_int 5 - 1) * (1 / 10))"
proof -
  let ?g = "\<lambda>n::nat. 1 / 2 :: real"
  let ?u = "fst (createUFO 800 600 5 ?g)"
  let ?u1 = "fst (UFO_update 1 ?u ?g)"
  have sz: "size_u ?u = SmallUFO"
    by (simp add: createUFO_def UFO_new_def Let_def Math_random_def
          CONFIG_ufo_smallChanceBase_def CONFIG_ufo_smallChancePerLevel_def
          CONFIG_ufo_smallChanceMax_def)
  have cd: "shootCooldown ?u = 1"
    using createUFO_shootCooldown_is_base[of 800 600 5 ?g] sz by simp
  have t0: "shootTimer ?u = 3 / 4"
    by (simp add: createUFO_def UFO_new_def Let_def Math_random_def randomRange_def
          UFO_default_level_def
          CONFIG_ufo_smallChanceBase_def CONFIG_ufo_smallChancePerLevel_def
          CONFIG_ufo_smallChanceMax_def)
  have t1: "shootTimer ?u1 = - (1 / 4)" "shootCooldown ?u1 = 1"
    using t0 cd by (simp_all add: UFO_update_def Let_def updatePhysics_def)
  have le: "shootTimer ?u1 \<le> 0" using t1 by simp
  note r = tryShoot_ready[OF le, of 400 300 ?g]
  have m: "ucfg_shootCooldown (CONFIG_ufo SmallUFO) * max (3 / 10) (1 - (of_int 5 - 1) * (1 / 10))
             = (6 / 10 :: real)"
    by simp
  show ?thesis
    using sz le r(1) r(2) t1(2) m by (simp only:) simp
qed

section \<open>Losing lives\<close>

lemma isHighScore_returns:
  assumes "0 < highScores_displayCount cfg"
  shows "\<exists>b. isHighScore cfg m sc = Inr b"
  using assms by (auto simp: isHighScore_def)

lemma shipDestroyed_lives_left:
  assumes "1 < lives (data g)"
  shows "\<exists>g1. shipDestroyed cfg g = Inr g1
            \<and> lives (data g1) = lives (data g) - 1
            \<and> state (data g1) = state (data g)
            \<and> \<not> isActive (ship g1)
            \<and> respawnTimer g1 = timing_respawnDelay cfg"
  using assms by (simp add: shipDestroyed_def Let_def)

lemma shipDestroyed_last:
  assumes "lives (data g) \<le> 1" "0 < highScores_displayCount cfg"
  shows "\<exists>g1. shipDestroyed cfg g = Inr g1
            \<and> lives (data g1) = lives (data g) - 1
            \<and> (state (data g1) = SubmitScore \<or> state (data g1) = GameOver)
            \<and> \<not> isActive (ship g1)
            \<and> ufo g1 = None \<and> gravityWell g1 = None"
proof -
  obtain b where b: "isHighScore cfg (highScoreManager g) (score (data g)) = Inr b"
    using isHighScore_returns[OF assms(2)] by blast
  show ?thesis
    using assms(1) b
    by (cases b; cases "ufo g"; cases "gravityWell g") (simp_all add: shipDestroyed_def Let_def)
qed


text \<open>
  Claim C2.  In the playing state (with a positive high-score display count, so that
  the high-score check reads no missing entry): destroying the ship on its last life
  takes \<open>lives\<close> to 0, leaves the playing state (for score entry or game over) and
  leaves neither a UFO nor a gravity well; and from three lives, three destructions in
  sequence give the lives 2, 1, 0, the first two stay in the playing state and only the
  third leaves it.
\<close>

theorem shipDestroyed_final_life_leaves_playing:
  assumes "state (data g) = Playing" "0 < highScores_displayCount cfg"
  shows "(lives (data g) = 1 \<longrightarrow>
           (\<exists>g1. shipDestroyed cfg g = Inr g1
               \<and> lives (data g1) = 0
               \<and> state (data g1) \<noteq> Playing
               \<and> ufo g1 = None \<and> gravityWell g1 = None))
       \<and> (lives (data g) = 3 \<longrightarrow>
           (\<exists>g1 g2 g3. shipDestroyed cfg g = Inr g1
               \<and> shipDestroyed cfg g1 = Inr g2
               \<and> shipDestroyed cfg g2 = Inr g3
               \<and> lives (data g1) = 2 \<and> lives (data g2) = 1 \<and> lives (data g3) = 0
               \<and> state (data g1) = Playing \<and> state (data g2) = Playing
               \<and> state (data g3) \<noteq> Playing
               \<and> ufo g3 = None \<and> gravityWell g3 = None))"
proof (intro conjI impI)
  assume "lives (data g) = 1"
  then show "\<exists>g1. shipDestroyed cfg g = Inr g1 \<and> lives (data g1) = 0
               \<and> state (data g1) \<noteq> Playing \<and> ufo g1 = None \<and> gravityWell g1 = None"
    using shipDestroyed_last[of g cfg] assms(2) by auto
next
  assume l: "lives (data g) = 3"
  obtain g1 where g1: "shipDestroyed cfg g = Inr g1" "lives (data g1) = 2"
      "state (data g1) = Playing"
    using shipDestroyed_lives_left[of g cfg] l assms(1) by auto
  obtain g2 where g2: "shipDestroyed cfg g1 = Inr g2" "lives (data g2) = 1"
      "state (data g2) = Playing"
    using shipDestroyed_lives_left[of g1 cfg] g1 by auto
  obtain g3 where g3: "shipDestroyed cfg g2 = Inr g3" "lives (data g3) = 0"
      "state (data g3) \<noteq> Playing" "ufo g3 = None" "gravityWell g3 = None"
    using shipDestroyed_last[of g2 cfg] g2 assms(2) by auto
  show "\<exists>g1 g2 g3. shipDestroyed cfg g = Inr g1
               \<and> shipDestroyed cfg g1 = Inr g2
               \<and> shipDestroyed cfg g2 = Inr g3
               \<and> lives (data g1) = 2 \<and> lives (data g2) = 1 \<and> lives (data g3) = 0
               \<and> state (data g1) = Playing \<and> state (data g2) = Playing
               \<and> state (data g3) \<noteq> Playing
               \<and> ufo g3 = None \<and> gravityWell g3 = None"
    using g1 g2 g3 by blast
qed

theorem shipDestroyed_final_life_leaves_playing_witness:
  "state (data (Playing_game 3)) = Playing
 \<and> 0 < highScores_displayCount CONFIG
 \<and> lives (data (Playing_game 3)) = 3
 \<and> ufo (Playing_game 3) \<noteq> None \<and> gravityWell (Playing_game 3) \<noteq> None
 \<and> (\<exists>g1 g2 g3. shipDestroyed CONFIG (Playing_game 3) = Inr g1
        \<and> shipDestroyed CONFIG g1 = Inr g2
        \<and> shipDestroyed CONFIG g2 = Inr g3
        \<and> lives (data g1) = 2 \<and> lives (data g2) = 1 \<and> lives (data g3) = 0
        \<and> state (data g1) = Playing \<and> state (data g2) = Playing
        \<and> state (data g3) \<noteq> Playing
        \<and> ufo g3 = None \<and> gravityWell g3 = None)
 \<and> lives (data (Playing_game 1)) = 1
 \<and> (\<exists>g1. shipDestroyed CONFIG (Playing_game 1) = Inr g1
        \<and> lives (data g1) = 0
        \<and> state (data g1) \<noteq> Playing
        \<and> ufo g1 = None \<and> gravityWell g1 = None)"
proof -
  have p: "state (data (Playing_game n)) = Playing" "lives (data (Playing_game n)) = n"
    "ufo (Playing_game n) \<noteq> None" "gravityWell (Playing_game n) \<noteq> None" for n
    by (simp_all add: Playing_game_def Game_new_def)
  have c: "0 < highScores_displayCount CONFIG" by (simp add: CONFIG_def)
  show ?thesis
    using shipDestroyed_final_life_leaves_playing[OF p(1) c, of 3]
      shipDestroyed_final_life_leaves_playing[OF p(1) c, of 1] p c
    by simp
qed

section \<open>The collision phase and the player-collision debug flag\<close>

text \<open>What the bullet and UFO checks and the level change leave untouched.\<close>

lemma bulletLoop_frame:
  "ship (fst (snd (bulletLoop bs g new))) = ship g
 \<and> ufoBullets (fst (snd (bulletLoop bs g new))) = ufoBullets g
 \<and> ufo (fst (snd (bulletLoop bs g new))) = ufo g
 \<and> lives (data (fst (snd (bulletLoop bs g new)))) = lives (data g)
 \<and> state (data (fst (snd (bulletLoop bs g new)))) = state (data g)
 \<and> level (data (fst (snd (bulletLoop bs g new)))) = level (data g)"
proof (induction bs arbitrary: g new)
  case Nil
  show ?case by simp
next
  case (Cons b bs)
  show ?case
  proof (cases "hitAsteroid b (asteroids g)")
    case None
    then show ?thesis using Cons.IH[of g new] by (simp add: Let_def)
  next
    case (Some h)
    let ?sp = "split (snd h) (mathRandom g)"
    let ?g1 = "g\<lparr>asteroids := fst h,
                  data := (data g)\<lparr>score := score (data g) + points (snd h)\<rparr>,
                  audio := audio g @ [PlayExplosion (size_a (snd h))],
                  mathRandom := snd ?sp\<rparr>"
    show ?thesis using Some Cons.IH[of ?g1 "new @ fst ?sp"] by (simp add: Let_def)
  qed
qed

lemma checkBulletCollisions_frame:
  "ship (checkBulletCollisions g) = ship g"
  "ufoBullets (checkBulletCollisions g) = ufoBullets g"
  "lives (data (checkBulletCollisions g)) = lives (data g)"
  "state (data (checkBulletCollisions g)) = state (data g)"
  "level (data (checkBulletCollisions g)) = level (data g)"
  using bulletLoop_frame[of "bullets g" g "[]"]
  by (simp_all add: checkBulletCollisions_def Let_def)

lemma checkUFOCollisions_frame:
  "ship (checkUFOCollisions g) = ship g"
  "ufoBullets (checkUFOCollisions g) = ufoBullets g"
  "lives (data (checkUFOCollisions g)) = lives (data g)"
  "state (data (checkUFOCollisions g)) = state (data g)"
  "level (data (checkUFOCollisions g)) = level (data g)"
  "asteroids (checkUFOCollisions g) = asteroids g"
  by (simp_all add: checkUFOCollisions_def Let_def split: option.splits)

lemma spawnAsteroids_frame:
  assumes "spawnAsteroids n g = Inr g'"
  shows "ship g' = ship g" "data g' = data g"
  using assms by (auto simp: spawnAsteroids_def split: option.splits)

lemma nextLevel_frame:
  assumes "nextLevel cfg g = Inr g'"
  shows "ship g' = ship g" "lives (data g') = lives (data g)"
    "state (data g') = state (data g)" "level (data g') = level (data g) + 1"
  using spawnAsteroids_frame[OF assms[unfolded nextLevel_def Let_def]]
  by simp_all

lemma levelCompleteCheck_frame:
  assumes "levelCompleteCheck cfg g = Inr g'"
  shows "ship g' = ship g" "lives (data g') = lives (data g)"
    "state (data g') = state (data g)"
  using assms nextLevel_frame[of cfg g g']
  by (auto simp: levelCompleteCheck_def split: if_splits)

lemma checkShipCollision_disabled:
  assumes "debug_disablePlayerCollision cfg"
  shows "checkShipCollision cfg g = Inr g"
  using assms by (simp add: checkShipCollision_def)

lemma isHighScore_ignores_debug_flag:
  "isHighScore (cfg\<lparr>debug_disablePlayerCollision := b\<rparr>) = isHighScore cfg"
  by (intro ext) (simp add: isHighScore_def)

lemma shipDestroyed_ignores_debug_flag:
  "shipDestroyed (cfg\<lparr>debug_disablePlayerCollision := b\<rparr>) g = shipDestroyed cfg g"
  by (simp add: shipDestroyed_def isHighScore_ignores_debug_flag Let_def
        cong: if_cong sum.case_cong)

lemma checkUFOBulletCollisions_ignores_debug_flag:
  "checkUFOBulletCollisions (cfg\<lparr>debug_disablePlayerCollision := b\<rparr>) g
     = checkUFOBulletCollisions cfg g"
  by (simp add: checkUFOBulletCollisions_def shipDestroyed_ignores_debug_flag
        cong: if_cong option.case_cong)

lemma checkUFOBulletCollisions_no_hit:
  assumes "ufoBulletLoop (ufoBullets g) (ship g) = None"
  shows "checkUFOBulletCollisions cfg g = Inr g"
  using assms by (simp add: checkUFOBulletCollisions_def)

lemma shipDestroyed_effect:
  assumes "shipDestroyed cfg g = Inr g'"
  shows "\<not> isActive (ship g')" "lives (data g') = lives (data g) - 1"
  using assms
  by (auto simp: shipDestroyed_def Let_def split: if_splits sum.splits option.splits)

lemma shipDestroyed_returns:
  assumes "0 < highScores_displayCount cfg"
  shows "\<exists>g'. shipDestroyed cfg g = Inr g'"
proof (cases "1 < lives (data g)")
  case True
  then show ?thesis using shipDestroyed_lives_left[of g cfg] by blast
next
  case False
  then show ?thesis using shipDestroyed_last[of g cfg] assms by force
qed

lemma checkUFOBulletCollisions_hit:
  assumes "isActive (ship g)" "\<not> isInvulnerable (ship g)" "\<not> isInHyperspace (ship g)"
    and "ufoBulletLoop (ufoBullets g) (ship g) \<noteq> None"
    and "0 < highScores_displayCount cfg"
  shows "\<exists>g'. checkUFOBulletCollisions cfg g = Inr g'
            \<and> \<not> isActive (ship g') \<and> lives (data g') = lives (data g) - 1"
proof -
  obtain bs where bs: "ufoBulletLoop (ufoBullets g) (ship g) = Some bs"
    using assms(4) by auto
  obtain g' where g': "shipDestroyed cfg (g\<lparr>ufoBullets := bs\<rparr>) = Inr g'"
    using shipDestroyed_returns[OF assms(5)] by blast
  have "checkUFOBulletCollisions cfg g = Inr g'"
    using assms(1,2,3) bs g' by (simp add: checkUFOBulletCollisions_def)
  then show ?thesis using shipDestroyed_effect[OF g'] by simp
qed

lemma updateCollisions_no_hostile_hit:
  assumes "debug_disablePlayerCollision cfg"
    and "ufoBulletLoop (ufoBullets g) (ship g) = None"
    and "updateCollisions cfg g = Inr g'"
  shows "ship g' = ship g" "lives (data g') = lives (data g)"
proof -
  let ?g1 = "checkUFOCollisions (checkBulletCollisions g)"
  have s: "ship ?g1 = ship g" "ufoBullets ?g1 = ufoBullets g"
    "lives (data ?g1) = lives (data g)"
    by (simp_all add: checkUFOCollisions_frame checkBulletCollisions_frame)
  have a: "checkUFOBulletCollisions cfg ?g1 = Inr ?g1"
    by (rule checkUFOBulletCollisions_no_hit) (simp add: s assms(2))
  have b: "checkShipCollision cfg ?g1 = Inr ?g1"
    by (rule checkShipCollision_disabled[OF assms(1)])
  have c: "levelCompleteCheck cfg ?g1 = Inr g'"
    using assms(3) a b by (simp add: updateCollisions_def)
  show "ship g' = ship g" "lives (data g') = lives (data g)"
    using levelCompleteCheck_frame[OF c] s by simp_all
qed


text \<open>
  Claim C10.  The shipped configuration has \<open>disablePlayerCollision = true\<close>, and with
  it \<open>checkShipCollision\<close> returns at once with the game unchanged, whatever the ship
  touches.  \<open>checkUFOBulletCollisions\<close> does the same whatever the value of the flag.
  In the collision phase of a frame, when no hostile bullet hits the ship, the ship and
  the lives come out unchanged; a hostile bullet that hits an active, vulnerable ship
  outside hyperspace destroys it and takes a life.
\<close>

theorem player_collision_disabled_only_hostile_bullets:
  "debug_disablePlayerCollision CONFIG
 \<and> checkShipCollision CONFIG g = Inr g
 \<and> checkUFOBulletCollisions (cfg\<lparr>debug_disablePlayerCollision := b\<rparr>) g
      = checkUFOBulletCollisions cfg g
 \<and> (ufoBulletLoop (ufoBullets g) (ship g) = None \<and> updateCollisions CONFIG g = Inr g'
      \<longrightarrow> ship g' = ship g \<and> lives (data g') = lives (data g))
 \<and> (isActive (ship g) \<and> \<not> isInvulnerable (ship g) \<and> \<not> isInHyperspace (ship g)
      \<and> ufoBulletLoop (ufoBullets g) (ship g) \<noteq> None
      \<longrightarrow> (\<exists>g1. checkUFOBulletCollisions CONFIG g = Inr g1
              \<and> \<not> isActive (ship g1) \<and> lives (data g1) = lives (data g) - 1))"
proof -
  have f: "debug_disablePlayerCollision CONFIG" by (simp add: CONFIG_def)
  have d: "0 < highScores_displayCount CONFIG" by (simp add: CONFIG_def)
  show ?thesis
    using f checkShipCollision_disabled[OF f, of g]
      checkUFOBulletCollisions_ignores_debug_flag[where cfg = cfg and b = b and g = g]
      updateCollisions_no_hostile_hit[OF f, where g = g and g' = g']
      checkUFOBulletCollisions_hit[where g = g and cfg = CONFIG, OF _ _ _ _ d]
    by blast
qed

theorem player_collision_disabled_only_hostile_bullets_witness:
  "shipAsteroidLoop (ship ((Playing_game 3)\<lparr>asteroids := [fst (Asteroid_new 400 300 Large None (\<lambda>k. 0))]\<rparr>))
     (asteroids ((Playing_game 3)\<lparr>asteroids := [fst (Asteroid_new 400 300 Large None (\<lambda>k. 0))]\<rparr>))
 \<and> ufoBulletLoop
      (ufoBullets ((Playing_game 3)\<lparr>asteroids := [fst (Asteroid_new 400 300 Large None (\<lambda>k. 0))]\<rparr>))
      (ship ((Playing_game 3)\<lparr>asteroids := [fst (Asteroid_new 400 300 Large None (\<lambda>k. 0))]\<rparr>)) = None
 \<and> updateCollisions CONFIG
      ((Playing_game 3)\<lparr>asteroids := [fst (Asteroid_new 400 300 Large None (\<lambda>k. 0))]\<rparr>)
     = Inr ((Playing_game 3)\<lparr>asteroids := [fst (Asteroid_new 400 300 Large None (\<lambda>k. 0))]\<rparr>)
 \<and> isActive (ship ((Playing_game 3)\<lparr>asteroids := [fst (Asteroid_new 400 300 Large None (\<lambda>k. 0))]\<rparr>))
 \<and> isActive (ship ((Playing_game 3)\<lparr>ufoBullets := [Bullet_new 400 300 \<lparr>vx = 1, vy = 0\<rparr>]\<rparr>))
 \<and> \<not> isInvulnerable (ship ((Playing_game 3)\<lparr>ufoBullets := [Bullet_new 400 300 \<lparr>vx = 1, vy = 0\<rparr>]\<rparr>))
 \<and> \<not> isInHyperspace (ship ((Playing_game 3)\<lparr>ufoBullets := [Bullet_new 400 300 \<lparr>vx = 1, vy = 0\<rparr>]\<rparr>))
 \<and> ufoBulletLoop
      (ufoBullets ((Playing_game 3)\<lparr>ufoBullets := [Bullet_new 400 300 \<lparr>vx = 1, vy = 0\<rparr>]\<rparr>))
      (ship ((Playing_game 3)\<lparr>ufoBullets := [Bullet_new 400 300 \<lparr>vx = 1, vy = 0\<rparr>]\<rparr>)) \<noteq> None
 \<and> (\<exists>g1. checkUFOBulletCollisions CONFIG
             ((Playing_game 3)\<lparr>ufoBullets := [Bullet_new 400 300 \<lparr>vx = 1, vy = 0\<rparr>]\<rparr>) = Inr g1
         \<and> \<not> isActive (ship g1) \<and> lives (data g1) = 2)"
proof -
  let ?A = "(Playing_game 3)\<lparr>asteroids := [fst (Asteroid_new 400 300 Large None (\<lambda>k. 0))]\<rparr>"
  let ?B = "(Playing_game 3)\<lparr>ufoBullets := [Bullet_new 400 300 \<lparr>vx = 1, vy = 0\<rparr>]\<rparr>"
  have sh: "ship (Playing_game 3) = Ship_new 400 300"
    by (simp add: Playing_game_def Game_new_def)
  have a1: "shipAsteroidLoop (ship ?A) (asteroids ?A)"
    by (simp add: sh Ship_new_def checkCollision_def distance_def Asteroid_new_fields)
  have a2: "ufoBulletLoop (ufoBullets ?A) (ship ?A) = None"
    by (simp add: Playing_game_def Game_new_def)
  have a3: "updateCollisions CONFIG ?A = Inr ?A"
    by (simp add: updateCollisions_def checkBulletCollisions_def checkUFOCollisions_def
          checkUFOBulletCollisions_def checkShipCollision_def levelCompleteCheck_def
          Playing_game_def Game_new_def CONFIG_def Asteroid_new_fields Let_def)
  have a4: "isActive (ship ?A)" by (simp add: sh Ship_new_def)
  have b1: "isActive (ship ?B)" "\<not> isInvulnerable (ship ?B)" "\<not> isInHyperspace (ship ?B)"
    by (simp_all add: sh Ship_new_def isInvulnerable_def isInHyperspace_def)
  have b2: "ufoBulletLoop (ufoBullets ?B) (ship ?B) \<noteq> None"
    by (simp add: sh Ship_new_def Bullet_new_def checkCollision_def distance_def
          CONFIG_bullet_radius_def)
  have b3: "lives (data ?B) = 3" by (simp add: Playing_game_def)
  note tA = player_collision_disabled_only_hostile_bullets[where g = ?A and cfg = CONFIG and b = True and g' = ?A]
  note tB = player_collision_disabled_only_hostile_bullets[where g = ?B and cfg = CONFIG and b = True and g' = ?B]
  have "\<exists>g1. checkUFOBulletCollisions CONFIG ?B = Inr g1
         \<and> \<not> isActive (ship g1) \<and> lives (data g1) = lives (data ?B) - 1"
    using tB b1 b2 by blast
  then have b4: "\<exists>g1. checkUFOBulletCollisions CONFIG ?B = Inr g1
         \<and> \<not> isActive (ship g1) \<and> lives (data g1) = 2"
    by (simp only: b3) simp
  have "ship ?A = ship ?A \<and> lives (data ?A) = lives (data ?A)"
    using tA a2 a3 by blast
  then show ?thesis using a1 a2 a3 a4 b1 b2 b4 by blast
qed

section \<open>Scoring a wave and the next level\<close>

text \<open>
  A bullet that hits deactivates exactly one asteroid and leaves sizes and point values
  of the list as they were.
\<close>

lemma hitAsteroid_Some:
  assumes "hitAsteroid b as = Some h"
  shows "map points (fst h) = map points as"
    and "map size_a (fst h) = map size_a as"
    and "Suc (length (filter isActive (fst h))) = length (filter isActive as)"
    and "snd h \<in> set as"
  using assms
proof (induction as arbitrary: h)
  case Nil
  { case 1 then show ?case by simp }
  { case 2 then show ?case by simp }
  { case 3 then show ?case by simp }
  { case 4 then show ?case by simp }
next
  case (Cons a as)
  { case 1 then show ?case using Cons.IH(1)
      by (auto split: if_splits option.splits) }
  { case 2 then show ?case using Cons.IH(2)
      by (auto split: if_splits option.splits) }
  { case 3 then show ?case using Cons.IH(3)
      by (auto simp: checkCollision_def split: if_splits option.splits) }
  { case 4 then show ?case using Cons.IH(4)
      by (auto split: if_splits option.splits) }
qed


text \<open>
  What one pass does to the score and to the number of active large asteroids: each hit
  scores the asteroid it took, and the children of a hit are never large.
\<close>

lemma hitAsteroid_hit:
  assumes "hitAsteroid b as = Some h"
  shows "isActive (snd h)"
    and "length (filter (\<lambda>a. size_a a = Large \<and> isActive a) (fst h))
           + (if size_a (snd h) = Large then 1 else 0)
         = length (filter (\<lambda>a. size_a a = Large \<and> isActive a) as)"
  using assms
proof (induction as arbitrary: h)
  case Nil
  { case 1 then show ?case by simp }
  { case 2 then show ?case by simp }
next
  case (Cons a as)
  { case 1 then show ?case using Cons.IH(1)
      by (auto simp: checkCollision_def split: if_splits option.splits) }
  { case 2 then show ?case using Cons.IH(2)
      by (auto simp: checkCollision_def split: if_splits option.splits) }
qed

lemma split_children_not_large: "\<forall>c\<in>set (fst (split a r)). size_a c \<noteq> Large"
proof (cases "size_a a = Small")
  case True
  then show ?thesis by (simp add: split_def)
next
  case False
  then show ?thesis using split_not_small[of a r] by auto
qed

lemma hitAsteroid_keeps_wellformed:
  assumes "hitAsteroid b as = Some h" "\<forall>a\<in>set as. size_a a = Large \<longrightarrow> points a = p"
  shows "\<forall>a\<in>set (fst h). size_a a = Large \<longrightarrow> points a = p"
  using assms
proof (induction as arbitrary: h)
  case Nil
  then show ?case by simp
next
  case (Cons a as)
  then show ?case by (auto split: if_splits option.splits)
qed

lemma destroyedInPass_wellformed:
  assumes "\<forall>a\<in>set as. size_a a = Large \<longrightarrow> points a = p"
  shows "\<forall>x\<in>set (destroyedInPass bs as). size_a x = Large \<longrightarrow> points x = p"
  using assms
proof (induction bs arbitrary: as)
  case Nil
  show ?case by simp
next
  case (Cons b bs)
  show ?case
  proof (cases "hitAsteroid b as")
    case None
    then show ?thesis using Cons.IH[OF Cons.prems] by simp
  next
    case (Some h)
    have "snd h \<in> set as" by (rule hitAsteroid_Some(4)[OF Some])
    moreover note Cons.IH[OF hitAsteroid_keeps_wellformed[OF Some Cons.prems]]
    ultimately show ?thesis using Some Cons.prems by simp
  qed
qed

lemma bulletLoop_accounting:
  "score (data (fst (snd (bulletLoop bs g new))))
     = score (data g) + sum_list (map points (destroyedInPass bs (asteroids g)))
 \<and> map size_a (asteroids (fst (snd (bulletLoop bs g new)))) = map size_a (asteroids g)
 \<and> map points (asteroids (fst (snd (bulletLoop bs g new)))) = map points (asteroids g)
 \<and> length (filter (\<lambda>a. size_a a = Large \<and> isActive a)
             (asteroids (fst (snd (bulletLoop bs g new)))))
       + length (filter (\<lambda>a. size_a a = Large) (destroyedInPass bs (asteroids g)))
     = length (filter (\<lambda>a. size_a a = Large \<and> isActive a) (asteroids g))
 \<and> (\<forall>c\<in>set (snd (snd (bulletLoop bs g new))). c \<in> set new \<or> size_a c \<noteq> Large)"
proof (induction bs arbitrary: g new)
  case Nil
  show ?case by simp
next
  case (Cons b bs)
  show ?case
  proof (cases "hitAsteroid b (asteroids g)")
    case None
    then show ?thesis using Cons.IH[of g new] by (simp add: Let_def)
  next
    case (Some h)
    note hp = hitAsteroid_Some[OF Some]
    note hh = hitAsteroid_hit[OF Some]
    let ?sp = "split (snd h) (mathRandom g)"
    let ?g1 = "g\<lparr>asteroids := fst h,
                  data := (data g)\<lparr>score := score (data g) + points (snd h)\<rparr>,
                  audio := audio g @ [PlayExplosion (size_a (snd h))],
                  mathRandom := snd ?sp\<rparr>"
    note ih = Cons.IH[of ?g1 "new @ fst ?sp"]
    have e: "bulletLoop (b # bs) g new
             = (b\<lparr>isActive := False\<rparr> # fst (bulletLoop bs ?g1 (new @ fst ?sp)),
                snd (bulletLoop bs ?g1 (new @ fst ?sp)))"
      using Some by (simp add: Let_def)
    have d: "destroyedInPass (b # bs) (asteroids g) = snd h # destroyedInPass bs (fst h)"
      using Some by simp
    show ?thesis
      unfolding e d using ih hp(1,2) hh(2) split_children_not_large[of "snd h" "mathRandom g"]
      by (auto simp: algebra_simps)
  qed
qed

text \<open>One pass credits exactly the point values of the asteroids it destroys.\<close>

lemma checkBulletCollisions_accounting:
  "score (data (checkBulletCollisions g))
     = score (data g) + sum_list (map points (destroyedInPass (bullets g) (asteroids g)))"
  using bulletLoop_accounting[of "bullets g" g "[]"]
  by (simp add: checkBulletCollisions_def Let_def)

lemma filter_active_large_after_filter:
  "filter (\<lambda>a. size_a a = Large \<and> isActive a) (filter isActive xs)
     = filter (\<lambda>a. size_a a = Large \<and> isActive a) xs"
  by (induction xs) auto

lemma checkBulletCollisions_large_count:
  "length (filter (\<lambda>a. size_a a = Large \<and> isActive a) (asteroids (checkBulletCollisions g)))
     + length (filter (\<lambda>a. size_a a = Large) (destroyedInPass (bullets g) (asteroids g)))
   = length (filter (\<lambda>a. size_a a = Large \<and> isActive a) (asteroids g))"
proof -
  let ?r = "bulletLoop (bullets g) g []"
  note inv = bulletLoop_accounting[of "bullets g" g "[]"]
  have ch: "filter (\<lambda>a. size_a a = Large \<and> isActive a) (snd (snd ?r)) = []"
    using inv by (auto simp: filter_empty_conv)
  have a: "asteroids (checkBulletCollisions g)
          = filter isActive (asteroids (fst (snd ?r))) @ snd (snd ?r)"
    by (simp add: checkBulletCollisions_def Let_def)
  have "filter (\<lambda>a. size_a a = Large \<and> isActive a) (asteroids (checkBulletCollisions g))
          = filter (\<lambda>a. size_a a = Large \<and> isActive a) (asteroids (fst (snd ?r)))"
    by (simp only: a filter_append filter_active_large_after_filter ch append_Nil2)
  then show ?thesis using inv by (simp only:)
qed

lemma same_maps_element:
  assumes "map f xs = map f ys" "map h xs = map h ys" "a \<in> set xs"
  shows "\<exists>b\<in>set ys. f a = f b \<and> h a = h b"
proof -
  obtain i where i: "i < length xs" "xs ! i = a"
    using assms(3) by (auto simp: in_set_conv_nth)
  have l: "length ys = length xs"
    using assms(1) by (metis length_map)
  have "f (xs ! i) = f (ys ! i)"
    using assms(1) i(1) l by (metis nth_map)
  moreover have "h (xs ! i) = h (ys ! i)"
    using assms(2) i(1) l by (metis nth_map)
  moreover have "ys ! i \<in> set ys" using i(1) l by simp
  ultimately show ?thesis using i(2) by blast
qed

lemma checkBulletCollisions_keeps_wellformed:
  assumes "\<forall>a\<in>set (asteroids g). size_a a = Large \<longrightarrow> points a = p"
  shows "\<forall>a\<in>set (asteroids (checkBulletCollisions g)). size_a a = Large \<longrightarrow> points a = p"
proof -
  let ?r = "bulletLoop (bullets g) g []"
  note inv = bulletLoop_accounting[of "bullets g" g "[]"]
  have w: "\<forall>a\<in>set (asteroids (fst (snd ?r))). size_a a = Large \<longrightarrow> points a = p"
  proof
    fix a assume "a \<in> set (asteroids (fst (snd ?r)))"
    then obtain b where "b \<in> set (asteroids g)" "size_a a = size_a b" "points a = points b"
      using same_maps_element[of size_a "asteroids (fst (snd ?r))" "asteroids g" points a] inv
      by blast
    then show "size_a a = Large \<longrightarrow> points a = p" using assms by auto
  qed
  have a: "asteroids (checkBulletCollisions g)
          = filter isActive (asteroids (fst (snd ?r))) @ snd (snd ?r)"
    by (simp add: checkBulletCollisions_def Let_def)
  show ?thesis
  proof
    fix x assume "x \<in> set (asteroids (checkBulletCollisions g))"
    then have "x \<in> set (asteroids (fst (snd ?r))) \<or> x \<in> set (snd (snd ?r))"
      unfolding a by auto
    then show "size_a x = Large \<longrightarrow> points x = p"
      using w inv by auto
  qed
qed

text \<open>
  Along a run of passes that hit only large asteroids, the score plus the value of the
  active large asteroids still on the field does not change.
\<close>

lemma count_by_maps:
  "length (filter (\<lambda>a. f a = c \<and> h a) xs)
     = length (filter (\<lambda>u. fst u = c \<and> snd u) (zip (map f xs) (map h xs)))"
  by (induction xs) auto

lemma active_large_count_cong:
  assumes "map size_a xs = map size_a ys" "map isActive xs = map isActive ys"
  shows "length (filter (\<lambda>a. size_a a = Large \<and> isActive a) xs)
           = length (filter (\<lambda>a. size_a a = Large \<and> isActive a) ys)"
proof -
  have "length (filter (\<lambda>a. size_a a = Large \<and> isActive a) xs)
          = length (filter (\<lambda>u. fst u = Large \<and> snd u) (zip (map size_a xs) (map isActive xs)))"
    by (rule count_by_maps)
  also have "\<dots> = length (filter (\<lambda>u. fst u = Large \<and> snd u)
                          (zip (map size_a ys) (map isActive ys)))"
    by (simp only: assms)
  also have "\<dots> = length (filter (\<lambda>a. size_a a = Large \<and> isActive a) ys)"
    by (rule count_by_maps[symmetric])
  finally show ?thesis .
qed

lemma all_large_points_sum:
  assumes "list_all (\<lambda>a. size_a a = Large) ds" "\<forall>x\<in>set ds. size_a x = Large \<longrightarrow> points x = p"
  shows "sum_list (map points ds) = p * real (length ds)"
    and "filter (\<lambda>a. size_a a = Large) ds = ds"
  using assms by (induction ds) (auto simp: algebra_simps)

lemma directHitsRun_invariant:
  assumes "directHitsRun g h"
    and "\<forall>a\<in>set (asteroids g). size_a a = Large \<longrightarrow> points a = p"
  shows "score (data h)
           + p * real (length (filter (\<lambda>a. size_a a = Large \<and> isActive a) (asteroids h)))
         = score (data g)
           + p * real (length (filter (\<lambda>a. size_a a = Large \<and> isActive a) (asteroids g)))
       \<and> (\<forall>a\<in>set (asteroids h). size_a a = Large \<longrightarrow> points a = p)"
  using assms
proof (induction rule: directHitsRun.induct)
  case (start g)
  then show ?case by simp
next
  case (between g h h')
  note ih = between.IH[OF between.prems]
  have c: "length (filter (\<lambda>a. size_a a = Large \<and> isActive a) (asteroids h'))
             = length (filter (\<lambda>a. size_a a = Large \<and> isActive a) (asteroids h))"
    by (rule active_large_count_cong[OF between.hyps(2,4)])
  have w: "\<forall>a\<in>set (asteroids h'). size_a a = Large \<longrightarrow> points a = p"
  proof
    fix a assume "a \<in> set (asteroids h')"
    then obtain b where "b \<in> set (asteroids h)" "size_a a = size_a b" "points a = points b"
      using same_maps_element[OF between.hyps(2,3)] by blast
    then show "size_a a = Large \<longrightarrow> points a = p" using ih by auto
  qed
  show ?case using ih c w between.hyps(5) by simp
next
  case (pass g h)
  note ih = pass.IH[OF pass.prems]
  let ?ds = "destroyedInPass (bullets h) (asteroids h)"
  have wf: "\<forall>x\<in>set ?ds. size_a x = Large \<longrightarrow> points x = p"
    using destroyedInPass_wellformed ih by blast
  note s = all_large_points_sum[OF pass.hyps(2) wf]
  have sc: "score (data (checkBulletCollisions h)) = score (data h) + p * real (length ?ds)"
    using checkBulletCollisions_accounting[of h] s(1) by simp
  have cn: "real (length (filter (\<lambda>a. size_a a = Large \<and> isActive a) (asteroids h)))
              = real (length (filter (\<lambda>a. size_a a = Large \<and> isActive a)
                                (asteroids (checkBulletCollisions h))))
                + real (length ?ds)"
  proof -
    have "length (filter (\<lambda>a. size_a a = Large \<and> isActive a) (asteroids h))
            = length (filter (\<lambda>a. size_a a = Large \<and> isActive a)
                        (asteroids (checkBulletCollisions h))) + length ?ds"
      using checkBulletCollisions_large_count[of h] by (simp only: s(2))
    then show ?thesis by (simp only: of_nat_add)
  qed
  have w: "\<forall>a\<in>set (asteroids (checkBulletCollisions h)). size_a a = Large \<longrightarrow> points a = p"
    using checkBulletCollisions_keeps_wellformed ih by blast
  show ?case using ih sc cn w by (simp add: algebra_simps)
qed

lemma directHitsRun_all_large_destroyed:
  assumes "directHitsRun g h"
    and "\<forall>a\<in>set (asteroids g). size_a a = Large \<and> points a = p \<and> isActive a"
    and "\<forall>a\<in>set (asteroids h). size_a a = Large \<longrightarrow> \<not> isActive a"
  shows "score (data h) = score (data g) + p * real (length (asteroids g))"
proof -
  have wf: "\<forall>a\<in>set (asteroids g). size_a a = Large \<longrightarrow> points a = p"
    using assms(2) by simp
  note inv = directHitsRun_invariant[OF assms(1) wf]
  have a: "filter (\<lambda>a. size_a a = Large \<and> isActive a) (asteroids g) = asteroids g"
    using assms(2) by simp
  have b: "filter (\<lambda>a. size_a a = Large \<and> isActive a) (asteroids h) = []"
    using assms(3) by (auto simp: filter_empty_conv)
  show ?thesis using inv by (simp add: a b)
qed

text \<open>What is left of the random supply after a draw.\<close>

lemma randomRange_rest: "snd (randomRange lo hi r) = (\<lambda>n. r (n + 1))"
  by (simp add: randomRange_def Math_random_def)

lemma randomInt_rest: "snd (randomInt lo hi r) = (\<lambda>n. r (n + 1))"
  by (simp add: randomInt_def randomRange_rest)

lemma shapeVertices_rest: "snd (shapeVertices R nv is r) = (\<lambda>n. r (n + length is))"
proof (induction "is" arbitrary: r)
  case Nil
  show ?case by simp
next
  case (Cons i "is")
  show ?case
    by (simp add: Let_def Cons.IH randomRange_rest add.assoc)
qed

lemma Asteroid_new_rest: "\<exists>k. snd (Asteroid_new x y sz d r) = (\<lambda>n. r (n + k))"
proof -
  let ?nv = "nat (fst (randomInt (cfg_minVerts (SIZE_CONFIG sz)) (cfg_maxVerts (SIZE_CONFIG sz)) r))"
  have sh: "snd (generateAsteroidShape sz r) = (\<lambda>n. r (n + (?nv + 1)))"
    by (simp add: generateAsteroidShape_def Let_def randomInt_rest shapeVertices_rest
          add.assoc add.commute del: SIZE_CONFIG.simps)
  show ?thesis
  proof (cases d)
    case None
    have "snd (Asteroid_new x y sz d r) = (\<lambda>n. r (n + (?nv + 3)))"
      unfolding None Asteroid_new_def Let_def
      by (simp add: sh randomRange_rest add.assoc eval_nat_numeral del: SIZE_CONFIG.simps)
    then show ?thesis by blast
  next
    case (Some v)
    have "snd (Asteroid_new x y sz d r) = (\<lambda>n. r (n + (?nv + 2)))"
      unfolding Some Asteroid_new_def Let_def
      by (simp add: sh randomRange_rest add.assoc eval_nat_numeral del: SIZE_CONFIG.simps)
    then show ?thesis by blast
  qed
qed

lemma sampleAsteroidPosition_first_accepted:
  assumes "\<not> (\<bar>r 0 * W - vx a\<bar> < rad \<and> \<bar>r 1 * H - vy a\<bar> < rad)"
  shows "sampleAsteroidPosition W H a rad r = Some ((r 0 * W, r 1 * H), \<lambda>n. r (n + 2))"
  using assms
  by (subst sampleAsteroidPosition.simps)
     (auto simp: Let_def randomRange_def Math_random_def)

text \<open>
  The sampling loop returns exactly when the supply holds an accepted pair of draws at
  an even offset; candidates rejected before it are skipped.
\<close>

lemma sampleAsteroidPosition_rejected:
  assumes "\<bar>g 0 * W - vx a\<bar> < r \<and> \<bar>g 1 * H - vy a\<bar> < r"
  shows "sampleAsteroidPosition W H a r g = sampleAsteroidPosition W H a r (\<lambda>n. g (n + 2))"
  using assms
  by (subst sampleAsteroidPosition.simps)
     (simp add: Let_def randomRange_def Math_random_def)

lemma sampleAsteroidPosition_returns:
  assumes "\<not> (\<bar>g (2 * m) * W - vx a\<bar> < r \<and> \<bar>g (2 * m + 1) * H - vy a\<bar> < r)"
  shows "\<exists>x y j. sampleAsteroidPosition W H a r g = Some ((x, y), \<lambda>n. g (n + j))
                 \<and> \<not> (\<bar>x - vx a\<bar> < r \<and> \<bar>y - vy a\<bar> < r)"
  using assms
proof (induction m arbitrary: g)
  case 0
  then have f: "\<not> (\<bar>g 0 * W - vx a\<bar> < r \<and> \<bar>g 1 * H - vy a\<bar> < r)" by simp
  show ?case
    using sampleAsteroidPosition_first_accepted[OF f] f by blast
next
  case (Suc m)
  show ?case
  proof (cases "\<bar>g 0 * W - vx a\<bar> < r \<and> \<bar>g 1 * H - vy a\<bar> < r")
    case False
    show ?thesis
      using sampleAsteroidPosition_first_accepted[OF False] False by blast
  next
    case True
    let ?g2 = "\<lambda>n. g (n + 2)"
    have "\<not> (\<bar>?g2 (2 * m) * W - vx a\<bar> < r \<and> \<bar>?g2 (2 * m + 1) * H - vy a\<bar> < r)"
      using Suc.prems by (simp add: add.commute)
    from Suc.IH[OF this] obtain x y j where
      s: "sampleAsteroidPosition W H a r ?g2 = Some ((x, y), \<lambda>n. ?g2 (n + j))"
      and o: "\<not> (\<bar>x - vx a\<bar> < r \<and> \<bar>y - vy a\<bar> < r)"
      by blast
    have "sampleAsteroidPosition W H a r g = Some ((x, y), \<lambda>n. g (n + (j + 2)))"
      using sampleAsteroidPosition_rejected[OF True] s by (simp add: add.assoc)
    then show ?thesis using o by blast
  qed
qed

lemma sampleAsteroidPosition_returned:
  assumes "sampleAsteroidPosition W H a r g = Some y"
  shows "\<exists>m. \<not> (\<bar>g (2 * m) * W - vx a\<bar> < r \<and> \<bar>g (2 * m + 1) * H - vy a\<bar> < r)"
proof (rule sampleAsteroidPosition.raw_induct
         [where P = "\<lambda>W H a r g y.
            \<exists>m. \<not> (\<bar>g (2 * m) * W - vx a\<bar> < r \<and> \<bar>g (2 * m + 1) * H - vy a\<bar> < r)",
          OF _ assms])
  fix f W' H' a' r' and g' :: rng and y'
  assume ih: "\<And>W H a r g y. f W H a r g = Some y \<Longrightarrow>
                \<exists>m. \<not> (\<bar>g (2 * m) * W - vx a\<bar> < r \<and> \<bar>g (2 * m + 1) * H - vy a\<bar> < r)"
    and body: "(let rx = randomRange 0 W' g'; ry = randomRange 0 H' (snd rx)
                in if \<bar>fst rx - vx a'\<bar> < r' \<and> \<bar>fst ry - vy a'\<bar> < r'
                   then f W' H' a' r' (snd ry)
                   else Some ((fst rx, fst ry), snd ry)) = Some y'"
  show "\<exists>m. \<not> (\<bar>g' (2 * m) * W' - vx a'\<bar> < r' \<and> \<bar>g' (2 * m + 1) * H' - vy a'\<bar> < r')"
  proof (cases "\<bar>g' 0 * W' - vx a'\<bar> < r' \<and> \<bar>g' 1 * H' - vy a'\<bar> < r'")
    case False
    then have "\<not> (\<bar>g' (2 * 0) * W' - vx a'\<bar> < r' \<and> \<bar>g' (2 * 0 + 1) * H' - vy a'\<bar> < r')"
      by simp
    then show ?thesis by blast
  next
    case True
    let ?g2 = "\<lambda>n. g' (Suc (Suc n))"
    have "f W' H' a' r' ?g2 = Some y'"
      using body True by (simp add: Let_def randomRange_def Math_random_def)
    from ih[OF this] obtain m where
      "\<not> (\<bar>?g2 (2 * m) * W' - vx a'\<bar> < r' \<and> \<bar>?g2 (2 * m + 1) * H' - vy a'\<bar> < r')"
      by blast
    then have "\<not> (\<bar>g' (2 * Suc m) * W' - vx a'\<bar> < r'
                 \<and> \<bar>g' (2 * Suc m + 1) * H' - vy a'\<bar> < r')"
      by simp
    then show ?thesis by blast
  qed
qed

text \<open>A sampling call returns exactly when some candidate of its supply is accepted.\<close>

lemma sampleAsteroidPosition_returns_iff:
  "(sampleAsteroidPosition W H a r g \<noteq> None)
     = (\<exists>m. \<not> (\<bar>g (2 * m) * W - vx a\<bar> < r \<and> \<bar>g (2 * m + 1) * H - vy a\<bar> < r))"
proof
  assume "sampleAsteroidPosition W H a r g \<noteq> None"
  then obtain y where "sampleAsteroidPosition W H a r g = Some y" by auto
  then show "\<exists>m. \<not> (\<bar>g (2 * m) * W - vx a\<bar> < r \<and> \<bar>g (2 * m + 1) * H - vy a\<bar> < r)"
    by (rule sampleAsteroidPosition_returned)
next
  assume "\<exists>m. \<not> (\<bar>g (2 * m) * W - vx a\<bar> < r \<and> \<bar>g (2 * m + 1) * H - vy a\<bar> < r)"
  then obtain m where
    "\<not> (\<bar>g (2 * m) * W - vx a\<bar> < r \<and> \<bar>g (2 * m + 1) * H - vy a\<bar> < r)" by blast
  from sampleAsteroidPosition_returns[OF this]
  show "sampleAsteroidPosition W H a r g \<noteq> None" by auto
qed

lemma createAsteroids_loop_returns_with_retries:
  assumes "\<forall>k. \<exists>m. \<not> (\<bar>g (k + 2 * m) * W - vx a\<bar> < r \<and> \<bar>g (k + 2 * m + 1) * H - vy a\<bar> < r)"
  shows "\<exists>res. createAsteroids_loop n W H a r acc g = Some res"
  using assms
proof (induction n arbitrary: acc g)
  case 0
  show ?case by simp
next
  case (Suc n)
  obtain m where
    "\<not> (\<bar>g (0 + 2 * m) * W - vx a\<bar> < r \<and> \<bar>g (0 + 2 * m + 1) * H - vy a\<bar> < r)"
    using Suc.prems by blast
  then have "\<not> (\<bar>g (2 * m) * W - vx a\<bar> < r \<and> \<bar>g (2 * m + 1) * H - vy a\<bar> < r)"
    by simp
  from sampleAsteroidPosition_returns[OF this] obtain x y j where
    s: "sampleAsteroidPosition W H a r g = Some ((x, y), \<lambda>n. g (n + j))"
    by blast
  let ?g1 = "\<lambda>n. g (n + j)"
  let ?a = "Asteroid_new x y Large None ?g1"
  obtain k where k: "snd ?a = (\<lambda>n. ?g1 (n + k))"
    using Asteroid_new_rest by blast
  have "\<forall>i. \<exists>m. \<not> (\<bar>snd ?a (i + 2 * m) * W - vx a\<bar> < r
                       \<and> \<bar>snd ?a (i + 2 * m + 1) * H - vy a\<bar> < r)"
  proof
    fix i
    obtain m where
      n: "\<not> (\<bar>g ((i + k + j) + 2 * m) * W - vx a\<bar> < r
          \<and> \<bar>g ((i + k + j) + 2 * m + 1) * H - vy a\<bar> < r)"
      using Suc.prems by blast
    have e: "snd ?a (i + 2 * m) = g ((i + k + j) + 2 * m)"
      "snd ?a (i + 2 * m + 1) = g ((i + k + j) + 2 * m + 1)"
      by (simp_all add: k algebra_simps)
    have "\<not> (\<bar>snd ?a (i + 2 * m) * W - vx a\<bar> < r
                       \<and> \<bar>snd ?a (i + 2 * m + 1) * H - vy a\<bar> < r)"
      unfolding e by (rule n)
    then show "\<exists>m. \<not> (\<bar>snd ?a (i + 2 * m) * W - vx a\<bar> < r
                       \<and> \<bar>snd ?a (i + 2 * m + 1) * H - vy a\<bar> < r)"
      by blast
  qed
  from Suc.IH[OF this, of "acc @ [fst ?a]"]
  show ?case by (simp add: s Let_def)
qed

lemma createAsteroids_loop_result:
  assumes "createAsteroids_loop n W H a rad acc r = Some res"
  shows "length (fst res) = length acc + n
       \<and> (\<forall>x\<in>set (fst res). x \<in> set acc
             \<or> (size_a x = Large \<and> isActive x \<and> points x = cfg_points (SIZE_CONFIG Large)))"
  using assms
proof (induction n arbitrary: acc r)
  case 0
  then show ?case by auto
next
  case (Suc n)
  from Suc.prems obtain xy r1 where
    s: "sampleAsteroidPosition W H a rad r = Some (xy, r1)"
    by (auto split: option.splits)
  let ?a = "Asteroid_new (fst xy) (snd xy) Large None r1"
  have "createAsteroids_loop n W H a rad (acc @ [fst ?a]) (snd ?a) = Some res"
    using Suc.prems s by (simp add: Let_def)
  from Suc.IH[OF this] show ?case
    by (auto simp: Asteroid_new_fields simp del: SIZE_CONFIG.simps)
qed

lemma spawnAsteroids_result:
  assumes "spawnAsteroids n g = Inr g'"
  shows "length (asteroids g') = length (asteroids g) + nat n"
    and "\<forall>x\<in>set (asteroids g'). x \<in> set (asteroids g)
            \<or> (size_a x = Large \<and> isActive x \<and> points x = cfg_points (SIZE_CONFIG Large))"
proof -
  from assms obtain res where
    r: "createAsteroids n (width g) (height g) (position (transform (ship g)))
          createAsteroids_default_avoidRadius (mathRandom g) = Some res"
    and g': "g' = g\<lparr>asteroids := asteroids g @ fst res, mathRandom := snd res\<rparr>"
    by (auto simp: spawnAsteroids_def split: option.splits)
  note p = createAsteroids_loop_result[OF r[unfolded createAsteroids_def]]
  show "length (asteroids g') = length (asteroids g) + nat n"
    using p by (simp add: g')
  show "\<forall>x\<in>set (asteroids g'). x \<in> set (asteroids g)
            \<or> (size_a x = Large \<and> isActive x \<and> points x = cfg_points (SIZE_CONFIG Large))"
    using p by (auto simp: g' simp del: SIZE_CONFIG.simps)
qed

lemma nextLevel_result:
  assumes "nextLevel cfg g = Inr g'"
  shows "level (data g') = level (data g) + 1"
    and "state (data g') = state (data g)"
    and "length (asteroids g')
           = length (asteroids g) + nat (asteroid_startingCount cfg + level (data g') - 1)"
    and "\<forall>x\<in>set (asteroids g'). x \<in> set (asteroids g)
            \<or> (size_a x = Large \<and> isActive x \<and> points x = cfg_points (SIZE_CONFIG Large))"
proof -
  let ?g2 = "g\<lparr>data := (data g)\<lparr>level := level (data g) + 1\<rparr>,
               audio := audio g @ [PlayLevelUp]\<rparr>"
  have s: "spawnAsteroids (asteroid_startingCount cfg + (level (data g) + 1) - 1) ?g2 = Inr g'"
    using assms by (simp add: nextLevel_def Let_def)
  note f = spawnAsteroids_frame[OF s]
  note r = spawnAsteroids_result[OF s]
  show l: "level (data g') = level (data g) + 1" using f(2) by simp
  show "state (data g') = state (data g)" using f(2) by simp
  show "length (asteroids g')
           = length (asteroids g) + nat (asteroid_startingCount cfg + level (data g') - 1)"
    using r(1) l by simp
  show "\<forall>x\<in>set (asteroids g'). x \<in> set (asteroids g)
            \<or> (size_a x = Large \<and> isActive x \<and> points x = cfg_points (SIZE_CONFIG Large))"
    using r(2) by simp
qed

lemma nextLevel_returns_with_retries:
  assumes "\<forall>k. \<exists>m.
      \<not> (\<bar>mathRandom g (k + 2 * m) * width g - vx (position (transform (ship g)))\<bar>
            < createAsteroids_default_avoidRadius
          \<and> \<bar>mathRandom g (k + 2 * m + 1) * height g - vy (position (transform (ship g)))\<bar>
            < createAsteroids_default_avoidRadius)"
  shows "\<exists>g'. nextLevel cfg g = Inr g'"
proof -
  obtain res where
    "createAsteroids_loop (nat (asteroid_startingCount cfg + (level (data g) + 1) - 1))
       (width g) (height g) (position (transform (ship g)))
       createAsteroids_default_avoidRadius [] (mathRandom g) = Some res"
    using createAsteroids_loop_returns_with_retries[OF assms] by blast
  then show ?thesis
    by (simp add: nextLevel_def spawnAsteroids_def createAsteroids_def Let_def)
qed

text \<open>
  Claim C8.  Every \<open>checkBulletCollisions\<close> pass adds to the score exactly the point
  values of the asteroids that player bullets hit in it.  Starting from a field of four
  active large asteroids, over any number of passes and of frames between them in which
  the asteroids only move, once no active large asteroid is left and the passes hit only
  large asteroids, the score has grown by exactly four times the large point value (20
  each).  When the asteroid list is empty at the level-complete check, the check
  returns whenever the random supply offers, from every point on, a candidate outside
  the exclusion square around the ship, however many candidates were rejected before;
  then the level has grown by one, the session state is unchanged and the list holds
  \<open>startingCount + level - 1\<close> active large asteroids, \<open>level\<close> being the new level (with
  the shipped \<open>startingCount = 4\<close>, five when going from level 1 to 2).
\<close>

theorem large_wave_score_and_next_level:
  "score (data (checkBulletCollisions g))
     = score (data g) + sum_list (map points (destroyedInPass (bullets g) (asteroids g)))
 \<and> (directHitsRun g k
    \<and> (\<forall>a\<in>set (asteroids g).
          size_a a = Large \<and> points a = cfg_points (SIZE_CONFIG Large) \<and> isActive a)
    \<and> length (asteroids g) = 4
    \<and> (\<forall>a\<in>set (asteroids k). size_a a = Large \<longrightarrow> \<not> isActive a)
    \<longrightarrow> score (data k) = score (data g) + 4 * cfg_points (SIZE_CONFIG Large))
 \<and> (length (asteroids h) = 0 \<and> levelCompleteCheck cfg h = Inr h'
    \<longrightarrow> level (data h') = level (data h) + 1
      \<and> state (data h') = state (data h)
      \<and> length (asteroids h') = nat (asteroid_startingCount cfg + level (data h') - 1)
      \<and> (\<forall>a\<in>set (asteroids h'). size_a a = Large \<and> isActive a))
 \<and> (length (asteroids h) = 0
    \<and> (\<forall>i. \<exists>m.
          \<not> (\<bar>mathRandom h (i + 2 * m) * width h - vx (position (transform (ship h)))\<bar>
                < createAsteroids_default_avoidRadius
              \<and> \<bar>mathRandom h (i + 2 * m + 1) * height h - vy (position (transform (ship h)))\<bar>
                < createAsteroids_default_avoidRadius))
    \<longrightarrow> (\<exists>h1. levelCompleteCheck cfg h = Inr h1
           \<and> level (data h1) = level (data h) + 1
           \<and> state (data h1) = state (data h)
           \<and> length (asteroids h1) = nat (asteroid_startingCount cfg + level (data h1) - 1)
           \<and> (\<forall>a\<in>set (asteroids h1). size_a a = Large \<and> isActive a)))
 \<and> asteroid_startingCount CONFIG = 4
 \<and> cfg_points (SIZE_CONFIG Large) = 20"
proof (intro conjI impI)
  show "score (data (checkBulletCollisions g))
     = score (data g) + sum_list (map points (destroyedInPass (bullets g) (asteroids g)))"
    by (rule checkBulletCollisions_accounting)
next
  assume a: "directHitsRun g k
    \<and> (\<forall>a\<in>set (asteroids g).
          size_a a = Large \<and> points a = cfg_points (SIZE_CONFIG Large) \<and> isActive a)
    \<and> length (asteroids g) = 4
    \<and> (\<forall>a\<in>set (asteroids k). size_a a = Large \<longrightarrow> \<not> isActive a)"
  have "score (data k)
          = score (data g) + cfg_points (SIZE_CONFIG Large) * real (length (asteroids g))"
    by (rule directHitsRun_all_large_destroyed) (use a in blast)+
  then show "score (data k) = score (data g) + 4 * cfg_points (SIZE_CONFIG Large)"
    using a by simp
next
  assume b: "length (asteroids h) = 0 \<and> levelCompleteCheck cfg h = Inr h'"
  then have e: "asteroids h = []" by simp
  have nl: "nextLevel cfg h = Inr h'"
    using b e by (simp add: levelCompleteCheck_def)
  note r = nextLevel_result[OF nl]
  show "level (data h') = level (data h) + 1" by (rule r(1))
  show "state (data h') = state (data h)" by (rule r(2))
  show "length (asteroids h') = nat (asteroid_startingCount cfg + level (data h') - 1)"
    using r(3) e by simp
  show "\<forall>a\<in>set (asteroids h'). size_a a = Large \<and> isActive a"
    using r(4) e by simp
next
  assume c: "length (asteroids h) = 0
    \<and> (\<forall>i. \<exists>m.
          \<not> (\<bar>mathRandom h (i + 2 * m) * width h - vx (position (transform (ship h)))\<bar>
                < createAsteroids_default_avoidRadius
              \<and> \<bar>mathRandom h (i + 2 * m + 1) * height h - vy (position (transform (ship h)))\<bar>
                < createAsteroids_default_avoidRadius))"
  then have e: "asteroids h = []" by simp
  obtain h1 where nl: "nextLevel cfg h = Inr h1"
    using nextLevel_returns_with_retries[of h cfg] c by blast
  note r = nextLevel_result[OF nl]
  have "levelCompleteCheck cfg h = Inr h1"
    using nl e by (simp add: levelCompleteCheck_def)
  moreover have "length (asteroids h1) = nat (asteroid_startingCount cfg + level (data h1) - 1)"
    using r(3) e by simp
  moreover have "\<forall>a\<in>set (asteroids h1). size_a a = Large \<and> isActive a"
    using r(4) e by simp
  ultimately show "\<exists>h1. levelCompleteCheck cfg h = Inr h1
           \<and> level (data h1) = level (data h) + 1
           \<and> state (data h1) = state (data h)
           \<and> length (asteroids h1) = nat (asteroid_startingCount cfg + level (data h1) - 1)
           \<and> (\<forall>a\<in>set (asteroids h1). size_a a = Large \<and> isActive a)"
    using r(1,2) by blast
next
  show "asteroid_startingCount CONFIG = 4" by (simp add: CONFIG_def)
next
  show "cfg_points (SIZE_CONFIG Large) = 20" by simp
qed

theorem large_wave_score_and_next_level_witness:
  "destroyedInPass (bullets Wave_game) (asteroids Wave_game)
     = [fst (Asteroid_new 400 300 Large None (\<lambda>k. 0)),
        fst (Asteroid_new 400 300 Large None (\<lambda>k. 0))]
 \<and> score (data (checkBulletCollisions Wave_game)) = 40
 \<and> length (filter (\<lambda>a. size_a a = Large \<and> isActive a)
             (asteroids (checkBulletCollisions Wave_game))) = 2
 \<and> directHitsRun Wave_game
      (checkBulletCollisions (two_more_bullets (checkBulletCollisions Wave_game)))
 \<and> length (filter (\<lambda>a. size_a a = Large \<and> isActive a)
             (asteroids (checkBulletCollisions
                (two_more_bullets (checkBulletCollisions Wave_game))))) = 0
 \<and> score (data (checkBulletCollisions
       (two_more_bullets (checkBulletCollisions Wave_game)))) = 80
 \<and> length (asteroids Retry_game) = 0
 \<and> level (data Retry_game) = 1
 \<and> \<bar>mathRandom Retry_game 0 * width Retry_game
      - vx (position (transform (ship Retry_game)))\<bar> < createAsteroids_default_avoidRadius
 \<and> \<bar>mathRandom Retry_game 1 * height Retry_game
      - vy (position (transform (ship Retry_game)))\<bar> < createAsteroids_default_avoidRadius
 \<and> (\<exists>h1. levelCompleteCheck CONFIG Retry_game = Inr h1
        \<and> level (data h1) = 2
        \<and> state (data h1) = Playing
        \<and> length (asteroids h1) = 5)"
proof -
  let ?A = "fst (Asteroid_new 400 300 Large None (\<lambda>k. 0))"
  let ?B = "Bullet_new 400 300 \<lparr>vx = 1, vy = 0\<rparr>"
  let ?G1 = "checkBulletCollisions Wave_game"
  let ?G2 = "checkBulletCollisions (two_more_bullets ?G1)"
  let ?R = "Retry_game"
  let ?L = "\<lambda>a. size_a a = Large \<and> isActive a"
  have A: "size_a ?A = Large" "isActive ?A" "points ?A = cfg_points (SIZE_CONFIG Large)"
    "radius ?A = 40" "position (transform ?A) = \<lparr>vx = 400, vy = 300\<rparr>"
    by (simp_all add: Asteroid_new_fields)
  have hit: "checkCollision ?B ?A"
    by (simp add: checkCollision_def distance_def A Bullet_new_def CONFIG_bullet_radius_def)
  have nohit: "\<not> checkCollision ?B (?A\<lparr>isActive := False\<rparr>)"
    by (simp add: checkCollision_def)
  have two: "destroyedInPass [?B, ?B] (?A # ?A # rest) = [?A, ?A]" for rest
    by (simp add: hit nohit)
  have w: "asteroids Wave_game = [?A, ?A, ?A, ?A]" "bullets Wave_game = [?B, ?B]"
    "score (data Wave_game) = 0"
    by (simp_all add: Wave_game_def Playing_game_def)
  have d1: "destroyedInPass (bullets Wave_game) (asteroids Wave_game) = [?A, ?A]"
    unfolding w by (rule two)
  have "\<exists>rest. asteroids ?G1 = ?A # ?A # rest"
    by (simp add: checkBulletCollisions_def Let_def w hit nohit A)
  then obtain rest where g1: "asteroids ?G1 = ?A # ?A # rest" by blast
  have tm: "asteroids (two_more_bullets ?G1) = asteroids ?G1"
    "bullets (two_more_bullets ?G1) = [?B, ?B]"
    "score (data (two_more_bullets ?G1)) = score (data ?G1)"
    by (simp_all add: two_more_bullets_def)
  have d2: "destroyedInPass (bullets (two_more_bullets ?G1)) (asteroids (two_more_bullets ?G1))
              = [?A, ?A]"
    unfolding tm g1 by (rule two)
  have r1: "directHitsRun Wave_game ?G1"
    by (rule directHitsRun.pass[OF directHitsRun.start]) (simp add: d1 A)
  have r1b: "directHitsRun Wave_game (two_more_bullets ?G1)"
    by (rule directHitsRun.between[OF r1]) (simp_all add: tm)
  have r2: "directHitsRun Wave_game ?G2"
    by (rule directHitsRun.pass[OF r1b]) (simp add: d2 A)
  have c0: "length (filter ?L (asteroids Wave_game)) = 4"
    by (simp add: w A)
  have c1: "length (filter ?L (asteroids ?G1)) = 2"
    using checkBulletCollisions_large_count[of Wave_game, unfolded d1] by (simp add: c0 A)
  have c2: "length (filter ?L (asteroids ?G2)) = 0"
    using checkBulletCollisions_large_count[of "two_more_bullets ?G1", unfolded d2]
    by (simp add: tm c1 A)
  have h1: "\<forall>a\<in>set (asteroids Wave_game).
        size_a a = Large \<and> points a = cfg_points (SIZE_CONFIG Large) \<and> isActive a"
    by (simp add: w A del: SIZE_CONFIG.simps)
  have h2: "length (asteroids Wave_game) = 4" by (simp add: w)
  have "filter ?L (asteroids ?G2) = []" using c2 by simp
  then have h3: "\<forall>a\<in>set (asteroids ?G2). size_a a = Large \<longrightarrow> \<not> isActive a"
    by (simp add: filter_empty_conv)
  have e: "length (asteroids ?R) = 0" "level (data ?R) = 1" "state (data ?R) = Playing"
    by (simp_all add: Retry_game_def Playing_game_def Game_new_def)
  have fx: "\<bar>mathRandom ?R 0 * width ?R - vx (position (transform (ship ?R)))\<bar>
              < createAsteroids_default_avoidRadius"
    by (simp add: Retry_game_def Playing_game_def Game_new_def Ship_new_def
          createAsteroids_default_avoidRadius_def)
  have fy: "\<bar>mathRandom ?R 1 * height ?R - vy (position (transform (ship ?R)))\<bar>
              < createAsteroids_default_avoidRadius"
    by (simp add: Retry_game_def Playing_game_def Game_new_def Ship_new_def
          createAsteroids_default_avoidRadius_def)
  have rh: "\<forall>i. \<exists>m.
          \<not> (\<bar>mathRandom ?R (i + 2 * m) * width ?R - vx (position (transform (ship ?R)))\<bar>
                < createAsteroids_default_avoidRadius
              \<and> \<bar>mathRandom ?R (i + 2 * m + 1) * height ?R - vy (position (transform (ship ?R)))\<bar>
                < createAsteroids_default_avoidRadius)"
  proof
    fix i :: nat
    have "\<not> (\<bar>mathRandom ?R (i + 2 * 1) * width ?R - vx (position (transform (ship ?R)))\<bar>
                < createAsteroids_default_avoidRadius)"
      by (simp add: Retry_game_def Playing_game_def Game_new_def Ship_new_def
          createAsteroids_default_avoidRadius_def)
    then show "\<exists>m.
          \<not> (\<bar>mathRandom ?R (i + 2 * m) * width ?R - vx (position (transform (ship ?R)))\<bar>
                < createAsteroids_default_avoidRadius
              \<and> \<bar>mathRandom ?R (i + 2 * m + 1) * height ?R - vy (position (transform (ship ?R)))\<bar>
                < createAsteroids_default_avoidRadius)"
      by blast
  qed
  note t = large_wave_score_and_next_level[where g = Wave_game and k = ?G2 and h = ?R
             and cfg = CONFIG]
  have p20: "cfg_points (SIZE_CONFIG Large) = 20"
    using t[THEN conjunct2, THEN conjunct2, THEN conjunct2, THEN conjunct2, THEN conjunct2] .
  have s1: "score (data ?G1) = 40"
    using t[THEN conjunct1, unfolded d1] by (simp add: w(3) A)
  have "score (data ?G2) = score (data Wave_game) + 4 * cfg_points (SIZE_CONFIG Large)"
    using t[THEN conjunct2, THEN conjunct1] r2 h1 h2 h3 by blast
  then have s2: "score (data ?G2) = 80" by (simp add: w)
  obtain h1 where r: "levelCompleteCheck CONFIG ?R = Inr h1"
    and lv: "level (data h1) = level (data ?R) + 1"
    and st: "state (data h1) = state (data ?R)"
    and ln: "length (asteroids h1) = nat (asteroid_startingCount CONFIG + level (data h1) - 1)"
    using t[THEN conjunct2, THEN conjunct2, THEN conjunct2, THEN conjunct1] e(1) rh by blast
  have sc: "asteroid_startingCount CONFIG = 4"
    using t[THEN conjunct2, THEN conjunct2, THEN conjunct2, THEN conjunct2, THEN conjunct1] .
  have "level (data h1) = 2 \<and> state (data h1) = Playing \<and> length (asteroids h1) = 5"
    using lv st ln e sc by simp
  then have ex: "\<exists>h1. levelCompleteCheck CONFIG ?R = Inr h1
        \<and> level (data h1) = 2 \<and> state (data h1) = Playing \<and> length (asteroids h1) = 5"
    using r by blast
  show ?thesis
    using d1 s1 c1 r2 c2 s2 e(1,2) fx fy ex by blast
qed

end
